theory Spec2Isabelle
  imports Complex_Main
begin

section \<open>Strings\<close>

text \<open>
  A message is a \<^typ>\<open>string\<close>: one \<^typ>\<open>char\<close> per UTF-16 code unit of the
  JavaScript string, for the code units 0 to 255 (Basic Latin and Latin-1). Text
  with code units above 255 is outside the model.
\<close>

definition code_unit :: "char \<Rightarrow> nat" where
  "code_unit c = of_char c"

text \<open>\<^verbatim>\<open>String.prototype.toLowerCase\<close> on the code units 0 to 255: A-Z and the
  Latin-1 capitals (0xC0-0xDE without the multiplication sign 0xD7) move up by 32.\<close>

definition lower_char :: "char \<Rightarrow> char" where
  "lower_char c =
     (let n = code_unit c in
      if (65 \<le> n \<and> n \<le> 90) \<or> (192 \<le> n \<and> n \<le> 222 \<and> n \<noteq> 215)
      then char_of (n + 32) else c)"

definition toLowerCase :: "string \<Rightarrow> string" where
  "toLowerCase s = map lower_char s"

fun startsWith :: "string \<Rightarrow> string \<Rightarrow> bool" where
  "startsWith s [] = True"
| "startsWith [] (k # ks) = False"
| "startsWith (c # cs) (k # ks) = (c = k \<and> startsWith cs ks)"

fun js_includes :: "string \<Rightarrow> string \<Rightarrow> bool" where
  "js_includes [] k = (k = [])"
| "js_includes (c # cs) k = (startsWith (c # cs) k \<or> js_includes cs k)"

text \<open>The capital of a letter, for the case-insensitive comparison of a regular
  expression (flag \<^verbatim>\<open>i\<close>) and for \<^verbatim>\<open>toUpperCase\<close>: a-z and the Latin-1 small
  letters 0xE0-0xFE without the division sign 0xF7 move down by 32. The sharp s and
  the two letters whose capitals are code units above 255 (0xB5, 0xFF) stay.\<close>

definition upper_char :: "char \<Rightarrow> char" where
  "upper_char c =
     (let n = code_unit c in
      if (97 \<le> n \<and> n \<le> 122) \<or> (224 \<le> n \<and> n \<le> 254 \<and> n \<noteq> 247)
      then char_of (n - 32) else c)"

text \<open>White space of \<^verbatim>\<open>trim\<close> and of the class \<^verbatim>\<open>\s\<close>: tab, line feed, vertical
  tab, form feed, carriage return, space, no-break space.\<close>

definition is_ws :: "char \<Rightarrow> bool" where
  "is_ws c = (let n = code_unit c in (9 \<le> n \<and> n \<le> 13) \<or> n = 32 \<or> n = 160)"

definition trim :: "string \<Rightarrow> string" where
  "trim s = rev (dropWhile is_ws (rev (dropWhile is_ws s)))"

definition endsWith :: "string \<Rightarrow> string \<Rightarrow> bool" where
  "endsWith s k = startsWith (rev s) (rev k)"

definition is_digit :: "char \<Rightarrow> bool" where
  "is_digit c = (48 \<le> code_unit c \<and> code_unit c \<le> 57)"

text \<open>\<^verbatim>\<open>parseInt(s, 10)\<close>: leading white space and a sign are skipped, the digits up
  to the first other character are read; \<open>None\<close> is NaN.\<close>

definition digits_value :: "string \<Rightarrow> int" where
  "digits_value ds = foldl (\<lambda>acc c. 10 * acc + int (code_unit c - 48)) 0 ds"

definition parseInt :: "string \<Rightarrow> int option" where
  "parseInt s =
     (let t = dropWhile is_ws s;
          neg = (case t of [] \<Rightarrow> False | c # cs \<Rightarrow> c = CHR ''-'');
          u = (case t of [] \<Rightarrow> [] | c # cs \<Rightarrow> if c = CHR ''-'' \<or> c = CHR ''+'' then cs else t);
          ds = takeWhile is_digit u
      in if ds = [] then None
         else Some (if neg then - digits_value ds else digits_value ds))"

text \<open>\<^verbatim>\<open>String(n)\<close> for an integer.\<close>

fun digits_of :: "nat \<Rightarrow> nat \<Rightarrow> string" where
  "digits_of 0 n = []"
| "digits_of (Suc fuel) n =
     (if n < 10 then [char_of (48 + n)]
      else digits_of fuel (n div 10) @ [char_of (48 + n mod 10)])"

definition String_of_int :: "int \<Rightarrow> string" where
  "String_of_int i =
     (if i < 0 then CHR ''-'' # digits_of (Suc (nat (- i))) (nat (- i))
      else digits_of (Suc (nat i)) (nat i))"

definition padStart2 :: "string \<Rightarrow> string" where
  "padStart2 s = (if length s < 2 then replicate (2 - length s) CHR ''0'' @ s else s)"

section \<open>Regular expressions\<close>

text \<open>
  The regular expressions of the source, as a datatype, and a backtracking matcher
  with the priorities of the JavaScript one: the left alternative first, a
  quantifier greedy, the leftmost start that matches. \<open>Grp i r\<close> is the capturing
  group number \<open>i\<close>; \<open>WordB\<close> is \<^verbatim>\<open>\b\<close>, \<open>Bol\<close> and \<open>Eol\<close> are \<^verbatim>\<open>^\<close> and \<^verbatim>\<open>$\<close>
  (no regular expression of the source has the flag \<^verbatim>\<open>m\<close>), \<open>NLook r\<close> is \<^verbatim>\<open>(?!r)\<close>.
  A class is a list of ranges of code units.
\<close>

datatype rx =
    Eps
  | Lit string
  | Cls "(char \<times> char) list"
  | NCls "(char \<times> char) list"
  | Dot
  | Seq rx rx
  | Alt rx rx
  | Star rx
  | Grp nat rx
  | WordB
  | Bol
  | Eol
  | NLook rx

text \<open>The state of a match: the subject before the position (reversed), the subject
  from the position on, and the captures made so far (the latest first).\<close>

type_synonym caps = "(nat \<times> string) list"
type_synonym mstate = "string \<times> string \<times> caps"

definition in_range :: "char \<Rightarrow> char \<times> char \<Rightarrow> bool" where
  "in_range c r = (code_unit (fst r) \<le> code_unit c \<and> code_unit c \<le> code_unit (snd r))"

text \<open>With the flag \<^verbatim>\<open>i\<close>, a character is in a class when a character of the class
  has the same capital: the character itself, its small letter or its capital.\<close>

definition in_class :: "bool \<Rightarrow> (char \<times> char) list \<Rightarrow> char \<Rightarrow> bool" where
  "in_class ic rs c =
     (list_ex (in_range c) rs \<or>
      (ic \<and> (list_ex (in_range (lower_char c)) rs \<or> list_ex (in_range (upper_char c)) rs)))"

definition chr_eq :: "bool \<Rightarrow> char \<Rightarrow> char \<Rightarrow> bool" where
  "chr_eq ic a b = (if ic then upper_char a = upper_char b else a = b)"

definition is_word_char :: "char \<Rightarrow> bool" where
  "is_word_char c = list_ex (in_range c)
     [(CHR ''a'', CHR ''z''), (CHR ''A'', CHR ''Z''), (CHR ''0'', CHR ''9''), (CHR ''_'', CHR ''_'')]"

fun lit_match :: "bool \<Rightarrow> string \<Rightarrow> string \<Rightarrow> string \<Rightarrow> (string \<times> string) option" where
  "lit_match ic [] p s = Some (p, s)"
| "lit_match ic (l # ls) p [] = None"
| "lit_match ic (l # ls) p (c # s) = (if chr_eq ic l c then lit_match ic ls (c # p) s else None)"

definition at_boundary :: "string \<Rightarrow> string \<Rightarrow> bool" where
  "at_boundary p s =
     ((case p of [] \<Rightarrow> False | a # as \<Rightarrow> is_word_char a) \<noteq>
      (case s of [] \<Rightarrow> False | b # bs \<Rightarrow> is_word_char b))"

text \<open>The text between two positions of the subject, each given by what follows it.\<close>

definition cut :: "string \<Rightarrow> string \<Rightarrow> string" where
  "cut a b = take (length a - length b) a"

text \<open>A starred expression: another round as long as the round consumed a character,
  else the continuation. The counter is the length of the subject that is left.\<close>

fun star :: "((mstate \<Rightarrow> mstate option) \<Rightarrow> mstate \<Rightarrow> mstate option) \<Rightarrow>
    (mstate \<Rightarrow> mstate option) \<Rightarrow> nat \<Rightarrow> mstate \<Rightarrow> mstate option" where
  "star f k 0 st = k st"
| "star f k (Suc n) st =
     (case f (\<lambda>st'. if length (fst (snd st')) < length (fst (snd st)) then star f k n st' else None) st of
        Some r \<Rightarrow> Some r
      | None \<Rightarrow> k st)"

text \<open>\<open>rx_m r ic k st\<close>: match \<open>r\<close> at the state \<open>st\<close> and go on with \<open>k\<close>; \<open>None\<close> when
  every way to match fails.\<close>

primrec rx_m :: "rx \<Rightarrow> bool \<Rightarrow> (mstate \<Rightarrow> mstate option) \<Rightarrow> mstate \<Rightarrow> mstate option" where
  "rx_m Eps ic k st = k st"
| "rx_m (Lit l) ic k st =
     (case lit_match ic l (fst st) (fst (snd st)) of
        None \<Rightarrow> None
      | Some ps \<Rightarrow> k (fst ps, snd ps, snd (snd st)))"
| "rx_m (Cls rs) ic k st =
     (case fst (snd st) of [] \<Rightarrow> None
      | c # s \<Rightarrow> if in_class ic rs c then k (c # fst st, s, snd (snd st)) else None)"
| "rx_m (NCls rs) ic k st =
     (case fst (snd st) of [] \<Rightarrow> None
      | c # s \<Rightarrow> if in_class ic rs c then None else k (c # fst st, s, snd (snd st)))"
| "rx_m Dot ic k st =
     (case fst (snd st) of [] \<Rightarrow> None
      | c # s \<Rightarrow> if c = CHR 0x0A \<or> c = CHR 0x0D then None else k (c # fst st, s, snd (snd st)))"
| "rx_m (Seq a b) ic k st = rx_m a ic (rx_m b ic k) st"
| "rx_m (Alt a b) ic k st = (case rx_m a ic k st of Some r \<Rightarrow> Some r | None \<Rightarrow> rx_m b ic k st)"
| "rx_m (Star a) ic k st = star (rx_m a ic) k (length (fst (snd st))) st"
| "rx_m (Grp i a) ic k st =
     rx_m a ic (\<lambda>st'. k (fst st', fst (snd st'), (i, cut (fst (snd st)) (fst (snd st'))) # snd (snd st'))) st"
| "rx_m WordB ic k st = (if at_boundary (fst st) (fst (snd st)) then k st else None)"
| "rx_m Bol ic k st = (if fst st = [] then k st else None)"
| "rx_m Eol ic k st = (if fst (snd st) = [] then k st else None)"
| "rx_m (NLook a) ic k st = (case rx_m a ic Some st of Some r \<Rightarrow> None | None \<Rightarrow> k st)"

text \<open>The leftmost match from a position on: what precedes the match (reversed), the
  subject from the start of the match, and the state at its end.\<close>

fun rx_search :: "rx \<Rightarrow> bool \<Rightarrow> string \<Rightarrow> string \<Rightarrow> (string \<times> string \<times> mstate) option" where
  "rx_search r ic p [] =
     (case rx_m r ic Some (p, [], []) of None \<Rightarrow> None | Some e \<Rightarrow> Some (p, [], e))"
| "rx_search r ic p (c # s) =
     (case rx_m r ic Some (p, c # s, []) of
        Some e \<Rightarrow> Some (p, c # s, e)
      | None \<Rightarrow> rx_search r ic (c # p) s)"

text \<open>\<^verbatim>\<open>re.test(s)\<close>.\<close>

definition rx_test :: "rx \<Rightarrow> bool \<Rightarrow> string \<Rightarrow> bool" where
  "rx_test r ic s = (rx_search r ic [] s \<noteq> None)"

text \<open>\<^verbatim>\<open>s.match(re)\<close> without the flag \<^verbatim>\<open>g\<close>: the matched text (\<^verbatim>\<open>m[0]\<close>) and the
  captures; \<open>grp cs i\<close> is \<^verbatim>\<open>m[i]\<close>, \<open>None\<close> when the group took no part.\<close>

definition rx_match :: "rx \<Rightarrow> bool \<Rightarrow> string \<Rightarrow> (string \<times> caps) option" where
  "rx_match r ic s =
     (case rx_search r ic [] s of None \<Rightarrow> None
      | Some (p, s0, e) \<Rightarrow> Some (cut s0 (fst (snd e)), snd (snd e)))"

definition grp :: "caps \<Rightarrow> nat \<Rightarrow> string option" where
  "grp cs i = map_of cs i"

text \<open>\<^verbatim>\<open>s.replace(re, by)\<close> without the flag \<^verbatim>\<open>g\<close>: the first match is replaced.\<close>

definition replace_first :: "rx \<Rightarrow> bool \<Rightarrow> string \<Rightarrow> string \<Rightarrow> string" where
  "replace_first r ic by s =
     (case rx_search r ic [] s of None \<Rightarrow> s
      | Some (p, s0, e) \<Rightarrow> rev p @ by @ fst (snd e))"

text \<open>With the flag \<^verbatim>\<open>g\<close>: every match is replaced, each search starting where the
  match before ended; after an empty match the search moves on by one character.\<close>

fun replace_from :: "nat \<Rightarrow> rx \<Rightarrow> bool \<Rightarrow> string \<Rightarrow> string \<Rightarrow> string \<Rightarrow> string" where
  "replace_from 0 r ic by p s = s"
| "replace_from (Suc fuel) r ic by p s =
     (case rx_search r ic p s of None \<Rightarrow> s
      | Some (p0, s0, e) \<Rightarrow>
          cut s s0 @ by @
          (if length (fst (snd e)) < length s0 then replace_from fuel r ic by (fst e) (fst (snd e))
           else (case s0 of [] \<Rightarrow> []
                 | c # cs \<Rightarrow> c # replace_from fuel r ic by (c # p0) cs)))"

definition replace_all :: "rx \<Rightarrow> bool \<Rightarrow> string \<Rightarrow> string \<Rightarrow> string" where
  "replace_all r ic by s = replace_from (Suc (length s)) r ic by [] s"

text \<open>The loop \<^verbatim>\<open>while ((m = re.exec(s)))\<close> with the flag \<^verbatim>\<open>g\<close>: the captures of
  every match, in order.\<close>

fun exec_from :: "nat \<Rightarrow> rx \<Rightarrow> bool \<Rightarrow> string \<Rightarrow> string \<Rightarrow> caps list" where
  "exec_from 0 r ic p s = []"
| "exec_from (Suc fuel) r ic p s =
     (case rx_search r ic p s of None \<Rightarrow> []
      | Some (p0, s0, e) \<Rightarrow>
          snd (snd e) #
          (if length (fst (snd e)) < length s0 then exec_from fuel r ic (fst e) (fst (snd e))
           else (case s0 of [] \<Rightarrow> [] | c # cs \<Rightarrow> exec_from fuel r ic (c # p0) cs)))"

definition exec_all :: "rx \<Rightarrow> bool \<Rightarrow> string \<Rightarrow> caps list" where
  "exec_all r ic s = exec_from (Suc (length s)) r ic [] s"

text \<open>Derived forms: \<^verbatim>\<open>r?\<close>, \<^verbatim>\<open>r+\<close>, \<^verbatim>\<open>r{n}\<close>, \<^verbatim>\<open>r{lo,hi}\<close>, \<^verbatim>\<open>r{lo,}\<close>, a sequence, a
  choice, and the classes \<^verbatim>\<open>\d\<close> and \<^verbatim>\<open>\s\<close>.\<close>

definition Opt :: "rx \<Rightarrow> rx" where
  "Opt r = Alt r Eps"

definition Plus :: "rx \<Rightarrow> rx" where
  "Plus r = Seq r (Star r)"

primrec rep_exact :: "nat \<Rightarrow> rx \<Rightarrow> rx" where
  "rep_exact 0 r = Eps"
| "rep_exact (Suc n) r = Seq r (rep_exact n r)"

primrec rep_upto :: "nat \<Rightarrow> rx \<Rightarrow> rx" where
  "rep_upto 0 r = Eps"
| "rep_upto (Suc n) r = Alt (Seq r (rep_upto n r)) Eps"

definition Rep :: "nat \<Rightarrow> nat \<Rightarrow> rx \<Rightarrow> rx" where
  "Rep lo hi r = Seq (rep_exact lo r) (rep_upto (hi - lo) r)"

definition RepMin :: "nat \<Rightarrow> rx \<Rightarrow> rx" where
  "RepMin lo r = Seq (rep_exact lo r) (Star r)"

fun seqs :: "rx list \<Rightarrow> rx" where
  "seqs [] = Eps"
| "seqs [r] = r"
| "seqs (r # rs) = Seq r (seqs rs)"

text \<open>\<open>Never\<close> matches nothing: it stands for a literal with a code unit above 255,
  which no string of the model holds.\<close>

definition Never :: rx where
  "Never = NLook Eps"

fun alts :: "rx list \<Rightarrow> rx" where
  "alts [] = Never"
| "alts [r] = r"
| "alts (r # rs) = Alt r (alts rs)"

definition lits :: "string list \<Rightarrow> rx" where
  "lits ws = alts (map Lit ws)"

definition digit :: rx where
  "digit = Cls [(CHR ''0'', CHR ''9'')]"

definition wspace :: rx where
  "wspace = Cls [(CHR 0x09, CHR 0x0D), (CHR '' '', CHR '' ''), (CHR 0xA0, CHR 0xA0)]"

definition d12 :: rx where
  "d12 = Rep 1 2 digit"

definition az :: rx where
  "az = Cls [(CHR ''a'', CHR ''z'')]"

section \<open>Objects, exceptions and dates of the JavaScript runtime\<close>

text \<open>A function of the source either throws or returns.\<close>

datatype 'a outcome = Throws | Returns 'a

text \<open>
  A lookup \<^verbatim>\<open>TABLE[key]\<close> in an object literal finds the literal's own keys and the
  properties every object inherits. An inherited property is not \<^verbatim>\<open>undefined\<close>
  and is truthy, but it is neither a number nor an array.
\<close>

datatype 'a found = Undefined | Own 'a | Inherited

definition inherited_names :: "string list" where
  "inherited_names =
     [''constructor'', ''hasOwnProperty'', ''isPrototypeOf'', ''propertyIsEnumerable'',
      ''toLocaleString'', ''toString'', ''valueOf'', ''__proto__'', ''__defineGetter__'',
      ''__defineSetter__'', ''__lookupGetter__'', ''__lookupSetter__'']"

definition obj_lookup :: "(string \<times> 'a) list \<Rightarrow> string \<Rightarrow> 'a found" where
  "obj_lookup tab k =
     (case map_of tab k of Some v \<Rightarrow> Own v
      | None \<Rightarrow> if List.member inherited_names k then Inherited else Undefined)"

text \<open>
  A \<^verbatim>\<open>Date\<close> at local midnight is the number of its day, counted from 1 January
  1970; \<open>None\<close> is the invalid date. The clock gives the day of today and, for
  every day, whether local time is ahead of UTC at its midnight (with daylight
  saving that depends on the day): \<^verbatim>\<open>toISOString\<close> prints the UTC day of local
  midnight, which is then the day before.
\<close>

type_synonym jsdate = "int option"

record clock =
  today_day :: int
  ahead_of_utc :: "int \<Rightarrow> bool"

definition days_from_civil :: "int \<Rightarrow> int \<Rightarrow> int \<Rightarrow> int" where
  "days_from_civil y0 mo d =
     (let y = (if mo \<le> 2 then y0 - 1 else y0);
          era = y div 400;
          yoe = y - era * 400;
          doy = (153 * (if mo > 2 then mo - 3 else mo + 9) + 2) div 5 + d - 1;
          doe = yoe * 365 + yoe div 4 - yoe div 100 + doy
      in era * 146097 + doe - 719468)"

text \<open>Year, month (0 to 11) and day of the month of a day number.\<close>

definition civil_from_days :: "int \<Rightarrow> int \<times> int \<times> int" where
  "civil_from_days z0 =
     (let z = z0 + 719468;
          era = z div 146097;
          doe = z - era * 146097;
          yoe = (doe - doe div 1460 + doe div 36524 - doe div 146096) div 365;
          doy = doe - (365 * yoe + yoe div 4 - yoe div 100);
          mp = (5 * doy + 2) div 153;
          d = doy - (153 * mp + 2) div 5 + 1;
          mo = (if mp < 10 then mp + 3 else mp - 9);
          y = yoe + era * 400 + (if mo \<le> 2 then 1 else 0)
      in (y, mo - 1, d))"

text \<open>\<^verbatim>\<open>new Date(year, monthIndex, day)\<close>: a year from 0 to 99 is taken in the 1900s,
  a month or a day out of range carries over.\<close>

definition new_Date :: "int \<Rightarrow> int \<Rightarrow> int \<Rightarrow> int" where
  "new_Date year monthIndex day =
     (let y = (if 0 \<le> year \<and> year \<le> 99 then 1900 + year else year)
      in days_from_civil (y + monthIndex div 12) (monthIndex mod 12 + 1) 1 + (day - 1))"

definition getDay :: "int \<Rightarrow> int" where
  "getDay d = (d + 4) mod 7"

definition getFullYear :: "int \<Rightarrow> int" where
  "getFullYear d = fst (civil_from_days d)"

definition getMonth :: "int \<Rightarrow> int" where
  "getMonth d = fst (snd (civil_from_days d))"

definition getDate :: "int \<Rightarrow> int" where
  "getDate d = snd (snd (civil_from_days d))"

definition pad_to :: "nat \<Rightarrow> string \<Rightarrow> string" where
  "pad_to n s = replicate (n - length s) CHR ''0'' @ s"

text \<open>\<^verbatim>\<open>d.toISOString().slice(0, 10)\<close>.\<close>

definition iso_day :: "clock \<Rightarrow> int \<Rightarrow> string" where
  "iso_day clk d =
     (let u = (if ahead_of_utc clk d then d - 1 else d);
          y = getFullYear u;
          ys = (if 0 \<le> y \<and> y \<le> 9999 then pad_to 4 (String_of_int y)
                else (if y < 0 then ''-'' else ''+'') @ pad_to 6 (String_of_int (abs y)))
      in take 10 (ys @ ''-'' @ pad_to 2 (String_of_int (getMonth u + 1)) @ ''-''
                   @ pad_to 2 (String_of_int (getDate u))))"

section \<open>Slot parsers (service\_parser)\<close>

definition MONTHS :: "string list" where
  "MONTHS = [''January'', ''February'', ''March'', ''April'', ''May'', ''June'',
             ''July'', ''August'', ''September'', ''October'', ''November'', ''December'']"

definition WEEKDAYS :: "string list" where
  "WEEKDAYS = [''sunday'', ''monday'', ''tuesday'', ''wednesday'', ''thursday'', ''friday'', ''saturday'']"

definition WEEKDAY_ABBR :: "(string \<times> nat) list" where
  "WEEKDAY_ABBR =
     [(''sun'', 0), (''sunday'', 0),
      (''mon'', 1), (''monday'', 1), (''mondy'', 1), (''monady'', 1),
      (''tue'', 2), (''tues'', 2), (''tuesday'', 2), (''tus'', 2), (''tusday'', 2), (''tuesay'', 2),
      (''teusday'', 2),
      (''wed'', 3), (''weds'', 3), (''wedn'', 3), (''wednesday'', 3), (''wednsday'', 3),
      (''wensday'', 3), (''wednessday'', 3),
      (''thu'', 4), (''thur'', 4), (''thurs'', 4), (''thursday'', 4), (''thurday'', 4),
      (''thursdayy'', 4), (''thrsday'', 4), (''thrs'', 4),
      (''fri'', 5), (''friday'', 5), (''firday'', 5), (''friyay'', 5),
      (''sat'', 6), (''saturday'', 6), (''saturdy'', 6), (''saturay'', 6)]"

definition MONTH_ABBR :: "(string \<times> nat) list" where
  "MONTH_ABBR =
     [(''jan'', 0), (''january'', 0), (''janury'', 0),
      (''feb'', 1), (''febr'', 1), (''february'', 1), (''febuary'', 1), (''februrary'', 1),
      (''mar'', 2), (''march'', 2),
      (''apr'', 3), (''april'', 3), (''aprl'', 3),
      (''may'', 4),
      (''jun'', 5), (''june'', 5),
      (''jul'', 6), (''july'', 6),
      (''aug'', 7), (''august'', 7), (''agust'', 7),
      (''sep'', 8), (''sept'', 8), (''september'', 8), (''setpember'', 8), (''septermber'', 8),
      (''oct'', 9), (''october'', 9), (''octobr'', 9),
      (''nov'', 10), (''november'', 10), (''novembr'', 10),
      (''dec'', 11), (''december'', 11), (''decemebr'', 11)]"

definition TOMORROW_WORDS :: "string list" where
  "TOMORROW_WORDS = [''tomorrow'', ''tmrw'', ''tmr'', ''tomo'', ''tommorow'', ''tomorow'',
                     ''tomoroww'', ''tommorrow'', ''tmrrw'']"

text \<open>\<^verbatim>\<open>`${n}`\<close> of a number that may be NaN, and \<^verbatim>\<open>pad2\<close>.\<close>

definition pad2 :: "int \<Rightarrow> string" where
  "pad2 n = (if n < 10 then CHR ''0'' # String_of_int n else String_of_int n)"

definition today :: "clock \<Rightarrow> int" where
  "today clk = today_day clk"

definition addDays :: "int \<Rightarrow> int \<Rightarrow> int" where
  "addDays d days = d + days"

text \<open>\<^verbatim>\<open>fmtDate\<close>; the invalid date prints as NaN and an undefined month.\<close>

definition fmtDate :: "jsdate \<Rightarrow> string" where
  "fmtDate d =
     (case d of None \<Rightarrow> ''NaN undefined''
      | Some x \<Rightarrow> pad2 (getDate x) @ '' '' @ MONTHS ! nat (getMonth x))"

definition hasWord :: "string \<Rightarrow> string \<Rightarrow> bool" where
  "hasWord s w = rx_test (seqs [WordB, Lit w, WordB]) True s"

definition hasAnyWord :: "string \<Rightarrow> string list \<Rightarrow> bool" where
  "hasAnyWord s arr = list_ex (\<lambda>w. hasWord s w) arr"

text \<open>Levenshtein distance, row by row: \<open>lev_cells c b prev left\<close> fills the row of
  the character \<open>c\<close> from the row above (\<open>prev\<close>, from the cell up left on) and the
  cell to the left.\<close>

fun lev_cells :: "char \<Rightarrow> string \<Rightarrow> nat list \<Rightarrow> nat \<Rightarrow> nat list" where
  "lev_cells c (bj # bs) (diag # up # prev) left =
     (let cost = (if c = bj then 0 else 1);
          v = min (min (up + 1) (left + 1)) (diag + cost)
      in v # lev_cells c bs (up # prev) v)"
| "lev_cells c bs prev left = []"

definition lev_row :: "string \<Rightarrow> nat list \<Rightarrow> char \<Rightarrow> nat list" where
  "lev_row b prev c = (case prev of [] \<Rightarrow> [] | p0 # ps \<Rightarrow> (p0 + 1) # lev_cells c b prev (p0 + 1))"

definition lev :: "string \<Rightarrow> string \<Rightarrow> nat" where
  "lev a b = (case rev (foldl (lev_row b) (upt 0 (length b + 1)) a) of [] \<Rightarrow> 0 | x # xs \<Rightarrow> x)"

text \<open>The best weekday of the loop of \<^verbatim>\<open>fuzzyWeekday\<close>: the first with the least
  distance.\<close>

fun best_weekday :: "string \<Rightarrow> string list \<Rightarrow> nat \<Rightarrow> (nat \<times> nat) option \<Rightarrow> (nat \<times> nat) option" where
  "best_weekday w [] i best = best"
| "best_weekday w (d # ds) i best =
     (let dist = lev w d
      in best_weekday w ds (i + 1)
           (case best of None \<Rightarrow> Some (i, dist)
            | Some (bi, bd) \<Rightarrow> if dist < bd then Some (i, dist) else Some (bi, bd)))"

text \<open>A weekday or month index as the source holds it: a number, or the inherited
  property that the table lookup found.\<close>

datatype idx = Idx nat | NotANumber

definition idx_of_prop :: "nat found \<Rightarrow> idx option" where
  "idx_of_prop p = (case p of Undefined \<Rightarrow> None | Own n \<Rightarrow> Some (Idx n) | Inherited \<Rightarrow> Some NotANumber)"

definition fuzzyWeekday :: "string \<Rightarrow> idx option" where
  "fuzzyWeekday word =
     (let w = toLowerCase word in
      case idx_of_prop (obj_lookup WEEKDAY_ABBR w) of
        Some i \<Rightarrow> Some i
      | None \<Rightarrow>
          (case best_weekday w WEEKDAYS 0 None of
             None \<Rightarrow> None
           | Some (bestIdx, bestDist) \<Rightarrow> if bestDist \<le> 2 then Some (Idx bestIdx) else None))"

fun first_month :: "string \<Rightarrow> string list \<Rightarrow> nat \<Rightarrow> nat option" where
  "first_month w [] i = None"
| "first_month w (mth # ms) i =
     (let full = toLowerCase mth
      in if startsWith full w \<or> lev w full \<le> 2 then Some i else first_month w ms (i + 1))"

definition fuzzyMonth :: "string \<Rightarrow> idx option" where
  "fuzzyMonth word =
     (let w = toLowerCase word in
      case idx_of_prop (obj_lookup MONTH_ABBR w) of
        Some i \<Rightarrow> Some i
      | None \<Rightarrow> map_option Idx (first_month w MONTHS 0))"

text \<open>Next occurrence of weekday (allowing today if it is that weekday).\<close>

definition nextWeekday :: "clock \<Rightarrow> idx \<Rightarrow> jsdate" where
  "nextWeekday clk targetDow =
     (case targetDow of NotANumber \<Rightarrow> None
      | Idx n \<Rightarrow>
          (let t = today clk;
               diff = (int n - getDay t + 7) mod 7
           in Some (addDays t (if diff = 0 then 0 else diff))))"

text \<open>Next-week (strict) occurrence of weekday (always at least 7 days out).\<close>

definition nextWeekdayStrict :: "clock \<Rightarrow> idx \<Rightarrow> jsdate" where
  "nextWeekdayStrict clk targetDow =
     (case targetDow of NotANumber \<Rightarrow> None
      | Idx n \<Rightarrow>
          (let base = addDays (today clk) 7;
               diff = (int n - getDay base + 7) mod 7
           in Some (addDays base diff)))"

fun indexOf :: "string list \<Rightarrow> string \<Rightarrow> nat \<Rightarrow> nat option" where
  "indexOf [] x i = None"
| "indexOf (y # ys) x i = (if y = x then Some i else indexOf ys x (i + 1))"

text \<open>Always returns the next occurrence (never today) of weekday as ISO. The name is
  \<open>None\<close> when the caller's \<^verbatim>\<open>WEEKDAYS[i]\<close> is undefined: calling a method on it throws,
  as does an unknown name.\<close>

definition nextWeekdayISO :: "clock \<Rightarrow> string option \<Rightarrow> int \<Rightarrow> string outcome" where
  "nextWeekdayISO clk weekdayName base =
     (case weekdayName of None \<Rightarrow> Throws
      | Some nm \<Rightarrow>
          (case indexOf WEEKDAYS (toLowerCase nm) 0 of
             None \<Rightarrow> Throws
           | Some want \<Rightarrow>
               (let diff = (int want - getDay base + 7) mod 7;
                    add = (if diff = 0 then 7 else diff)
                in Returns (iso_day clk (base + add)))))"

text \<open>\<^verbatim>\<open>WEEKDAYS[i]\<close>.\<close>

definition weekday_name :: "idx \<Rightarrow> string option" where
  "weekday_name i = (case i of NotANumber \<Rightarrow> None
     | Idx n \<Rightarrow> if n < length WEEKDAYS then Some (WEEKDAYS ! n) else None)"

subsection \<open>Guests\<close>

definition GUEST_WORDS :: rx where
  "GUEST_WORDS = lits [''people'', ''persons'', ''person'', ''guests'', ''pax'', ''pers'', ''ppl'']"

definition CATEGORY_WORDS :: rx where
  "CATEGORY_WORDS =
     alts [Seq (Lit ''adult'') (Opt (Lit ''s'')), Seq (Lit ''kid'') (Opt (Lit ''s'')),
           Lit ''children'', Lit ''child'', Seq (Lit ''infant'') (Opt (Lit ''s'')),
           Seq (Lit ''bab'') (alts [Lit ''y'', Lit ''ies''])]"

definition am_pm :: rx where
  "am_pm = lits [''am'', ''pm'']"

text \<open>\<^verbatim>\<open>parseInt(m[i], 10)\<close> of a capture.\<close>

definition parseInt_grp :: "caps \<Rightarrow> nat \<Rightarrow> int option" where
  "parseInt_grp cs i = (case grp cs i of None \<Rightarrow> None | Some t \<Rightarrow> parseInt t)"

text \<open>The explicit common forms, in the order of the source:
  \<^verbatim>\<open>\bparty\s+of\s+(\d{1,2})\b\<close>, \<^verbatim>\<open>\bfor\s+(\d{1,2})(?!:\d{2})(?!\s*(?:am|pm)\b)\b\<close>,
  \<^verbatim>\<open>\b(\d{1,2})\s*GUEST_WORDS\b\<close>, \<^verbatim>\<open>\b(\d{1,2})ppl\b\<close>, \<^verbatim>\<open>\b(\d{1,2})\s*x\b\<close>,
  \<^verbatim>\<open>\bx\s*(\d{1,2})\b\<close>, \<^verbatim>\<open>\((\d{1,2})\)\<close>; all but the last with the flag i.\<close>

definition guest_patterns :: "(rx \<times> bool) list" where
  "guest_patterns =
     [(seqs [WordB, Lit ''party'', Plus wspace, Lit ''of'', Plus wspace, Grp 1 d12, WordB], True),
      (seqs [WordB, Lit ''for'', Plus wspace, Grp 1 d12,
             NLook (seqs [Lit '':'', Rep 2 2 digit]),
             NLook (seqs [Star wspace, am_pm, WordB]), WordB], True),
      (seqs [WordB, Grp 1 d12, Star wspace, GUEST_WORDS, WordB], True),
      (seqs [WordB, Grp 1 d12, Lit ''ppl'', WordB], True),
      (seqs [WordB, Grp 1 d12, Star wspace, Lit ''x'', WordB], True),
      (seqs [WordB, Lit ''x'', Star wspace, Grp 1 d12, WordB], True),
      (seqs [Lit ''('', Grp 1 d12, Lit '')''], False)]"

fun first_guest_pattern :: "(rx \<times> bool) list \<Rightarrow> string \<Rightarrow> int option" where
  "first_guest_pattern [] s = None"
| "first_guest_pattern (re # res) s =
     (case rx_match (fst re) (snd re) s of
        None \<Rightarrow> first_guest_pattern res s
      | Some mm \<Rightarrow>
          (case parseInt_grp (snd mm) 1 of
             None \<Rightarrow> first_guest_pattern res s
           | Some n \<Rightarrow> if n \<ge> 1 \<and> n \<le> 50 then Some n else first_guest_pattern res s))"

text \<open>The loop over \<^verbatim>\<open>(\d{1,2})\s*CATEGORY_WORDS\<close> (flags gi): the sum, and whether a
  category was found.\<close>

definition category_sum :: "string \<Rightarrow> int \<times> bool" where
  "category_sum s =
     foldl (\<lambda>acc cs. case parseInt_grp cs 1 of None \<Rightarrow> acc | Some n \<Rightarrow> (fst acc + n, True))
       (0, False)
       (exec_all (seqs [Grp 1 d12, Star wspace, CATEGORY_WORDS]) True s)"

definition parseGuests :: "string \<Rightarrow> int option" where
  "parseGuests text =
     (let s = trim (toLowerCase text) in
      if rx_test (seqs [WordB, Lit ''for'', Plus wspace, d12, Lit '':'', Rep 2 2 digit, WordB]) True s
      then None
      else if rx_test (seqs [WordB, Lit ''for'', Plus wspace, d12, Star wspace, Grp 1 am_pm, WordB]) True s
      then None
      else
        case rx_match (seqs [Bol, Opt (Lit ''(''), Star wspace, Grp 1 d12, Star wspace,
                             Opt (Lit '')''), Eol]) False s of
          Some solo \<Rightarrow>
            (case parseInt_grp (snd solo) 1 of
               None \<Rightarrow> None
             | Some n \<Rightarrow> if n \<ge> 1 \<and> n \<le> 50 then Some n else None)
        | None \<Rightarrow>
            (let cat = category_sum s;
                 sum = fst cat;
                 foundCategory = snd cat
             in if foundCategory \<and> sum \<ge> 1 \<and> sum \<le> 50 then Some sum
                else first_guest_pattern guest_patterns s))"

subsection \<open>Time\<close>

text \<open>\<^verbatim>\<open>[01]?\d|2[0-3]\<close>, \<^verbatim>\<open>[0-5]\d\<close>, \<^verbatim>\<open>@\s*\<close> and the date separator \<^verbatim>\<open>[\/\-\.]\<close>.\<close>

definition hour24 :: rx where
  "hour24 = Alt (Seq (Opt (Cls [(CHR ''0'', CHR ''1'')])) digit) (Seq (Lit ''2'') (Cls [(CHR ''0'', CHR ''3'')]))"

definition min_00_59 :: rx where
  "min_00_59 = Seq (Cls [(CHR ''0'', CHR ''5'')]) digit"

definition at_sign :: rx where
  "at_sign = Seq (Lit ''@'') (Star wspace)"

definition date_sep :: rx where
  "date_sep = Cls [(CHR ''/'', CHR ''/''), (CHR ''-'', CHR ''-''), (CHR ''.'', CHR ''.'')]"

text \<open>\<^verbatim>\<open>\b(\d{1,2})[\/\-\.](\d{1,2})(?:[\/\-\.](\d{2,4}))?\b\<close>.\<close>

definition numeric_date :: rx where
  "numeric_date =
     seqs [WordB, Grp 1 d12, date_sep, Grp 2 d12, Opt (Seq date_sep (Grp 3 (Rep 2 4 digit))), WordB]"

text \<open>\<^verbatim>\<open>/\bam|pm\b/\<close>: "am" at the start of a word, or "pm" at the end of one.\<close>

definition has_am_pm :: "string \<Rightarrow> bool" where
  "has_am_pm s = rx_test (Alt (Seq WordB (Lit ''am'')) (Seq (Lit ''pm'') WordB)) False s"

text \<open>\<^verbatim>\<open>.replace(/^@\s*/, '').replace(/\bat\s*/, '')\<close>.\<close>

definition strip_at :: "string \<Rightarrow> string" where
  "strip_at s =
     replace_first (seqs [WordB, Lit ''at'', Star wspace]) False []
       (replace_first (Seq Bol at_sign) False [] s)"

text \<open>The patterns of \<^verbatim>\<open>parseTime\<close>, in the order of the source: with am/pm (flag
  i), 24h HH:MM, 7.30, 7h30 (i), 8 o'clock (i; the class of the apostrophe also holds
  U+2019, a code unit above 255), at 8 / @8, bare hour or hour:minute.\<close>

definition time_patterns :: "(rx \<times> bool) list" where
  "time_patterns =
     [(seqs [WordB, Opt (Grp 1 at_sign), Grp 2 d12, Opt (alts [Lit '':'', Lit ''.'', Lit ''h'']),
             Opt (Grp 3 min_00_59), Star wspace, Grp 4 am_pm, WordB], True),
      (seqs [WordB, Opt (Grp 1 at_sign), Grp 2 hour24, Lit '':'', Grp 3 min_00_59, WordB], False),
      (seqs [WordB, Opt (Grp 1 at_sign), Grp 2 hour24, Lit ''.'', Grp 3 (Rep 2 2 digit), WordB], False),
      (seqs [WordB, Opt (Grp 1 at_sign), Grp 2 hour24, Lit ''h'', Grp 3 (Rep 2 2 digit), WordB], True),
      (seqs [WordB, Opt (Grp 1 at_sign), Grp 2 hour24, Star wspace, Lit ''o'',
             Cls [(CHR 0x27, CHR 0x27)], Lit ''clock'', WordB], True),
      (seqs [WordB, alts [Lit ''at'', Lit ''@''], Star wspace, Grp 1 hour24, WordB], False),
      (seqs [WordB, Grp 1 hour24, Opt (Seq (Lit '':'') (Grp 2 min_00_59)), WordB], False)]"

fun first_match :: "(rx \<times> bool) list \<Rightarrow> string \<Rightarrow> (string \<times> caps) option" where
  "first_match [] s = None"
| "first_match (re # res) s =
     (case rx_match (fst re) (snd re) s of None \<Rightarrow> first_match res s | Some m \<Rightarrow> Some m)"

definition isMorning :: "string \<Rightarrow> bool" where
  "isMorning s =
     rx_test (seqs [WordB,
        Grp 1 (alts [Lit ''morning'', seqs [Lit ''this'', Plus wspace, Lit ''morning''],
                     seqs [Lit ''in'', Plus wspace, Lit ''the'', Plus wspace, Lit ''morning''],
                     Lit ''brunch'', Lit ''breakfast'']), WordB]) False s"

definition isEvening :: "string \<Rightarrow> bool" where
  "isEvening s =
     rx_test (seqs [WordB,
        Grp 1 (alts [Lit ''evening'', seqs [Lit ''this'', Plus wspace, Lit ''evening''],
                     Lit ''tonight'', Lit ''dinner'']), WordB]) False s"

definition isAfternoon :: "string \<Rightarrow> bool" where
  "isAfternoon s =
     rx_test (seqs [WordB,
        Grp 1 (alts [Lit ''afternoon'', seqs [Lit ''this'', Plus wspace, Lit ''afternoon''],
                     Lit ''lunch'']), WordB]) False s"

text \<open>The guest and date snippets \<^verbatim>\<open>parseTime\<close> blanks before it looks for a time.\<close>

definition safe_text :: "string \<Rightarrow> string" where
  "safe_text s =
     replace_all (seqs [WordB, Grp 1 d12, Plus wspace, RepMin 3 az, WordB]) False '' ''
       (replace_all numeric_date False '' ''
         (replace_all (seqs [WordB, Grp 1 d12, Star wspace, CATEGORY_WORDS, WordB]) True '' ''
           (replace_all (seqs [WordB, Grp 1 d12, Star wspace, GUEST_WORDS, WordB]) True '' '' s)))"

definition noon_midday :: rx where
  "noon_midday = seqs [WordB, Grp 1 (lits [''noon'', ''midday'']), WordB]"

definition midnight :: rx where
  "midnight = seqs [WordB, Grp 1 (Lit ''midnight''), WordB]"

definition parseTime :: "string \<Rightarrow> string option" where
  "parseTime text =
     (let s = trim (toLowerCase text) in
      if rx_test noon_midday False s then Some ''12:00 pm''
      else if rx_test midnight False s then Some ''00:00''
      else
        case first_match time_patterns (safe_text s) of
          None \<Rightarrow> None
        | Some m \<Rightarrow>
            (let out = trim (strip_at (trim (fst m)))
             in if \<not> has_am_pm out
                then (if isMorning s then Some (out @ '' am'')
                      else if isEvening s \<or> isAfternoon s then Some (out @ '' pm'')
                      else Some out)
                else Some out))"

text \<open>\<^verbatim>\<open>raw.trim().toLowerCase().replace(/^@\s*/, '').replace(/\bat\s*/, '')\<close>.\<close>

definition clean_time :: "string \<Rightarrow> string" where
  "clean_time raw = strip_at (toLowerCase (trim raw))"

definition noon_midday_midnight :: rx where
  "noon_midday_midnight = seqs [WordB, Grp 1 (lits [''noon'', ''midday'', ''midnight'']), WordB]"

definition isAmbiguousTime :: "string \<Rightarrow> bool" where
  "isAmbiguousTime raw =
     (let cleaned = clean_time raw in
      if rx_test noon_midday_midnight False cleaned then False
      else if has_am_pm cleaned then False
      else
        case rx_match (seqs [Bol, Grp 1 d12, Opt (Seq (Lit '':'') (Grp 2 (Rep 2 2 digit))), Eol])
               False cleaned of
          None \<Rightarrow> False
        | Some bare \<Rightarrow>
            (case parseInt_grp (snd bare) 1 of None \<Rightarrow> False | Some h \<Rightarrow> h \<ge> 1 \<and> h \<le> 12))"

text \<open>\<open>grp_or cs i d\<close> is \<^verbatim>\<open>m[i] ?? d\<close>; \<open>grp_str\<close> is the capture where the source
  uses it as a string and the group always takes part.\<close>

definition grp_or :: "caps \<Rightarrow> nat \<Rightarrow> string \<Rightarrow> string" where
  "grp_or cs i d = (case grp cs i of None \<Rightarrow> d | Some t \<Rightarrow> t)"

definition grp_str :: "caps \<Rightarrow> nat \<Rightarrow> string" where
  "grp_str cs i = grp_or cs i ''undefined''"

definition normalizeTime :: "string \<Rightarrow> string option" where
  "normalizeTime text =
     (if text = [] then None
      else
        let s = clean_time text in
        if rx_test noon_midday False s then Some ''12:00''
        else if rx_test midnight False s then Some ''00:00''
        else
          case rx_match (seqs [WordB,
                   Grp 1 (Alt (Cls [(CHR ''1'', CHR ''9'')]) (Seq (Lit ''1'') (Cls [(CHR ''0'', CHR ''2'')]))),
                   Opt (Seq (Opt (Cls [(CHR '':'', CHR '':''), (CHR ''.'', CHR ''.''), (CHR ''h'', CHR ''h'')]))
                            (Grp 2 min_00_59)),
                   Opt wspace, Grp 3 am_pm, WordB]) False s of
            Some m \<Rightarrow>
              (case parseInt_grp (snd m) 1 of
                 None \<Rightarrow> None
               | Some h0 \<Rightarrow>
                   (let mins = grp_or (snd m) 2 ''00'';
                        ap = grp_str (snd m) 3;
                        h1 = (if ap = ''pm'' \<and> h0 \<noteq> 12 then h0 + 12 else h0);
                        h = (if ap = ''am'' \<and> h1 = 12 then 0 else h1)
                    in Some (padStart2 (String_of_int h) @ '':'' @ mins)))
          | None \<Rightarrow>
              (case rx_match (seqs [WordB, Grp 1 hour24, Lit '':'', Grp 2 min_00_59, WordB]) False s of
                 Some m \<Rightarrow> Some (padStart2 (grp_str (snd m) 1) @ '':'' @ grp_str (snd m) 2)
               | None \<Rightarrow>
                   (case rx_match (seqs [WordB, Grp 1 hour24,
                            Cls [(CHR ''.'', CHR ''.''), (CHR ''h'', CHR ''h'')], Grp 2 min_00_59, WordB])
                          False s of
                      Some m \<Rightarrow> Some (padStart2 (grp_str (snd m) 1) @ '':'' @ grp_str (snd m) 2)
                    | None \<Rightarrow> None)))"

text \<open>Pretty-print any time to 12h with am/pm.\<close>

definition time_sep :: rx where
  "time_sep = alts [Lit '':'', Lit ''.'', Lit ''h'']"

definition prettyTime :: "string \<Rightarrow> string" where
  "prettyTime raw =
     (let s = clean_time raw in
      if rx_test noon_midday False s then ''12:00 pm''
      else if rx_test midnight False s then ''12:00 am''
      else
        case rx_match (seqs [Bol, Grp 1 d12, Opt time_sep, Opt (Grp 2 (Rep 2 2 digit)), Star wspace,
                             Grp 3 am_pm, Eol]) True s of
          Some m \<Rightarrow>
            (case parseInt_grp (snd m) 1 of
               None \<Rightarrow> raw
             | Some h0 \<Rightarrow>
                 (let mins = (case grp (snd m) 2 of None \<Rightarrow> ''00'' | Some t \<Rightarrow> if t = [] then ''00'' else t);
                      ap = toLowerCase (grp_str (snd m) 3);
                      h1 = (if h0 = 0 then 12 else h0);
                      h = (if h1 > 12 then h1 mod 12 else h1)
                  in String_of_int h @ '':'' @ mins @ '' '' @ ap))
        | None \<Rightarrow>
            (case rx_match (seqs [Bol, Grp 1 d12, Opt time_sep, Opt (Grp 2 (Rep 2 2 digit)), Eol]) False s of
               Some m \<Rightarrow>
                 (case parseInt_grp (snd m) 1 of
                    None \<Rightarrow> raw
                  | Some h \<Rightarrow>
                      (let mins = grp_or (snd m) 2 ''00''
                       in if h = 0 then ''12:'' @ mins @ '' am''
                          else if h = 12 then ''12:'' @ mins @ '' pm''
                          else if h > 12 then String_of_int (h - 12) @ '':'' @ mins @ '' pm''
                          else String_of_int h @ '':'' @ mins))
             | None \<Rightarrow> raw))"

definition isTimeUnclear :: "string \<Rightarrow> bool" where
  "isTimeUnclear text =
     (case parseTime text of
        None \<Rightarrow> True
      | Some raw \<Rightarrow> if raw = [] then True else isAmbiguousTime raw)"

subsection \<open>Date\<close>

definition weekday_alt :: rx where
  "weekday_alt =
     lits [''mon'', ''tue'', ''tues'', ''wed'', ''thu'', ''thur'', ''thurs'', ''fri'', ''sat'', ''sun'',
           ''monday'', ''tuesday'', ''wednesday'', ''thursday'', ''friday'', ''saturday'', ''sunday'']"

text \<open>\<^verbatim>\<open>today\<close>, \<^verbatim>\<open>tonight\<close> or \<^verbatim>\<open>this (morning|afternoon|evening)\<close>.\<close>

definition mentions_today :: "string \<Rightarrow> bool" where
  "mentions_today s =
     (rx_test (seqs [WordB, Lit ''today'', WordB]) False s \<or>
      rx_test (seqs [WordB, Lit ''tonight'', WordB]) False s \<or>
      rx_test (seqs [WordB, Lit ''this'', Plus wspace,
                     Grp 1 (lits [''morning'', ''afternoon'', ''evening'']), WordB]) False s)"

text \<open>The three forms of "next week's weekday":
  \<^verbatim>\<open>\bnext\s+(weekday)\b\<close>, \<^verbatim>\<open>\b(weekday)\s+next\s+week\b\<close>,
  \<^verbatim>\<open>\bnext\s+week\s+(weekday)\b\<close>.\<close>

definition next_week_patterns :: "rx list" where
  "next_week_patterns =
     [seqs [WordB, Lit ''next'', Plus wspace, Grp 1 weekday_alt, WordB],
      seqs [WordB, Grp 1 weekday_alt, Plus wspace, Lit ''next'', Plus wspace, Lit ''week'', WordB],
      seqs [WordB, Lit ''next'', Plus wspace, Lit ''week'', Plus wspace, Grp 1 weekday_alt, WordB]]"

text \<open>The first of the three forms that matches and whose weekday is found gives the
  date of that weekday in the week after.\<close>

fun next_week_date :: "clock \<Rightarrow> rx list \<Rightarrow> string \<Rightarrow> jsdate option" where
  "next_week_date clk [] s = None"
| "next_week_date clk (re # res) s =
     (case rx_match re False s of
        None \<Rightarrow> next_week_date clk res s
      | Some m \<Rightarrow>
          (case fuzzyWeekday (grp_str (snd m) 1) of
             None \<Rightarrow> next_week_date clk res s
           | Some i \<Rightarrow> Some (nextWeekdayStrict clk i)))"

text \<open>The first word of three or more small letters: \<^verbatim>\<open>\b([a-z]{3,})\b\<close>.\<close>

definition first_word :: "string \<Rightarrow> string option" where
  "first_word s =
     (case rx_match (seqs [WordB, Grp 1 (RepMin 3 az), WordB]) False s of
        None \<Rightarrow> None | Some wd \<Rightarrow> Some (grp_str (snd wd) 1))"

text \<open>\<^verbatim>\<open>\b(\d{1,2})\s*([a-z]{3,})\b\<close>: a day and a month name.\<close>

definition day_month :: rx where
  "day_month = seqs [WordB, Grp 1 d12, Star wspace, Grp 2 (RepMin 3 az), WordB]"

text \<open>The year of a numeric date: two digits are taken in the 2000s.\<close>

definition year_of :: "caps \<Rightarrow> int \<Rightarrow> int" where
  "year_of cs this_year =
     (case grp cs 3 of
        None \<Rightarrow> this_year
      | Some t \<Rightarrow> (case parseInt t of None \<Rightarrow> this_year
                  | Some y \<Rightarrow> if y < 100 then 2000 + y else y))"

definition parseDate :: "clock \<Rightarrow> string \<Rightarrow> string option" where
  "parseDate clk text =
     (let s = toLowerCase (trim text) in
      if mentions_today s then Some (fmtDate (Some (today clk)))
      else if hasAnyWord s TOMORROW_WORDS then Some (fmtDate (Some (addDays (today clk) 1)))
      else
        case next_week_date clk next_week_patterns s of
          Some d \<Rightarrow> Some (fmtDate d)
        | None \<Rightarrow>
            (case (case first_word s of
                     None \<Rightarrow> None
                   | Some w \<Rightarrow>
                       (case idx_of_prop (obj_lookup WEEKDAY_ABBR w) of
                          Some i \<Rightarrow> Some (fmtDate (nextWeekday clk i))
                        | None \<Rightarrow>
                            (case fuzzyWeekday w of
                               Some i \<Rightarrow> Some (fmtDate (nextWeekday clk i))
                             | None \<Rightarrow> None))) of
               Some r \<Rightarrow> Some r
             | None \<Rightarrow>
                 (case (case rx_match numeric_date False s of
                          None \<Rightarrow> None
                        | Some m \<Rightarrow>
                            (case (parseInt_grp (snd m) 1, parseInt_grp (snd m) 2) of
                               (Some dd, Some mm) \<Rightarrow>
                                 if dd \<ge> 1 \<and> dd \<le> 31 \<and> mm \<ge> 1 \<and> mm \<le> 12
                                 then Some (fmtDate (Some (new_Date
                                        (year_of (snd m) (getFullYear (today clk))) (mm - 1) dd)))
                                 else None
                             | _ \<Rightarrow> None)) of
                    Some r \<Rightarrow> Some r
                  | None \<Rightarrow>
                      (case rx_match day_month False s of
                         None \<Rightarrow> None
                       | Some m \<Rightarrow>
                           (case (parseInt_grp (snd m) 1, fuzzyMonth (grp_str (snd m) 2)) of
                              (Some dd, Some (Idx monIdx)) \<Rightarrow>
                                if dd \<ge> 1 \<and> dd \<le> 31
                                then Some (fmtDate (Some (new_Date (getFullYear (today clk))
                                       (int monIdx) dd)))
                                else None
                            | _ \<Rightarrow> None)))))"

text \<open>\<^verbatim>\<open>\b(20\d{2})-(0?[1-9]|1[0-2])-(0?[1-9]|[12]\d|3[01])\b\<close>.\<close>

definition iso_in_text :: rx where
  "iso_in_text =
     seqs [WordB, Grp 1 (Seq (Lit ''20'') (Rep 2 2 digit)), Lit ''-'',
           Grp 2 (Alt (Seq (Opt (Lit ''0'')) (Cls [(CHR ''1'', CHR ''9'')]))
                      (Seq (Lit ''1'') (Cls [(CHR ''0'', CHR ''2'')]))),
           Lit ''-'',
           Grp 3 (alts [Seq (Opt (Lit ''0'')) (Cls [(CHR ''1'', CHR ''9'')]),
                        Seq (Cls [(CHR ''1'', CHR ''2'')]) digit,
                        Seq (Lit ''3'') (Cls [(CHR ''0'', CHR ''1'')])]),
           WordB]"

text \<open>The strict next-week date of \<^verbatim>\<open>normalizeDateToISO\<close>, printed as ISO.\<close>

fun next_week_iso :: "clock \<Rightarrow> rx list \<Rightarrow> string \<Rightarrow> string outcome option" where
  "next_week_iso clk [] s = None"
| "next_week_iso clk (re # res) s =
     (case rx_match re False s of
        None \<Rightarrow> next_week_iso clk res s
      | Some m \<Rightarrow>
          (case fuzzyWeekday (grp_str (snd m) 1) of
             None \<Rightarrow> next_week_iso clk res s
           | Some i \<Rightarrow>
               (case nextWeekdayStrict clk i of
                  None \<Rightarrow> Some Throws
                | Some d \<Rightarrow> Some (Returns (iso_day clk d)))))"

text \<open>Normalize common date inputs to ISO (YYYY-MM-DD). The default \<^verbatim>\<open>base\<close> is
  today. A weekday index that is no number makes \<^verbatim>\<open>nextWeekdayISO\<close> throw.\<close>

definition normalizeDateToISO :: "clock \<Rightarrow> string \<Rightarrow> int \<Rightarrow> string option outcome" where
  "normalizeDateToISO clk text base =
     (if text = [] then Returns None
      else
        let s = toLowerCase (trim text) in
        if mentions_today s then Returns (Some (iso_day clk base))
        else if hasAnyWord s TOMORROW_WORDS then Returns (Some (iso_day clk (addDays base 1)))
        else
          case (case rx_match iso_in_text False s of
                  None \<Rightarrow> None
                | Some m \<Rightarrow>
                    (case (parseInt_grp (snd m) 1, parseInt_grp (snd m) 2, parseInt_grp (snd m) 3) of
                       (Some y, Some mo, Some dd) \<Rightarrow> Some (iso_day clk (new_Date y (mo - 1) dd))
                     | _ \<Rightarrow> None)) of
            Some r \<Rightarrow> Returns (Some r)
          | None \<Rightarrow>
              (case (case rx_match numeric_date False s of
                       None \<Rightarrow> None
                     | Some m \<Rightarrow>
                         (case (parseInt_grp (snd m) 1, parseInt_grp (snd m) 2) of
                            (Some dd, Some mm) \<Rightarrow>
                              Some (iso_day clk (new_Date (year_of (snd m) (getFullYear base)) (mm - 1) dd))
                          | _ \<Rightarrow> None)) of
                 Some r \<Rightarrow> Returns (Some r)
               | None \<Rightarrow>
                   (case (case rx_match day_month False s of
                            None \<Rightarrow> None
                          | Some m \<Rightarrow>
                              (case (parseInt_grp (snd m) 1, fuzzyMonth (grp_str (snd m) 2)) of
                                 (Some dd, Some (Idx monIdx)) \<Rightarrow>
                                   if dd \<ge> 1 \<and> dd \<le> 31
                                   then Some (iso_day clk (new_Date (getFullYear base) (int monIdx) dd))
                                   else None
                               | _ \<Rightarrow> None)) of
                      Some r \<Rightarrow> Returns (Some r)
                    | None \<Rightarrow>
                        (case next_week_iso clk next_week_patterns s of
                           Some (Returns r) \<Rightarrow> Returns (Some r)
                         | Some Throws \<Rightarrow> Throws
                         | None \<Rightarrow>
                             (case first_word s of
                                None \<Rightarrow> Returns None
                              | Some w \<Rightarrow>
                                  (case idx_of_prop (obj_lookup WEEKDAY_ABBR w) of
                                     Some i \<Rightarrow>
                                       (case nextWeekdayISO clk (weekday_name i) base of
                                          Throws \<Rightarrow> Throws | Returns r \<Rightarrow> Returns (Some r))
                                   | None \<Rightarrow>
                                       (case fuzzyWeekday w of
                                          Some i \<Rightarrow>
                                            (case nextWeekdayISO clk (weekday_name i) base of
                                               Throws \<Rightarrow> Throws | Returns r \<Rightarrow> Returns (Some r))
                                        | None \<Rightarrow> Returns None)))))))"

subsection \<open>Name\<close>

text \<open>The class \<^verbatim>\<open>[,\-.\s]\<close> of \<^verbatim>\<open>cleanPoliteness\<close> (the source's class also holds the
  dashes U+2013 and U+2014, code units above 255).\<close>

definition punct_ws :: rx where
  "punct_ws = Cls [(CHR '','', CHR '',''), (CHR ''-'', CHR ''-''), (CHR ''.'', CHR ''.''),
                   (CHR 0x09, CHR 0x0D), (CHR '' '', CHR '' ''), (CHR 0xA0, CHR 0xA0)]"

definition cleanPoliteness :: "string \<Rightarrow> string" where
  "cleanPoliteness n =
     trim
       (replace_all (Plus wspace) False '' ''
         (replace_all (Alt (Seq Bol (Plus punct_ws)) (Seq (Plus punct_ws) Eol)) False []
           (replace_all
              (seqs [WordB,
                 Grp 1 (alts [Lit ''please'', Lit ''pls'', Lit ''plz'',
                              seqs [Lit ''thank'', Star wspace, Lit ''you''], Lit ''thanks'']),
                 WordB]) True [] n)))"

text \<open>The first character of a name, \<^verbatim>\<open>[A-Za-z\u00C0-\u00FF]\<close>, and the characters after
  it, \<^verbatim>\<open>[A-Za-z\u00C0-\u00FF' -]\<close>.\<close>

definition name_first :: rx where
  "name_first = Cls [(CHR ''A'', CHR ''Z''), (CHR ''a'', CHR ''z''), (CHR 0xC0, CHR 0xFF)]"

definition name_rest :: rx where
  "name_rest = Cls [(CHR ''A'', CHR ''Z''), (CHR ''a'', CHR ''z''), (CHR 0xC0, CHR 0xFF),
                    (CHR 0x27, CHR 0x27), (CHR '' '', CHR '' ''), (CHR ''-'', CHR ''-'')]"

definition name_rx :: rx where
  "name_rx = Seq name_first (RepMin 1 name_rest)"

definition looksLikeName :: "string \<Rightarrow> bool" where
  "looksLikeName n = rx_test (seqs [Bol, name_rx, Eol]) False n"

definition WEEKDAY_WORDS :: "string list" where
  "WEEKDAY_WORDS = [''sunday'', ''monday'', ''tuesday'', ''wednesday'', ''thursday'', ''friday'', ''saturday'']"

definition MONTH_WORDS :: "string list" where
  "MONTH_WORDS = [''january'', ''february'', ''march'', ''april'', ''may'', ''june'', ''july'',
                  ''august'', ''september'', ''october'', ''november'', ''december'']"

definition isDateLike :: "string \<Rightarrow> bool" where
  "isDateLike s =
     (let t = trim (toLowerCase s) in
      List.member WEEKDAY_WORDS t \<or>
      List.member MONTH_WORDS t \<or>
      rx_test (seqs [WordB, Grp 1 (lits [''today'', ''tomorrow'', ''tonight'']), WordB]) False t \<or>
      rx_test (seqs [WordB, Grp 1 (lits [''next'', ''this'']), Plus wspace,
                     Grp 2 (Alt (lits [''week'', ''weekend'']) weekday_alt), WordB]) False t \<or>
      rx_test numeric_date False t \<or>
      rx_test (seqs [WordB, Grp 1 d12, Plus wspace, RepMin 3 az, WordB]) True t)"

definition isTimeOrGuestLike :: "string \<Rightarrow> bool" where
  "isTimeOrGuestLike s =
     (let t = toLowerCase s in
      rx_test (seqs [WordB, lits [''am'', ''pm'', ''noon'', ''midday'', ''midnight''], WordB]) False t \<or>
      rx_test (seqs [WordB, Grp 1 hour24,
                     Cls [(CHR '':'', CHR '':''), (CHR ''.'', CHR ''.''), (CHR ''h'', CHR ''h'')],
                     min_00_59, WordB]) False t \<or>
      rx_test (seqs [WordB, GUEST_WORDS, WordB]) False t \<or>
      rx_test (seqs [WordB, CATEGORY_WORDS, WordB]) False t \<or>
      rx_test (seqs [WordB, Plus digit, WordB]) False t)"

text \<open>The cues of highest confidence, all with the flag i:
  \<^verbatim>\<open>\bunder\s+(?:the\s+name\s+)?(NAME)\b\<close>, \<^verbatim>\<open>\bname\s+(?:is\s+)?(NAME)\b\<close>,
  \<^verbatim>\<open>^(NAME)\s+(?:please|pls|plz|thanks|thank\s*you)\b\<close>.\<close>

definition name_patterns :: "rx list" where
  "name_patterns =
     [seqs [WordB, Lit ''under'', Plus wspace,
            Opt (seqs [Lit ''the'', Plus wspace, Lit ''name'', Plus wspace]), Grp 1 name_rx, WordB],
      seqs [WordB, Lit ''name'', Plus wspace, Opt (seqs [Lit ''is'', Plus wspace]), Grp 1 name_rx, WordB],
      seqs [Bol, Grp 1 name_rx, Plus wspace,
            alts [Lit ''please'', Lit ''pls'', Lit ''plz'', Lit ''thanks'',
                  seqs [Lit ''thank'', Star wspace, Lit ''you'']], WordB]]"

fun first_name :: "rx list \<Rightarrow> string \<Rightarrow> string option" where
  "first_name [] s = None"
| "first_name (re # res) s =
     (case rx_match re True s of
        None \<Rightarrow> first_name res s
      | Some m \<Rightarrow>
          (let cand = cleanPoliteness (grp_str (snd m) 1)
           in if looksLikeName cand then Some cand else first_name res s))"

text \<open>\<^verbatim>\<open>\bfor\s+(NAME)(?:[.!?,\s]|$)\<close> (flag i).\<close>

definition for_name :: rx where
  "for_name =
     seqs [WordB, Lit ''for'', Plus wspace, Grp 1 name_rx,
           Alt (Cls [(CHR ''.'', CHR ''.''), (CHR ''!'', CHR ''!''), (CHR ''?'', CHR ''?''),
                     (CHR '','', CHR '',''), (CHR 0x09, CHR 0x0D), (CHR '' '', CHR '' ''),
                     (CHR 0xA0, CHR 0xA0)]) Eol]"

text \<open>A message with booking vocabulary or a digit reads as a sentence, not as a name.\<close>

definition sentencey :: "string \<Rightarrow> bool" where
  "sentencey s =
     rx_test (Alt (seqs [WordB,
                Grp 1 (lits [''book'', ''reserve'', ''table'', ''tomorrow'', ''today'', ''tonight'',
                             ''morning'', ''afternoon'', ''evening'', ''lunch'', ''dinner'',
                             ''breakfast'', ''am'', ''pm'', ''people'', ''guests'', ''pax'', ''kids'',
                             ''adults'']), WordB]) digit) True s"

definition parseName :: "string \<Rightarrow> string option" where
  "parseName text =
     (let s = trim text in
      case first_name name_patterns s of
        Some n \<Rightarrow> Some n
      | None \<Rightarrow>
          (case (case rx_match for_name True s of
                   None \<Rightarrow> None
                 | Some m \<Rightarrow>
                     (let cand = cleanPoliteness (grp_str (snd m) 1)
                      in if looksLikeName cand \<and> \<not> isDateLike cand \<and> \<not> isTimeOrGuestLike cand
                         then Some cand else None)) of
             Some n \<Rightarrow> Some n
           | None \<Rightarrow>
               if \<not> sentencey s
               then (let cand = cleanPoliteness s
                     in if looksLikeName cand \<and> \<not> isDateLike cand \<and> \<not> isTimeOrGuestLike cand
                        then Some cand else None)
               else None))"

subsection \<open>Pretty printers\<close>

text \<open>\<^verbatim>\<open>/^\d{4}-\d{2}-\d{2}$/\<close>.\<close>

definition iso_shape :: rx where
  "iso_shape = seqs [Bol, Rep 4 4 digit, Lit ''-'', Rep 2 2 digit, Lit ''-'', Rep 2 2 digit, Eol]"

definition prettyDate :: "clock \<Rightarrow> string \<Rightarrow> string" where
  "prettyDate clk input =
     (if input = [] then input
      else
        let s = trim input in
        if rx_test iso_shape False s
        then (case (parseInt (take 4 s), parseInt (take 2 (drop 5 s)), parseInt (take 2 (drop 8 s))) of
                (Some y, Some m, Some d) \<Rightarrow> fmtDate (Some (new_Date y (m - 1) d))
              | _ \<Rightarrow> input)
        else (case parseDate clk s of None \<Rightarrow> input | Some pretty \<Rightarrow> pretty))"

text \<open>Clear/unclear check used by handler.\<close>

definition isDateUnclear :: "clock \<Rightarrow> string \<Rightarrow> bool" where
  "isDateUnclear clk text =
     (if text = [] then True
      else
        let s = trim text in
        if rx_test iso_shape False s then False
        else parseDate clk s = None)"

section \<open>Service-flow payload\<close>

text \<open>A value stored in \<^verbatim>\<open>collected\<close>: the guest count is a number, the other
  slots are strings.\<close>

datatype jsval = Num int | Str string

text \<open>JavaScript truthiness of a stored value.\<close>

fun truthy :: "jsval \<Rightarrow> bool" where
  "truthy (Num n) = (n \<noteq> 0)"
| "truthy (Str s) = (s \<noteq> [])"

record BookingDetails =
  bd_name :: "string option"
  bd_guests :: "int option"
  bd_date :: "string option"
  bd_time :: "string option"

text \<open>
  The \<^verbatim>\<open>service_flow\<close> column. The source reads it as an untyped object and tells
  the two shapes apart by which key is present, so every key is optional here.
  \<^verbatim>\<open>next\<close> is \<open>next_field\<close>.
\<close>

record flow =
  pending :: "BookingDetails option"
  step :: "string option"
  service_key :: "string option"
  required :: "string list option"
  collected :: "(string \<times> jsval) list option"
  next_field :: "string option"
  pending_time_raw :: "string option"

section \<open>Conversation state store (conv\_state\_repo)\<close>

text \<open>One row of \<^verbatim>\<open>conversation_states\<close>. Timestamps are milliseconds.\<close>

record row =
  property_id :: string
  conversation_id :: string
  paused :: bool
  resume_at :: "int option"
  paused_until :: "int option"
  escalated :: bool
  watch_mode :: bool
  clarify_attempts :: int
  negative_count :: int
  service_flow :: "flow option"

type_synonym table = "row list"

definition is_key :: "string \<Rightarrow> string \<Rightarrow> row \<Rightarrow> bool" where
  "is_key p c r = (property_id r = p \<and> conversation_id r = c)"

text \<open>\<^verbatim>\<open>UPDATE ... SET ... WHERE cond\<close>: every row that satisfies the condition is
  rewritten; a table without such a row is left as it is.\<close>

definition update_where :: "(row \<Rightarrow> bool) \<Rightarrow> (row \<Rightarrow> row) \<Rightarrow> table \<Rightarrow> table" where
  "update_where cond f t = map (\<lambda>r. if cond r then f r else r) t"

definition rowCount :: "(row \<Rightarrow> bool) \<Rightarrow> table \<Rightarrow> nat" where
  "rowCount cond t = length (filter cond t)"

definition fresh_row :: "string \<Rightarrow> string \<Rightarrow> row" where
  "fresh_row p c =
     \<lparr> property_id = p, conversation_id = c, paused = False, resume_at = None,
       paused_until = None, escalated = False, watch_mode = False,
       clarify_attempts = 0, negative_count = 0, service_flow = None \<rparr>"

text \<open>\<^verbatim>\<open>INSERT ... ON CONFLICT (property_id, conversation_id) DO NOTHING\<close>.\<close>

definition ensureState :: "string \<Rightarrow> string \<Rightarrow> table \<Rightarrow> table" where
  "ensureState p c t = (if list_ex (is_key p c) t then t else t @ [fresh_row p c])"

text \<open>
  \<^verbatim>\<open>getState\<close> selects the key, \<open>paused\<close>, \<open>resume_at\<close>, \<open>escalated\<close>, \<open>watch_mode\<close> and the
  two counters of the first row of the key; the columns \<open>paused_until\<close> and
  \<open>service_flow\<close> are not in its query. Here it returns the stored row, and the handlers
  below read only the selected columns of its result.
\<close>

definition getState :: "string \<Rightarrow> string \<Rightarrow> table \<Rightarrow> row option" where
  "getState p c t = (case filter (is_key p c) t of [] \<Rightarrow> None | r # rs \<Rightarrow> Some r)"

definition enterSoftWatch :: "string \<Rightarrow> string \<Rightarrow> table \<Rightarrow> table" where
  "enterSoftWatch p c t =
     update_where (is_key p c) (\<lambda>r. r\<lparr>watch_mode := True\<rparr>) (ensureState p c t)"

definition incrementClarify :: "string \<Rightarrow> string \<Rightarrow> table \<Rightarrow> table" where
  "incrementClarify p c t =
     update_where (is_key p c) (\<lambda>r. r\<lparr>clarify_attempts := clarify_attempts r + 1\<rparr>) t"

definition incrementNegative :: "string \<Rightarrow> string \<Rightarrow> table \<Rightarrow> table" where
  "incrementNegative p c t =
     update_where (is_key p c) (\<lambda>r. r\<lparr>negative_count := negative_count r + 1\<rparr>) t"

text \<open>Returns the flag "had been escalated before" (no row was updated now) and the
  new table.\<close>

definition markEscalatedOnce :: "string \<Rightarrow> string \<Rightarrow> table \<Rightarrow> bool \<times> table" where
  "markEscalatedOnce p c t =
     (let t1 = ensureState p c t;
          cond = (\<lambda>r. is_key p c r \<and> escalated r = False)
      in (rowCount cond t1 = 0, update_where cond (\<lambda>r. r\<lparr>escalated := True\<rparr>) t1))"

definition enterHardPause :: "int \<Rightarrow> string \<Rightarrow> string \<Rightarrow> int \<Rightarrow> table \<Rightarrow> table" where
  "enterHardPause now p c minutes t =
     update_where (is_key p c)
       (\<lambda>r. r\<lparr>paused := True, resume_at := Some (now + minutes * 60 * 1000), watch_mode := False\<rparr>)
       (ensureState p c t)"

definition resumeNow :: "string \<Rightarrow> string \<Rightarrow> table \<Rightarrow> table" where
  "resumeNow p c t =
     update_where (is_key p c)
       (\<lambda>r. r\<lparr>paused := False, resume_at := None, paused_until := None, watch_mode := False,
              clarify_attempts := 0, negative_count := 0\<rparr>)
       (ensureState p c t)"

definition is_due :: "int \<Rightarrow> row \<Rightarrow> bool" where
  "is_due now r =
     (paused r \<and>
      ((case resume_at r of None \<Rightarrow> False | Some d \<Rightarrow> d \<le> now) \<or>
       (case paused_until r of None \<Rightarrow> False | Some d \<Rightarrow> d \<le> now)))"

text \<open>The sweep: at most 200 due rows are selected, each is resumed; the selected
  rows are returned with the table.\<close>

definition autoResumeDueConversations :: "int \<Rightarrow> table \<Rightarrow> row list \<times> table" where
  "autoResumeDueConversations now t =
     (let rows = take 200 (filter (is_due now) t)
      in (rows, fold (\<lambda>r acc. resumeNow (property_id r) (conversation_id r) acc) rows t))"

text \<open>Clear only pause/watch flags (used by resumeBot).\<close>

definition clearPause :: "string \<Rightarrow> string \<Rightarrow> table \<Rightarrow> table" where
  "clearPause p c t =
     update_where (is_key p c)
       (\<lambda>r. r\<lparr>paused := False, resume_at := None, paused_until := None, watch_mode := False\<rparr>) t"

text \<open>Fully reset state (used by resolveConversation).\<close>

definition clearState :: "string \<Rightarrow> string \<Rightarrow> table \<Rightarrow> table" where
  "clearState p c t =
     update_where (is_key p c)
       (\<lambda>r. r\<lparr>paused := False, resume_at := None, paused_until := None, escalated := False,
              watch_mode := False, clarify_attempts := 0, negative_count := 0\<rparr>) t"

text \<open>
  \<^verbatim>\<open>manualPauseForMinutes\<close> sets \<^verbatim>\<open>resume_at = NOW() + ($1 || ' minutes')::interval\<close>
  with the number of minutes as text. The database computes the interval for
  the rows it updates: when a row matches and the database does not take the
  number (\<open>accepts\<close> says which it takes), the statement fails, the call throws
  and no row changes.
\<close>

definition manualPauseForMinutes ::
  "(int \<Rightarrow> bool) \<Rightarrow> int \<Rightarrow> string \<Rightarrow> string \<Rightarrow> int \<Rightarrow> table \<Rightarrow> table outcome" where
  "manualPauseForMinutes accepts now p c minutes t =
     (if list_ex (is_key p c) t \<and> \<not> accepts minutes then Throws
      else Returns
        (update_where (is_key p c)
           (\<lambda>r. r\<lparr>paused := True, resume_at := Some (now + minutes * 60 * 1000),
                  paused_until := None, watch_mode := False\<rparr>) t))"

definition clearPauseTimed :: "string \<Rightarrow> string \<Rightarrow> table \<Rightarrow> table" where
  "clearPauseTimed p c t =
     update_where (is_key p c)
       (\<lambda>r. r\<lparr>paused := False, resume_at := None, paused_until := None\<rparr>) t"

definition resetNegativeCount :: "string \<Rightarrow> string \<Rightarrow> table \<Rightarrow> table" where
  "resetNegativeCount p c t =
     update_where (is_key p c) (\<lambda>r. r\<lparr>negative_count := 0\<rparr>) t"

text \<open>The service-flow helpers select and update by conversation id alone.\<close>

definition getServiceFlow :: "string \<Rightarrow> table \<Rightarrow> flow option" where
  "getServiceFlow c t =
     (case filter (\<lambda>r. conversation_id r = c) t of [] \<Rightarrow> None | r # rs \<Rightarrow> service_flow r)"

definition setServiceFlow :: "string \<Rightarrow> flow option \<Rightarrow> table \<Rightarrow> table" where
  "setServiceFlow c f t =
     update_where (\<lambda>r. conversation_id r = c) (\<lambda>r. r\<lparr>service_flow := f\<rparr>) t"

section \<open>Chat platform calls\<close>

datatype priority = Low | Medium | High | Urgent

datatype status = Open | Resolved

text \<open>The staff notes of the escalation handler, the webhook and the service
  handler: the fixed sentences, and those with a variable part.\<close>

datatype staff_note = Bot_escalated | Bot_paused | Bot_resumed | Bot_resolved | Note_paused
  | Note_text string
  | Service_completed string string
  | Service_request string
  | Service_unrecognized string
  | Booking_request string
  | Booking_no_details

text \<open>A call to the chat platform, recorded in the order it is issued. A call that
  fails on the platform's side is outside the model.\<close>

datatype 'r effect =
    AddLabels string "string list"
  | UpdatePriority string priority
  | UpdateStatus string status
  | PrivateMessage string staff_note
  | AssignToUser string nat "nat option"
  | ReplyFromBot string 'r
  | ReplyPrivate string 'r
  | MessengerButtons string 'r
  | TypingOn string
  | TypingOff string

text \<open>
  The world a handler runs in: the table, the platform calls issued so far, the
  assignee the platform reports for a conversation (0: none), the clock, and
  the numbers of minutes the database takes as an interval added to the time of
  now (PostgreSQL refuses an interval or a timestamp out of its range, and the
  statement that computes it fails).
\<close>

record 'r world =
  tbl :: table
  calls :: "'r effect list"
  assignee_id :: "string \<Rightarrow> nat"
  now :: int
  accepts_minutes :: "int \<Rightarrow> bool"

definition emit :: "'r effect \<Rightarrow> 'r world \<Rightarrow> 'r world" where
  "emit e w = w\<lparr>calls := calls w @ [e]\<rparr>"

definition on_tbl :: "(table \<Rightarrow> table) \<Rightarrow> 'r world \<Rightarrow> 'r world" where
  "on_tbl f w = w\<lparr>tbl := f (tbl w)\<rparr>"

section \<open>Escalation handler\<close>

datatype Intent = FAQ | SERVICE | CHITCHAT | UNKNOWN

text \<open>Process-wide configuration read from the environment. The two numbers of
  minutes are \<^verbatim>\<open>Number(process.env.X || 30)\<close>; the model takes them to be whole
  numbers (a variable that holds no number or a fraction is outside it).\<close>

record config =
  DEFAULT_ASSIGN :: "nat option"
  DEFAULT_TEAM :: "nat option"
  SOFTWATCH_NOTIFY_ONCE :: bool
  AUTO_RESUME_MINUTES :: int
  MANUAL_REPLY_PAUSE_MINUTES :: int
  PROPERTY_ID :: string

definition NEEDS_STAFF_LABEL :: string where
  "NEEDS_STAFF_LABEL = ''needs_staff''"

definition ISSUE_LABEL :: string where
  "ISSUE_LABEL = ''issue_report''"

definition EMERGENCY_WORDS :: "string list" where
  "EMERGENCY_WORDS = [''fire'', ''medical'', ''ambulance'', ''flood'', ''theft'', ''police'', ''help now'']"

definition priorityFromSignal :: "Intent \<Rightarrow> int \<Rightarrow> string \<Rightarrow> bool \<Rightarrow> priority" where
  "priorityFromSignal intent negativeCount txt isNegative =
     (let t = toLowerCase txt in
      if list_ex (\<lambda>w. js_includes t w) EMERGENCY_WORDS then Urgent
      else if isNegative then High
      else if negativeCount \<ge> 2 then High
      else if intent = SERVICE then Medium
      else Low)"

record SoftEscalationOpts =
  assignTo :: "nat option"
  notifyOnce :: "bool option"
  label :: "string option"
  opt_intent :: "Intent option"
  negativeCount :: "int option"
  opt_text :: "string option"
  issue :: "bool option"

definition no_opts :: SoftEscalationOpts where
  "no_opts = \<lparr> assignTo = None, notifyOnce = None, label = None, opt_intent = None,
               negativeCount = None, opt_text = None, issue = None \<rparr>"

definition labelsToAdd :: "SoftEscalationOpts \<Rightarrow> string list" where
  "labelsToAdd opts =
     [NEEDS_STAFF_LABEL]
     @ (case label opts of None \<Rightarrow> []
        | Some l \<Rightarrow> if l \<noteq> [] \<and> l \<noteq> NEEDS_STAFF_LABEL then [l] else [])
     @ (if issue opts = Some True then [ISSUE_LABEL] else [])"

text \<open>The choice \<^verbatim>\<open>shouldNotify\<close> of \<^verbatim>\<open>handleSoftEscalation\<close>: the option when it is a
  boolean, else the environment's setting.\<close>

definition shouldNotify :: "config \<Rightarrow> SoftEscalationOpts \<Rightarrow> bool" where
  "shouldNotify cfg opts = (case notifyOnce opts of Some b \<Rightarrow> b | None \<Rightarrow> SOFTWATCH_NOTIFY_ONCE cfg)"

text \<open>The priority \<^verbatim>\<open>handleSoftEscalation\<close> derives from its options.\<close>

definition soft_priority :: "SoftEscalationOpts \<Rightarrow> priority" where
  "soft_priority opts =
     priorityFromSignal
       (case opt_intent opts of None \<Rightarrow> UNKNOWN | Some i \<Rightarrow> i)
       (case negativeCount opts of None \<Rightarrow> 0 | Some n \<Rightarrow> n)
       (case opt_text opts of None \<Rightarrow> [] | Some t \<Rightarrow> t)
       (issue opts = Some True)"

definition handleSoftEscalation ::
  "config \<Rightarrow> string \<Rightarrow> string \<Rightarrow> SoftEscalationOpts \<Rightarrow> 'r world \<Rightarrow> 'r world" where
  "handleSoftEscalation cfg propertyId conversationId opts w0 =
     (let w1 = emit (AddLabels conversationId (labelsToAdd opts)) w0;
          prio = soft_priority opts;
          w2 = emit (UpdateStatus conversationId Open) (emit (UpdatePriority conversationId prio) w1);
          (alreadyEsc, t3) = markEscalatedOnce propertyId conversationId (tbl w2);
          w3 = w2\<lparr>tbl := t3\<rparr>;
          w4 = (if \<not> alreadyEsc \<and> shouldNotify cfg opts
                then emit (PrivateMessage conversationId Bot_escalated) w3 else w3);
          w5 = on_tbl (enterSoftWatch propertyId conversationId) w4;
          assignee = (case assignTo opts of Some a \<Rightarrow> Some a | None \<Rightarrow> DEFAULT_ASSIGN cfg)
      in case assignee of
           None \<Rightarrow> w5
         | Some a \<Rightarrow>
             if a \<noteq> 0 \<and> \<not> (assignee_id w5 conversationId > 0)
             then (emit (AssignToUser conversationId a (DEFAULT_TEAM cfg)) w5)
                    \<lparr>assignee_id := (assignee_id w5)(conversationId := a)\<rparr>
             else w5)"

text \<open>True when the stored state counts as paused for the duplicate-note check of
  \<^verbatim>\<open>handleHardPause\<close> and \<^verbatim>\<open>resumeBot\<close>. The state is the one \<^verbatim>\<open>getState\<close> returns, whose
  query does not select the column \<^verbatim>\<open>paused_until\<close>: the handlers read it as
  undefined, and \<open>untilOk\<close> is false whatever the row holds.\<close>

definition seems_paused :: "int \<Rightarrow> row option \<Rightarrow> bool" where
  "seems_paused n s =
     (case s of None \<Rightarrow> False
      | Some r \<Rightarrow>
          (let resumeOk = (case resume_at r of None \<Rightarrow> False | Some d \<Rightarrow> d > n);
               untilOk = False;
               boolPaused = paused r
           in resumeOk \<or> untilOk \<or> boolPaused))"

text \<open>\<^verbatim>\<open>handleHardPause\<close>: the status and the note are sent first; the update of the
  row is not guarded, so its failure is the handler's.\<close>

definition handleHardPause :: "string \<Rightarrow> string \<Rightarrow> int \<Rightarrow> 'r world \<Rightarrow> unit outcome \<times> 'r world" where
  "handleHardPause propertyId conversationId minutes w0 =
     (let w1 = emit (UpdateStatus conversationId Open) w0;
          alreadyPaused = seems_paused (now w1) (getState propertyId conversationId (tbl w1));
          w2 = (if \<not> alreadyPaused then emit (PrivateMessage conversationId Bot_paused) w1 else w1)
      in case manualPauseForMinutes (accepts_minutes w2) (now w2) propertyId conversationId minutes
                (tbl w2) of
           Throws \<Rightarrow> (Throws, w2)
         | Returns t \<Rightarrow> (Returns (), w2\<lparr>tbl := t\<rparr>))"

definition resumeBot :: "string \<Rightarrow> string \<Rightarrow> 'r world \<Rightarrow> 'r world" where
  "resumeBot propertyId conversationId w0 =
     (let wasPaused = seems_paused (now w0) (getState propertyId conversationId (tbl w0));
          w1 = on_tbl (clearPause propertyId conversationId) w0;
          w2 = on_tbl (resetNegativeCount propertyId conversationId) w1;
          w3 = emit (UpdateStatus conversationId Open) w2
      in if wasPaused then emit (PrivateMessage conversationId Bot_resumed) w3 else w3)"

definition resolveConversation :: "string \<Rightarrow> string \<Rightarrow> 'r world \<Rightarrow> 'r world" where
  "resolveConversation propertyId conversationId w0 =
     (let w1 = emit (UpdateStatus conversationId Resolved) w0;
          w2 = emit (PrivateMessage conversationId Bot_resolved) w1
      in on_tbl (clearState propertyId conversationId) w2)"

text \<open>The background tick of the server, every 30 seconds.\<close>

definition auto_resume_tick :: "'r world \<Rightarrow> 'r world" where
  "auto_resume_tick w = w\<lparr>tbl := snd (autoResumeDueConversations (now w) (tbl w))\<rparr>"

text \<open>The number of "Bot escalated" staff notes among platform calls.\<close>

definition escalation_notes :: "string \<Rightarrow> 'r effect list \<Rightarrow> nat" where
  "escalation_notes c cs = length (filter (\<lambda>e. e = PrivateMessage c Bot_escalated) cs)"

text \<open>The platform calls a soft escalation issues after the first three and the
  staff note: the assignment, when an assignee is configured and none is set.\<close>

definition assign_calls :: "config \<Rightarrow> string \<Rightarrow> SoftEscalationOpts \<Rightarrow> 'r world \<Rightarrow> 'r effect list" where
  "assign_calls cfg c opts w =
     (case (case assignTo opts of Some a \<Rightarrow> Some a | None \<Rightarrow> DEFAULT_ASSIGN cfg) of
        None \<Rightarrow> []
      | Some a \<Rightarrow> if a \<noteq> 0 \<and> \<not> (assignee_id w c > 0)
                  then [AssignToUser c a (DEFAULT_TEAM cfg)] else [])"

section \<open>Intent decision engine\<close>

text \<open>\<^verbatim>\<open>normalize\<close> of the decision engine: \<^verbatim>\<open>(t || '').toLowerCase().trim()\<close>.\<close>

definition normalize_str :: "string \<Rightarrow> string" where
  "normalize_str t = trim (toLowerCase t)"

definition negatives :: "string list" where
  "negatives = [''not happy'', ''angry'', ''bad'', ''terrible'', ''awful'',
                ''leaking'', ''leak'', ''broken'', ''complaint'',
                ''refund'', ''charge dispute'', ''dirty'', ''rude'']"

definition detectNegative :: "string \<Rightarrow> bool" where
  "detectNegative t = (let s = normalize_str t in list_ex (\<lambda>k. js_includes s k) negatives)"

definition svc :: "string list" where
  "svc = [''booking'', ''reservation'', ''check-in'', ''checkin'', ''change my booking'',
          ''maintenance'', ''repair'', ''ac'', ''aircon'', ''key card'', ''room move'',
          ''table'', ''spa'', ''massage'', ''treatment'', ''charge'', ''refund'',
          ''bill'', ''invoice'', ''receipt'']"

definition detectService :: "string \<Rightarrow> bool" where
  "detectService t = (let s = normalize_str t in list_ex (\<lambda>k. js_includes s k) svc)"

definition qStarts :: "string list" where
  "qStarts = [''what'', ''when'', ''where'', ''how'', ''who'', ''which'']"

definition isQuestion :: "string \<Rightarrow> bool" where
  "isQuestion t =
     (let s = normalize_str t in
      if s = [] then False
      else if endsWith s ''?'' then True
      else if list_ex (\<lambda>q. startsWith s (q @ '' '')) qStarts then True
      else if js_includes s ''price'' \<or> js_includes s ''time'' \<or> js_includes s ''open''
              \<or> js_includes s ''hours'' then True
      else False)"

text \<open>The greeting and thanks patterns of the smalltalk handler (flag i):
  \<^verbatim>\<open>(^|\b)(hi|hello|hey|xin cha`o|cha`o|good (morning|afternoon|evening))(\b|!|\.|,)\<close> and
  \<^verbatim>\<open>(^|\b)(thanks|thank you|ca?m o+n)(\b|!|\.|,)\<close>. The letter written a` here is the
  code unit 0xE0; the Vietnamese thanks has code units above 255.\<close>

definition greeting_rx :: rx where
  "greeting_rx =
     seqs [Grp 1 (Alt Bol WordB),
           Grp 2 (alts [Lit ''hi'', Lit ''hello'', Lit ''hey'',
                        Lit (''xin ch'' @ [CHR 0xE0] @ ''o''), Lit (''ch'' @ [CHR 0xE0] @ ''o''),
                        Seq (Lit ''good '') (Grp 3 (lits [''morning'', ''afternoon'', ''evening'']))]),
           Grp 4 (alts [WordB, Lit ''!'', Lit ''.'', Lit '',''])]"

definition thanks_rx :: rx where
  "thanks_rx =
     seqs [Grp 1 (Alt Bol WordB),
           Grp 2 (alts [Lit ''thanks'', Lit ''thank you'', Never]),
           Grp 3 (alts [WordB, Lit ''!'', Lit ''.'', Lit '',''])]"

definition isSmalltalk :: "string \<Rightarrow> bool" where
  "isSmalltalk text =
     (let t = normalize_str text in rx_test greeting_rx True t \<or> rx_test thanks_rx True t)"

record DecideOutput =
  intent :: Intent
  confidence :: real
  negative :: bool

text \<open>\<^verbatim>\<open>decide\<close>; \<open>chitchat_enabled\<close> is the setting the settings repository returns
  (\<^verbatim>\<open>settings?.chitchat_enabled !== false\<close>).\<close>

definition decide :: "bool \<Rightarrow> string \<Rightarrow> DecideOutput" where
  "decide chitchat_enabled event_text =
     (let text = trim event_text;
          s = normalize_str text;
          chitchatEnabled = chitchat_enabled;
          negative = detectNegative s;
          service = detectService s
      in if service \<or> negative
         then \<lparr> intent = SERVICE, confidence = 0.9, negative = negative \<rparr>
         else if chitchatEnabled \<and> isSmalltalk text
         then \<lparr> intent = CHITCHAT, confidence = 0.99, negative = negative \<rparr>
         else if isQuestion s
         then \<lparr> intent = FAQ, confidence = 0.85, negative = negative \<rparr>
         else \<lparr> intent = UNKNOWN, confidence = 0.5, negative = negative \<rparr>)"

text \<open>The words of the specification for the four cases of the classifier, on the
  normalized text: a negative or a service keyword occurs; the text matches a
  greeting or thanks pattern; the text is question-shaped (a trailing question
  mark, an interrogative leading word, or one of price, time, open, hours).\<close>

definition keyword_match :: "string \<Rightarrow> bool" where
  "keyword_match s =
     ((\<exists>k \<in> set negatives. js_includes s k) \<or> (\<exists>k \<in> set svc. js_includes s k))"

definition question_shaped :: "string \<Rightarrow> bool" where
  "question_shaped s =
     (s \<noteq> [] \<and>
      (endsWith s ''?'' \<or> (\<exists>q \<in> set qStarts. startsWith s (q @ '' ''))
       \<or> (\<exists>k \<in> set [''price'', ''time'', ''open'', ''hours'']. js_includes s k)))"

definition smalltalk_match :: "string \<Rightarrow> bool" where
  "smalltalk_match s = (rx_test greeting_rx True s \<or> rx_test thanks_rx True s)"

text \<open>The classifier in the words of the specification: the four cases in their
  priority order, with their confidences.\<close>

definition spec_decide :: "bool \<Rightarrow> string \<Rightarrow> Intent \<times> real" where
  "spec_decide chitchat s =
     (if keyword_match s then (SERVICE, 0.9)
      else if chitchat \<and> smalltalk_match s then (CHITCHAT, 0.99)
      else if question_shaped s then (FAQ, 0.85)
      else (UNKNOWN, 0.5))"

section \<open>Service handler\<close>

text \<open>The language of the fixed sentences, as resolved from \<^verbatim>\<open>DEFAULT_LANG\<close>.\<close>

datatype lang = En | Vi | Nl

text \<open>The question for a field (\<^verbatim>\<open>askPrompt\<close>, \<^verbatim>\<open>buildPrompt\<close>); any field but the
  four slots gets the general question.\<close>

datatype prompt = Ask_guests | Ask_time | Ask_date | Ask_name | Ask_details

text \<open>
  What the bot says. The fixed sentences of the source are constructors, in the
  language of the handler; the parts that vary are their arguments.
\<close>

datatype reply =
    Legacy_confirmed
  | Legacy_ask_change
  | Legacy_confirm string string string string
  | Legacy_edit_unrecognized
  | Confirmed_final string
  | Restart prompt
  | Please_confirm string
  | Time_clarified string prompt
  | Clarify_time_period string
  | Date_clarify
  | Prompt prompt
  | Kickoff prompt
  | Registry_reply string
  | Template string
  | Human_escalation
  | Empathy_reply
  | Clarify_generic_1
  | Clarify_generic_2
  | Faq_answer string
  | Chitchat_prompt
  | Thanks_reply
  | Bot_status bool bool int int
  | Okay

definition extractTimeToken :: "string \<Rightarrow> string \<Rightarrow> string" where
  "extractTimeToken text fallback =
     (case rx_match (seqs [WordB, Grp 1 d12,
              Grp 2 (Seq (Cls [(CHR '':'', CHR '':''), (CHR ''.'', CHR ''.'')]) (Grp 3 (Rep 2 2 digit))),
              WordB]) False text of
        None \<Rightarrow> fallback
      | Some m \<Rightarrow> replace_first (Lit ''.'') False '':'' (fst m))"

text \<open>Format AM PM.\<close>

definition formatAmPm :: "string \<Rightarrow> string" where
  "formatAmPm time =
     (case rx_match (seqs [Bol, Grp 1 d12, Lit '':'', Grp 2 (Rep 2 2 digit), Eol]) False time of
        None \<Rightarrow> time
      | Some m \<Rightarrow>
          (case parseInt_grp (snd m) 1 of
             None \<Rightarrow> time
           | Some hh0 \<Rightarrow>
               (let mm = grp_str (snd m) 2;
                    period = (if hh0 \<ge> 12 then ''PM'' else ''AM'');
                    hh1 = (if hh0 = 0 then 12 else hh0);
                    hh = (if hh1 > 12 then hh1 - 12 else hh1)
                in String_of_int hh @ '':'' @ mm @ '' '' @ period)))"

text \<open>\<^verbatim>\<open>s.split(/\s+/)\<close>: the pieces between the runs of white space; a string that
  starts or ends with white space has an empty first or last piece. The flag
  tells that the character before was white space, the accumulator holds the
  piece read so far.\<close>

fun split_ws :: "bool \<Rightarrow> string \<Rightarrow> string \<Rightarrow> string list" where
  "split_ws in_ws acc [] = [rev acc]"
| "split_ws in_ws acc (c # cs) =
     (if is_ws c then (if in_ws then split_ws True acc cs else rev acc # split_ws True [] cs)
      else split_ws False (c # acc) cs)"

text \<open>\<^verbatim>\<open>toUpperCase\<close> of one character: the sharp s becomes SS. The capitals of
  the micro sign and of the y with diaeresis have code units above 255; the model
  leaves the two characters as they are.\<close>

definition toUpperCase_char :: "char \<Rightarrow> string" where
  "toUpperCase_char c = (if code_unit c = 223 then ''SS'' else [upper_char c])"

fun join :: "string \<Rightarrow> string list \<Rightarrow> string" where
  "join sep [] = []"
| "join sep [x] = x"
| "join sep (x # xs) = x @ sep @ join sep xs"

definition toTitleCase :: "string \<Rightarrow> string" where
  "toTitleCase name =
     join '' ''
       (map (\<lambda>word. case word of [] \<Rightarrow> []
                     | c # cs \<Rightarrow> toUpperCase_char c @ toLowerCase cs)
            (split_ws False [] name))"

text \<open>\<^verbatim>\<open>String(v)\<close> of a stored value.\<close>

fun String_of :: "jsval \<Rightarrow> string" where
  "String_of (Num n) = String_of_int n"
| "String_of (Str s) = s"

type_synonym collected_map = "(string \<times> jsval) list"

text \<open>\<^verbatim>\<open>collected[k]\<close> when it is truthy, and \<^verbatim>\<open>collected[k] = v\<close> (a new key goes
  last).\<close>

definition truthy_at :: "collected_map \<Rightarrow> string \<Rightarrow> jsval option" where
  "truthy_at col k = (case map_of col k of None \<Rightarrow> None | Some v \<Rightarrow> if truthy v then Some v else None)"

fun set_key :: "string \<Rightarrow> jsval \<Rightarrow> collected_map \<Rightarrow> collected_map" where
  "set_key k v [] = [(k, v)]"
| "set_key k v (e # es) = (if fst e = k then (k, v) # es else e # set_key k v es)"

text \<open>The separator of \<^verbatim>\<open>buildDetailsSummary\<close> is a backslash and the letter n.\<close>

definition backslash_n :: string where
  "backslash_n = [CHR 0x5C, CHR ''n'']"

definition buildDetailsSummary :: "collected_map \<Rightarrow> string" where
  "buildDetailsSummary col =
     join backslash_n
       ((case truthy_at col ''name'' of None \<Rightarrow> [] | Some v \<Rightarrow> [''Name: '' @ toTitleCase (String_of v)])
        @ (case truthy_at col ''guests'' of None \<Rightarrow> [] | Some v \<Rightarrow> [''Guests: '' @ String_of v])
        @ (case truthy_at col ''time'' of None \<Rightarrow> [] | Some v \<Rightarrow> [''Time: '' @ formatAmPm (String_of v)])
        @ (case truthy_at col ''date'' of None \<Rightarrow> [] | Some v \<Rightarrow> [''Date: '' @ String_of v]))"

text \<open>Synonym dictionary for the clarifier. The Vietnamese words but one have code
  units above 255 and are left out: no string of the model includes them.\<close>

definition synonyms_am :: "lang \<Rightarrow> string list" where
  "synonyms_am l =
     (case l of
        En \<Rightarrow> [''am'', ''a.m.'', ''morning'', ''mrn'', ''morn'', ''moorning'']
      | Vi \<Rightarrow> [''s'' @ [CHR 0xE1] @ ''ng'']
      | Nl \<Rightarrow> [''ochtend'', [CHR 0x27] @ ''s ochtends'', ''smorgens''])"

definition synonyms_pm :: "lang \<Rightarrow> string list" where
  "synonyms_pm l =
     (case l of
        En \<Rightarrow> [''pm'', ''p.m.'', ''evening'', ''eve'', ''evng'', ''evning'', ''night'', ''ngt'', ''nigt'',
               ''afternoon'', ''aft'']
      | Vi \<Rightarrow> []
      | Nl \<Rightarrow> [''middag'', [CHR 0x27] @ ''s middags'', ''avond'', [CHR 0x27] @ ''s avonds'', ''nacht''])"

text \<open>The registry of the regex fallback: the patterns of each service, all with the
  flag i.\<close>

definition any_0_12 :: rx where
  "any_0_12 = Rep 0 12 Dot"

definition REGISTRY :: "(string \<times> rx list) list" where
  "REGISTRY =
     [(''BOOK_TABLE'',
        [Seq (Lit ''reserv'') (Grp 1 (lits [''e'', ''ation''])),
         seqs [Lit ''book'', Plus wspace, Lit ''a'', Plus wspace, Lit ''table''],
         seqs [Lit ''book'', any_0_12, Lit ''tabl'', Opt (Cls [(CHR ''e'', CHR ''e'')])],
         seqs [Lit ''table'', Plus wspace, Lit ''for'', Plus wspace, Plus digit],
         seqs [Lit ''can'', Plus wspace, Lit ''i'', Plus wspace, Lit ''book'', Plus wspace, Lit ''a'',
               Plus wspace, Lit ''table''],
         seqs [Lit ''book'', any_0_12, Lit ''tbale''],
         seqs [Lit ''bok'', any_0_12, Lit ''table''],
         seqs [Lit ''b00k'', any_0_12, Lit ''table'']]),
      (''LATE_CHECKOUT'',
        [seqs [Lit ''late'', Star wspace, Lit ''check'', Star wspace, Lit ''out''],
         seqs [Lit ''extend'', Star wspace, Lit ''checkout'']]),
      (''SPA_BOOKING'',
        [seqs [Lit ''spa'', Star Dot, Grp 1 (lits [''book'', ''reserve''])],
         seqs [Grp 1 (lits [''massage'', ''facial'', ''treatment'']), Star Dot, Lit ''book'']])]"

fun match_registry :: "(string \<times> rx list) list \<Rightarrow> string \<Rightarrow> string option" where
  "match_registry [] text = None"
| "match_registry (e # es) text =
     (if list_ex (\<lambda>r. rx_test r True text) (snd e) then Some (fst e) else match_registry es text)"

definition matchService :: "string \<Rightarrow> string option" where
  "matchService text = match_registry REGISTRY text"

definition REQUIRED_FIELDS :: "(string \<times> string list) list" where
  "REQUIRED_FIELDS =
     [(''BOOK_TABLE'', [''guests'', ''time'', ''date'', ''name'']),
      (''LATE_CHECKOUT'', [''time'', ''name'']),
      (''SPA_BOOKING'', [''date'', ''time'', ''name''])]"

definition parseForField :: "clock \<Rightarrow> string \<Rightarrow> string \<Rightarrow> jsval option" where
  "parseForField clk field text =
     (if field = ''guests'' then map_option Num (parseGuests text)
      else if field = ''time'' then map_option Str (parseTime text)
      else if field = ''date'' then map_option Str (parseDate clk text)
      else if field = ''name'' then map_option Str (parseName text)
      else None)"

definition timeNeedsAmPm :: "string \<Rightarrow> string \<Rightarrow> bool" where
  "timeNeedsAmPm userText rawParsed =
     (if isTimeUnclear userText then True
      else if rawParsed = [] then False
      else if rx_test (lits [''am'', ''pm'']) True userText then False
      else
        case rx_match (seqs [Bol, Grp 1 d12, Opt (Seq (Lit '':'') (Rep 2 2 digit))]) False rawParsed of
          None \<Rightarrow> False
        | Some m \<Rightarrow>
            (case parseInt_grp (snd m) 1 of
               None \<Rightarrow> False
             | Some hour \<Rightarrow> if hour \<ge> 13 then False else hour \<ge> 1 \<and> hour \<le> 12))"

text \<open>\<^verbatim>\<open>buildPrompt\<close>: the question for the next field, and whether it comes with quick
  replies (the date does). An undefined field is \<open>None\<close>.\<close>

definition buildPrompt :: "string option \<Rightarrow> prompt \<times> bool" where
  "buildPrompt field =
     (if field = Some ''date'' then (Ask_date, True)
      else if field = Some ''guests'' then (Ask_guests, False)
      else if field = Some ''time'' then (Ask_time, False)
      else if field = Some ''name'' then (Ask_name, False)
      else (Ask_details, False))"

text \<open>
  The enrichment by the extraction service, when \<^verbatim>\<open>LLM_SLOT_PREFILL\<close> is on: the
  entities it returned and the outcome of their validation, both as given.
\<close>

datatype validation = Valid "string option" "string option" | Invalid bool

record llm_result =
  llm_guests :: "string option"
  llm_time :: "string option"
  llm_name :: "string option"
  validated :: validation

text \<open>
  The answer of the service catalogue (\<^verbatim>\<open>findServiceKeyByText\<close>, then the first of
  \<^verbatim>\<open>getServiceActions\<close>) for the message at hand: a failed query, no key, or a key
  with the first of its actions, if it has one.
\<close>

record ServiceAction =
  action_type :: string
  reply_template :: "string option"

datatype catalogue = Db_fails | Db_no_key | Db_key string "ServiceAction option"

text \<open>
  What a call of the handler finds around it: the language, the clock, the
  answer of the catalogue, whether a message with quick replies goes out as
  Messenger buttons (the switch is on, the conversation has a PSID, the send
  succeeds), and the enrichment (\<open>None\<close>: off, or failed).
\<close>

record svc_env =
  env_lang :: lang
  env_clock :: clock
  catalogue :: catalogue
  messenger_buttons :: bool
  llm :: "llm_result option"

record prefill =
  pre_guests :: "int option"
  pre_time :: "string option"
  pre_date :: "string option"
  pre_name :: "string option"
  pre_pending_time_raw :: "string option"

text \<open>The date of a message as \<^verbatim>\<open>prefillFromMessage\<close> and \<^verbatim>\<open>tryFieldUpdate\<close> read it: the
  ISO form if there is one, else the parsed date, kept when it is clear.\<close>

definition message_date :: "clock \<Rightarrow> string \<Rightarrow> string option outcome" where
  "message_date clk text =
     (case normalizeDateToISO clk text (today clk) of
        Throws \<Rightarrow> Throws
      | Returns iso_date \<Rightarrow>
          (let dRaw = (case iso_date of Some i \<Rightarrow> if i \<noteq> [] then Some i else parseDate clk text
                       | None \<Rightarrow> parseDate clk text)
           in case dRaw of
                None \<Rightarrow> Returns None
              | Some d \<Rightarrow> if d \<noteq> [] \<and> \<not> isDateUnclear clk d
                          then Returns (Some (prettyDate clk d)) else Returns None))"

definition llm_enrich :: "clock \<Rightarrow> llm_result \<Rightarrow> prefill \<Rightarrow> prefill" where
  "llm_enrich clk l out =
     (case validated l of
        Invalid needs_time_period \<Rightarrow>
          (case llm_time l of
             Some t \<Rightarrow>
               if needs_time_period \<and> t \<noteq> [] \<and> pre_time out = None \<and> pre_pending_time_raw out = None
               then out\<lparr>pre_pending_time_raw := Some t\<rparr> else out
           | None \<Rightarrow> out)
      | Valid norm_time norm_date \<Rightarrow>
          (let o1 = (case llm_guests l of
                       Some g \<Rightarrow> if pre_guests out = None
                                 then (case parseGuests g of Some g2 \<Rightarrow> out\<lparr>pre_guests := Some g2\<rparr>
                                       | None \<Rightarrow> out)
                                 else out
                     | None \<Rightarrow> out);
               o2 = (case norm_time of
                       Some t \<Rightarrow> if pre_time o1 = None \<and> t \<noteq> []
                                 then o1\<lparr>pre_time := Some (prettyTime t)\<rparr> else o1
                     | None \<Rightarrow> o1);
               o3 = (case norm_date of
                       Some d \<Rightarrow> if pre_date o2 = None \<and> d \<noteq> []
                                 then o2\<lparr>pre_date := Some (prettyDate clk d)\<rparr> else o2
                     | None \<Rightarrow> o2)
           in case llm_name l of
                Some n \<Rightarrow> if n \<noteq> [] \<and> pre_name o3 = None
                          then (case parseName n of Some n2 \<Rightarrow> o3\<lparr>pre_name := Some n2\<rparr> | None \<Rightarrow> o3)
                          else o3
              | None \<Rightarrow> o3))"

definition prefillFromMessage :: "svc_env \<Rightarrow> string \<Rightarrow> prefill outcome" where
  "prefillFromMessage env text =
     (let g = parseGuests text;
          tRaw = parseTime text;
          t_out = (case tRaw of
                     None \<Rightarrow> (None, None)
                   | Some r \<Rightarrow>
                       if r = [] then (None, None)
                       else if timeNeedsAmPm text r then (None, Some (extractTimeToken text r))
                       else (Some (prettyTime r), None))
      in case message_date (env_clock env) text of
           Throws \<Rightarrow> Throws
         | Returns d \<Rightarrow>
             (let out = \<lparr> pre_guests = g, pre_time = fst t_out, pre_date = d,
                          pre_name = parseName text, pre_pending_time_raw = snd t_out \<rparr>
              in case llm env of
                   None \<Rightarrow> Returns out
                 | Some l \<Rightarrow> Returns (llm_enrich (env_clock env) l out)))"

definition normalizeYesNo :: "string \<Rightarrow> bool option" where
  "normalizeYesNo text =
     (let s = toLowerCase (trim text) in
      if List.member [''yes'', ''y'', ''yeah'', ''yep'', ''sure'', ''ok'', ''okay''] s then Some True
      else if List.member [''no'', ''n'', ''nope'', ''nah''] s then Some False
      else None)"

text \<open>\<^verbatim>\<open>buildConfirmMessage\<close>: the name, guests, date and time it prints, a dash for
  each that is missing.\<close>

definition buildConfirmMessage :: "BookingDetails \<Rightarrow> reply" where
  "buildConfirmMessage details =
     Legacy_confirm
       (case bd_name details of Some n \<Rightarrow> if n \<noteq> [] then toTitleCase n else ''-'' | None \<Rightarrow> ''-'')
       (case bd_guests details of Some g \<Rightarrow> String_of_int g | None \<Rightarrow> ''-'')
       (case bd_date details of Some d \<Rightarrow> d | None \<Rightarrow> ''-'')
       (case bd_time details of Some t \<Rightarrow> if t \<noteq> [] then formatAmPm t else ''-'' | None \<Rightarrow> ''-'')"

definition tryFieldUpdate :: "clock \<Rightarrow> string \<Rightarrow> BookingDetails \<Rightarrow> BookingDetails option outcome" where
  "tryFieldUpdate clk text current =
     (let g = parseGuests text;
          u1 = (case g of Some n \<Rightarrow> current\<lparr>bd_guests := Some n\<rparr> | None \<Rightarrow> current);
          tRaw = (case parseTime text of Some r \<Rightarrow> if r \<noteq> [] then Some r else None | None \<Rightarrow> None);
          u2 = (case tRaw of Some r \<Rightarrow> u1\<lparr>bd_time := Some (prettyTime r)\<rparr> | None \<Rightarrow> u1)
      in case message_date clk text of
           Throws \<Rightarrow> Throws
         | Returns d \<Rightarrow>
             (let u3 = (case d of Some x \<Rightarrow> u2\<lparr>bd_date := Some x\<rparr> | None \<Rightarrow> u2);
                  n = (case parseName text of Some x \<Rightarrow> if x \<noteq> [] then Some x else None | None \<Rightarrow> None);
                  u4 = (case n of Some x \<Rightarrow> u3\<lparr>bd_name := Some x\<rparr> | None \<Rightarrow> u3);
                  changed = (g \<noteq> None \<or> tRaw \<noteq> None \<or> d \<noteq> None \<or> n \<noteq> None)
              in Returns (if changed then Some u4 else None)))"

text \<open>
  The result of the handler. A reply that is undefined is \<open>None\<close>; of \<^verbatim>\<open>meta\<close> the
  service key, the step and whether the message went out through Messenger are
  kept.
\<close>

record ServiceResult =
  handled :: bool
  reply_text :: "reply option"
  escalate :: bool
  reason :: "string option"
  meta_service_key :: "string option"
  meta_step :: "string option"
  sent_via_messenger :: bool

definition no_result :: ServiceResult where
  "no_result =
     \<lparr> handled = False, reply_text = None, escalate = False, reason = None,
       meta_service_key = None, meta_step = None, sent_via_messenger = False \<rparr>"

text \<open>
  A run of the handler on the flow it found: the flows it writes with \<^verbatim>\<open>setState\<close>
  in order (\<open>None\<close> clears the column), the platform calls it issues in order, and
  how it ends. A run that throws keeps the writes and calls made before.
\<close>

record svc_run =
  writes :: "flow option list"
  effects :: "reply effect list"
  result :: "ServiceResult outcome"

text \<open>Best-effort Messenger buttons sender (returns true if sent).\<close>

definition maybeSendMessengerQR :: "svc_env \<Rightarrow> string \<Rightarrow> reply \<Rightarrow> bool \<Rightarrow> bool \<times> reply effect list" where
  "maybeSendMessengerQR env c text has_quick_replies =
     (if messenger_buttons env \<and> has_quick_replies
      then (True, [MessengerButtons c text, ReplyPrivate c text])
      else (False, []))"

text \<open>The end of every branch that answers: try Messenger, and return the reply
  unless it went out there.\<close>

definition deliver :: "svc_env \<Rightarrow> string \<Rightarrow> string \<Rightarrow> string \<Rightarrow> reply \<Rightarrow> reply \<Rightarrow> bool
    \<Rightarrow> reply effect list \<times> ServiceResult" where
  "deliver env c key stp messenger_text reply_if_not_sent has_quick_replies =
     (let sent = maybeSendMessengerQR env c messenger_text has_quick_replies in
      (snd sent,
       no_result\<lparr> handled := True,
                  reply_text := (if fst sent then None else Some reply_if_not_sent),
                  meta_service_key := Some key, meta_step := Some stp,
                  sent_via_messenger := fst sent \<rparr>))"

text \<open>\<^verbatim>\<open>!collected[f]\<close>: a key that is absent or holds a falsy value. The names every
  object inherits count as present.\<close>

definition not_collected :: "collected_map \<Rightarrow> string \<Rightarrow> bool" where
  "not_collected col f =
     (case map_of col f of Some v \<Rightarrow> \<not> truthy v | None \<Rightarrow> \<not> List.member inherited_names f)"

definition missing_fields :: "string list \<Rightarrow> collected_map \<Rightarrow> string list" where
  "missing_fields req col = filter (not_collected col) req"

text \<open>\<^verbatim>\<open>xs[0] || null\<close>.\<close>

definition first_or_null :: "string list \<Rightarrow> string option" where
  "first_or_null xs = (case xs of [] \<Rightarrow> None | x # rest \<Rightarrow> if x = [] then None else Some x)"

text \<open>A string that is present and not empty.\<close>

definition nonempty :: "string option \<Rightarrow> string option" where
  "nonempty s = (case s of None \<Rightarrow> None | Some x \<Rightarrow> if x = [] then None else Some x)"

text \<open>
  \<^verbatim>\<open>existingFlow.required || REQUIRED_FIELDS[existingFlow.service_key] || []\<close>. For a
  key that every object inherits the lookup gives a value that is no array: its
  \<^verbatim>\<open>filter\<close> throws, its element 0 is undefined, and a flow is stored without it
  (for \<^verbatim>\<open>__proto__\<close>: with an empty object, which reads back the same way).
\<close>

datatype req = Fields "string list" | Not_a_list

definition required_of :: "flow \<Rightarrow> string \<Rightarrow> req" where
  "required_of fl key =
     (case required fl of
        Some r \<Rightarrow> Fields r
      | None \<Rightarrow>
          (case obj_lookup REQUIRED_FIELDS key of
             Own r \<Rightarrow> Fields r
           | Inherited \<Rightarrow> Not_a_list
           | Undefined \<Rightarrow> Fields []))"

fun stored_req :: "req \<Rightarrow> string list option" where
  "stored_req (Fields r) = Some r"
| "stored_req Not_a_list = None"

definition entries_summary :: "collected_map \<Rightarrow> string" where
  "entries_summary col = join '', '' (map (\<lambda>e. fst e @ '': '' @ String_of (snd e)) col)"

definition notifyStaff :: "string \<Rightarrow> BookingDetails \<Rightarrow> reply effect list" where
  "notifyStaff c details =
     (let ls =
        join [CHR 0x0A]
          ((case nonempty (bd_name details) of None \<Rightarrow> [] | Some n \<Rightarrow> [''Name: '' @ toTitleCase n])
           @ (case bd_guests details of
                None \<Rightarrow> []
              | Some g \<Rightarrow> if g \<noteq> 0 then [''Guests: '' @ String_of_int g] else [])
           @ (case nonempty (bd_date details) of None \<Rightarrow> [] | Some d \<Rightarrow> [''Date: '' @ d])
           @ (case nonempty (bd_time details) of None \<Rightarrow> [] | Some t \<Rightarrow> [''Time: '' @ formatAmPm t]))
      in [AddLabels c [''booking-request''],
          PrivateMessage c (if ls = [] then Booking_no_details else Booking_request ls)])"

text \<open>The older flow, which holds the details under \<^verbatim>\<open>pending\<close> and a step. \<open>None\<close>: the
  step is neither of the two, and the handler goes on.\<close>

definition legacy_flow :: "svc_env \<Rightarrow> string \<Rightarrow> string \<Rightarrow> flow \<Rightarrow> BookingDetails \<Rightarrow> svc_run option" where
  "legacy_flow env c message fl pend =
     (if step fl = Some ''confirm'' then
        (case normalizeYesNo message of
           Some True \<Rightarrow>
             Some \<lparr> writes = [None], effects = notifyStaff c pend,
                    result = Returns (no_result\<lparr> handled := True, escalate := True,
                                 reply_text := Some Legacy_confirmed,
                                 meta_step := Some ''confirmed'' \<rparr>) \<rparr>
         | Some False \<Rightarrow>
             Some \<lparr> writes = [Some \<lparr> pending = Some pend, step = Some ''ask_change'',
                                     service_key = None, required = None, collected = None,
                                     next_field = None, pending_time_raw = None \<rparr>],
                    effects = [],
                    result = Returns (no_result\<lparr> handled := True,
                                 reply_text := Some Legacy_ask_change,
                                 meta_step := Some ''ask_change'' \<rparr>) \<rparr>
         | None \<Rightarrow>
             Some \<lparr> writes = [], effects = [],
                    result = Returns (no_result\<lparr> handled := True,
                                 reply_text := Some (buildConfirmMessage pend),
                                 meta_step := Some ''confirm_repeat'' \<rparr>) \<rparr>)
      else if step fl = Some ''ask_change'' then
        (case tryFieldUpdate (env_clock env) message pend of
           Throws \<Rightarrow> Some \<lparr> writes = [], effects = [], result = Throws \<rparr>
         | Returns (Some updated) \<Rightarrow>
             Some \<lparr> writes = [Some \<lparr> pending = Some updated, step = Some ''confirm'',
                                     service_key = None, required = None, collected = None,
                                     next_field = None, pending_time_raw = None \<rparr>],
                    effects = [],
                    result = Returns (no_result\<lparr> handled := True,
                                 reply_text := Some (buildConfirmMessage updated),
                                 meta_step := Some ''confirm_after_edit'' \<rparr>) \<rparr>
         | Returns None \<Rightarrow>
             Some \<lparr> writes = [], effects = [],
                    result = Returns (no_result\<lparr> handled := True,
                                 reply_text := Some Legacy_edit_unrecognized,
                                 meta_step := Some ''edit_unrecognized'' \<rparr>) \<rparr>)
      else None)"

text \<open>The flow is complete: store it with \<^verbatim>\<open>next\<close> at \<^verbatim>\<open>confirm\<close> and ask the guest to
  confirm the summary.\<close>

definition ask_confirm :: "svc_env \<Rightarrow> string \<Rightarrow> string \<Rightarrow> string \<Rightarrow> flow option list \<Rightarrow> reply effect list
    \<Rightarrow> collected_map \<Rightarrow> svc_run" where
  "ask_confirm env c key stp ws effs col =
     (let confirmText = Please_confirm (buildDetailsSummary col);
          d = deliver env c key stp confirmText confirmText True
      in \<lparr> writes = ws, effects = effs @ fst d, result = Returns (snd d) \<rparr>)"

text \<open>The stage \<^verbatim>\<open>next === 'confirm'\<close> of a flow.\<close>

definition confirm_stage :: "svc_env \<Rightarrow> string \<Rightarrow> string \<Rightarrow> string \<Rightarrow> flow \<Rightarrow> req \<Rightarrow> collected_map
    \<Rightarrow> svc_run" where
  "confirm_stage env c message key fl rq col =
     (let lower = toLowerCase message in
      if rx_test (seqs [Bol, Lit ''y'', Opt (Grp 1 (Lit ''es'')), Eol]) True lower then
        \<lparr> writes = [None],
          effects = [AddLabels c [''service_request'', ''svc_'' @ toLowerCase key, ''needs_staff''],
                     UpdatePriority c High,
                     PrivateMessage c (Service_completed key (entries_summary col))],
          result = Returns (no_result\<lparr> handled := True,
                       reply_text := Some (Confirmed_final (buildDetailsSummary col)),
                       meta_service_key := Some key, meta_step := Some ''confirmed_final'' \<rparr>) \<rparr>
      else if rx_test (seqs [Bol, Lit ''n'', Opt (Grp 1 (Lit ''o'')), Eol]) True lower then
        (let first = (case rq of Fields (f # rest) \<Rightarrow> Some f | Fields [] \<Rightarrow> None | Not_a_list \<Rightarrow> None);
             restartFlow = fl\<lparr> collected := Some [], required := stored_req rq, next_field := first \<rparr>;
             prompt = buildPrompt first;
             restartText = Restart (fst prompt);
             d = deliver env c key ''confirm_restart'' restartText restartText (snd prompt)
         in \<lparr> writes = [Some restartFlow], effects = fst d, result = Returns (snd d) \<rparr>)
      else ask_confirm env c key ''confirm_repeat'' [] [] col)"

text \<open>The clarifier: what the answer to "in the morning or in the evening?" makes of
  the pending hour.\<close>

definition clarifier_combined :: "lang \<Rightarrow> string \<Rightarrow> string \<Rightarrow> string option" where
  "clarifier_combined l hasPending message =
     (let apOnly = toLowerCase (trim message) in
      if list_ex (js_includes apOnly) (synonyms_am l) \<or> rx_test (seqs [Bol, Lit ''am'', Eol]) False apOnly
      then Some (hasPending @ '' am'')
      else if list_ex (js_includes apOnly) (synonyms_pm l)
              \<or> rx_test (seqs [Bol, Lit ''pm'', Eol]) False apOnly
      then Some (hasPending @ '' pm'')
      else if rx_test (lits [''am'', ''pm'']) False apOnly
      then Some (hasPending @ '' '' @ apOnly)
      else if nonempty (parseTime apOnly) \<noteq> None then nonempty (Some apOnly)
      else None)"

text \<open>The clarifier merged a time: store it, clear the pending hour, and ask for the
  next field or for the confirmation.\<close>

definition time_clarified :: "svc_env \<Rightarrow> string \<Rightarrow> string \<Rightarrow> flow \<Rightarrow> string list \<Rightarrow> collected_map
    \<Rightarrow> string \<Rightarrow> svc_run" where
  "time_clarified env c key fl r col combined =
     (let col1 = set_key ''time'' (Str (prettyTime combined)) col;
          nxt = first_or_null (missing_fields r col1);
          flowToSave = fl\<lparr> collected := Some col1, required := Some r, next_field := nxt,
                           pending_time_raw := None \<rparr>
      in case nxt of
           Some n \<Rightarrow>
             (let prompt = buildPrompt (Some n);
                  combinedText = Time_clarified (formatAmPm (prettyTime combined)) (fst prompt);
                  d = deliver env c key ''time_clarified_next'' combinedText combinedText (snd prompt)
              in \<lparr> writes = [Some flowToSave], effects = fst d, result = Returns (snd d) \<rparr>)
         | None \<Rightarrow>
             ask_confirm env c key ''time_clarified_confirm''
               [Some flowToSave,
                Some (fl\<lparr> collected := Some col1, required := Some r, next_field := Some ''confirm'' \<rparr>)]
               [] col1)"

text \<open>Recompute missing after potential update: ask for the next missing field, or
  for the confirmation.\<close>

definition continue_flow :: "svc_env \<Rightarrow> string \<Rightarrow> string \<Rightarrow> flow \<Rightarrow> string list \<Rightarrow> collected_map
    \<Rightarrow> svc_run" where
  "continue_flow env c key fl r col =
     (case missing_fields r col of
        n # rest \<Rightarrow>
          (let flowToSave = fl\<lparr> collected := Some col, required := Some r, next_field := Some n,
                               pending_time_raw := None \<rparr>;
               prompt = buildPrompt (Some n);
               d = deliver env c key ''slot_filling'' (Prompt (fst prompt)) (Prompt (fst prompt))
                     (snd prompt)
           in \<lparr> writes = [Some flowToSave], effects = fst d, result = Returns (snd d) \<rparr>)
      | [] \<Rightarrow>
          ask_confirm env c key ''confirm''
            [Some (fl\<lparr> collected := Some col, required := Some r, next_field := Some ''confirm'' \<rparr>)]
            [] col)"

text \<open>The answer to the question for the current field.\<close>

definition fill_field :: "svc_env \<Rightarrow> string \<Rightarrow> string \<Rightarrow> string \<Rightarrow> flow \<Rightarrow> string list \<Rightarrow> collected_map
    \<Rightarrow> string \<Rightarrow> svc_run" where
  "fill_field env c message key fl r col currentField =
     (let clk = env_clock env;
          val = parseForField clk currentField message;
          val_str = (case val of Some (Str s) \<Rightarrow> nonempty (Some s) | Some (Num n) \<Rightarrow> None | None \<Rightarrow> None)
      in
      case (if currentField = ''time'' then val_str else None) of
        Some raw \<Rightarrow>
          if nonempty (normalizeTime raw) = None \<and> timeNeedsAmPm message raw then
            (let clarifyText = Clarify_time_period raw;
                 d = deliver env c key ''time_clarify'' clarifyText clarifyText True
             in \<lparr> writes = [Some (fl\<lparr> collected := Some col, required := Some r,
                                       pending_time_raw := Some raw \<rparr>)],
                  effects = fst d, result = Returns (snd d) \<rparr>)
          else continue_flow env c key fl r (set_key ''time'' (Str (prettyTime raw)) col)
      | None \<Rightarrow>
      if currentField = ''date'' then
        (case normalizeDateToISO clk message (today clk) of
           Throws \<Rightarrow> \<lparr> writes = [], effects = [], result = Throws \<rparr>
         | Returns iso_date \<Rightarrow>
             (case nonempty iso_date of
                Some i \<Rightarrow> continue_flow env c key fl r (set_key ''date'' (Str (prettyDate clk i)) col)
              | None \<Rightarrow>
                  (case val_str of
                     Some v \<Rightarrow>
                       if isDateUnclear clk v
                       then \<lparr> writes = [Some (fl\<lparr> collected := Some col, required := Some r,
                                                 next_field := Some ''date'' \<rparr>)],
                              effects = [],
                              result = Returns (no_result\<lparr> handled := True,
                                           reply_text := Some Date_clarify,
                                           meta_service_key := Some key,
                                           meta_step := Some ''date_clarify'' \<rparr>) \<rparr>
                       else continue_flow env c key fl r (set_key ''date'' (Str (prettyDate clk v)) col)
                   | None \<Rightarrow>
                       \<lparr> writes = [Some (fl\<lparr> collected := Some col, required := Some r,
                                            next_field := Some ''date'' \<rparr>)],
                         effects = [],
                         result = Returns (no_result\<lparr> handled := True,
                                      reply_text := Some Date_clarify,
                                      meta_service_key := Some key,
                                      meta_step := Some ''date_clarify'' \<rparr>) \<rparr>)))
      else
        (case val of
           Some v \<Rightarrow>
             if truthy v then continue_flow env c key fl r (set_key currentField v col)
             else continue_flow env c key fl r col
         | None \<Rightarrow> continue_flow env c key fl r col))"

text \<open>A flow with a service key is under way.\<close>

definition active_flow :: "svc_env \<Rightarrow> string \<Rightarrow> string \<Rightarrow> string \<Rightarrow> flow \<Rightarrow> svc_run" where
  "active_flow env c message key fl =
     (let rq = required_of fl key;
          col = (case collected fl of Some x \<Rightarrow> x | None \<Rightarrow> [])
      in
      if next_field fl = Some ''confirm'' then confirm_stage env c message key fl rq col
      else
        case rq of
          Not_a_list \<Rightarrow> \<lparr> writes = [], effects = [], result = Throws \<rparr>
        | Fields r \<Rightarrow>
            (let currentField = (case nonempty (next_field fl) of
                                   Some n \<Rightarrow> Some n
                                 | None \<Rightarrow> (case missing_fields r col of [] \<Rightarrow> None | f # rest \<Rightarrow> Some f));
                 combined = (case nonempty (pending_time_raw fl) of
                               Some hasPending \<Rightarrow> clarifier_combined (env_lang env) hasPending message
                             | None \<Rightarrow> None)
             in case combined of
                  Some t \<Rightarrow> time_clarified env c key fl r col t
                | None \<Rightarrow>
                    (case nonempty currentField of
                       Some f \<Rightarrow> fill_field env c message key fl r col f
                     | None \<Rightarrow> continue_flow env c key fl r col)))"
text \<open>
  The start of a slot-filling flow, on the catalogue path and on the regex path
  alike (they differ in the names of the steps): prefill the slots from the
  message under the typing bubble, store the flow, and ask for the time of day,
  for the first missing field, or for the confirmation.
\<close>

definition start_flow :: "svc_env \<Rightarrow> string \<Rightarrow> string \<Rightarrow> string \<Rightarrow> req \<Rightarrow> string \<Rightarrow> svc_run" where
  "start_flow env c message key rq stp =
     (case prefillFromMessage env message of
        Throws \<Rightarrow> \<lparr> writes = [], effects = [TypingOn c, TypingOff c], result = Throws \<rparr>
      | Returns pre \<Rightarrow>
          (case rq of
             Not_a_list \<Rightarrow> \<lparr> writes = [], effects = [TypingOn c, TypingOff c], result = Throws \<rparr>
           | Fields r \<Rightarrow>
               (let col =
                      (case pre_guests pre of Some g \<Rightarrow> if g \<noteq> 0 then [(''guests'', Num g)] else []
                       | None \<Rightarrow> [])
                      @ (case nonempty (pre_time pre) of Some t \<Rightarrow> [(''time'', Str t)] | None \<Rightarrow> [])
                      @ (case nonempty (pre_date pre) of Some d \<Rightarrow> [(''date'', Str d)] | None \<Rightarrow> [])
                      @ (case nonempty (pre_name pre) of Some n \<Rightarrow> [(''name'', Str n)] | None \<Rightarrow> []);
                    ptr = nonempty (pre_pending_time_raw pre);
                    missing = missing_fields r col;
                    fl = \<lparr> pending = None, step = None, service_key = Some key, required = Some r,
                           collected = Some col, next_field = first_or_null missing,
                           pending_time_raw = ptr \<rparr>
                in case ptr of
                     Some raw \<Rightarrow>
                       (let clarifyText = Clarify_time_period raw;
                            d = deliver env c key (stp @ ''_time_clarify'') clarifyText clarifyText True
                        in \<lparr> writes = [Some fl], effects = [TypingOn c, TypingOff c] @ fst d,
                             result = Returns (snd d) \<rparr>)
                   | None \<Rightarrow>
                       (case missing of
                          m # rest \<Rightarrow>
                            (let prompt = buildPrompt (Some m);
                                 d = deliver env c key stp (Prompt (fst prompt)) (Kickoff (fst prompt))
                                       (snd prompt)
                             in \<lparr> writes = [Some fl], effects = [TypingOn c, TypingOff c] @ fst d,
                                  result = Returns (snd d) \<rparr>)
                        | [] \<Rightarrow>
                            ask_confirm env c key (stp @ ''_confirm'')
                              [Some fl, Some (fl\<lparr> next_field := Some ''confirm'' \<rparr>)]
                              [TypingOn c, TypingOff c] col))))"

text \<open>The labels, the priority and the staff note of a recognised service.\<close>

definition announce_service :: "string \<Rightarrow> string \<Rightarrow> reply effect list" where
  "announce_service c key =
     [AddLabels c [''service_request'', ''svc_'' @ toLowerCase key],
      UpdatePriority c Medium,
      PrivateMessage c (Service_request (toLowerCase (replace_all (Lit ''_'') False '' '' key)))]"

definition REGISTRY_reply :: "string \<Rightarrow> reply option" where
  "REGISTRY_reply key = (case obj_lookup REGISTRY key of Own e \<Rightarrow> Some (Registry_reply key) | Inherited \<Rightarrow> None
                         | Undefined \<Rightarrow> None)"

text \<open>
  DB-backed lookup first. The result \<open>None\<close> is the way on to the regex fallback:
  no key, no branch that returns, or an exception, which the handler catches;
  the calls and writes made before stay.
\<close>

definition db_lookup :: "svc_env \<Rightarrow> string \<Rightarrow> string \<Rightarrow> flow option list \<times> reply effect list \<times> ServiceResult option" where
  "db_lookup env c message =
     (case catalogue env of
        Db_fails \<Rightarrow> ([], [], None)
      | Db_no_key \<Rightarrow> ([], [], None)
      | Db_key key first \<Rightarrow>
          if key = [] then ([], [], None)
          else if map_option action_type first = Some ''ASK_DETAILS''
                  \<or> map_option action_type first = Some ''REPLY'' then
            (case obj_lookup REQUIRED_FIELDS key of
               Undefined \<Rightarrow>
                 ([], announce_service c key,
                  Some (no_result\<lparr> handled := True,
                          reply_text :=
                            (case nonempty (Option.bind first reply_template) of
                               Some t \<Rightarrow> Some (Template t)
                             | None \<Rightarrow> REGISTRY_reply key),
                          meta_service_key := Some key,
                          meta_step := map_option action_type first \<rparr>))
             | found_fields \<Rightarrow>
                 (let run = start_flow env c message key
                              (case found_fields of Own r \<Rightarrow> Fields r | Inherited \<Rightarrow> Not_a_list
                               | Undefined \<Rightarrow> Not_a_list)
                              ''start_flow_prefill''
                  in (writes run, announce_service c key @ effects run,
                      case result run of Throws \<Rightarrow> None | Returns res \<Rightarrow> Some res)))
          else if map_option action_type first = Some ''ESCALATE'' then
            ([], [],
             Some (no_result\<lparr> escalate := True, reason := Some ''db_action_escalate'',
                     meta_service_key := Some key \<rparr>))
          else
            (case obj_lookup REGISTRY key of
               Undefined \<Rightarrow> ([], [], None)
             | found_entry \<Rightarrow>
                 ([], [],
                  Some (no_result\<lparr> handled := True, reply_text := REGISTRY_reply key,
                          meta_service_key := Some key, meta_step := Some ''FALLBACK'' \<rparr>))))"

text \<open>Regex fallback, and the escalation of a message that names no service.\<close>

definition regex_fallback :: "svc_env \<Rightarrow> string \<Rightarrow> string \<Rightarrow> svc_run" where
  "regex_fallback env c message =
     (case matchService message of
        Some key \<Rightarrow>
          (case map_of REQUIRED_FIELDS key of
             Some r \<Rightarrow>
               (let run = start_flow env c message key (Fields r) ''start_flow_regex_prefill''
                in run\<lparr> effects := announce_service c key @ effects run \<rparr>)
           | None \<Rightarrow>
               \<lparr> writes = [], effects = announce_service c key,
                 result = Returns (no_result\<lparr> handled := True, reply_text := REGISTRY_reply key,
                              meta_service_key := Some key, meta_step := Some ''REGEX'' \<rparr>) \<rparr>)
      | None \<Rightarrow>
          \<lparr> writes = [], effects = [PrivateMessage c (Service_unrecognized message)],
            result = Returns (no_result\<lparr> escalate := True, reason := Some ''unknown_service'' \<rparr>) \<rparr>)"

text \<open>A message that opens no flow yet: the catalogue, then the registry.\<close>

definition new_request :: "svc_env \<Rightarrow> string \<Rightarrow> string \<Rightarrow> svc_run" where
  "new_request env c message =
     (case db_lookup env c message of
        (ws, effs, Some res) \<Rightarrow> \<lparr> writes = ws, effects = effs, result = Returns res \<rparr>
      | (ws, effs, None) \<Rightarrow>
          (let run = regex_fallback env c message
           in run\<lparr> writes := ws @ writes run, effects := effs @ effects run \<rparr>))"

text \<open>The handler on the flow it read for the conversation.\<close>

definition service_run :: "svc_env \<Rightarrow> string \<Rightarrow> string \<Rightarrow> flow option \<Rightarrow> svc_run" where
  "service_run env c text existingFlow =
     (let message = trim text in
      if message = [] then
        \<lparr> writes = [], effects = [],
          result = Returns (no_result\<lparr> escalate := True, reason := Some ''empty_message'' \<rparr>) \<rparr>
      else
        case existingFlow of
          None \<Rightarrow> new_request env c message
        | Some fl \<Rightarrow>
            (case (case pending fl of Some pend \<Rightarrow> legacy_flow env c message fl pend | None \<Rightarrow> None) of
               Some run \<Rightarrow> run
             | None \<Rightarrow>
                 (case nonempty (service_key fl) of
                    Some key \<Rightarrow> active_flow env c message key fl
                  | None \<Rightarrow> new_request env c message)))"

text \<open>
  \<^verbatim>\<open>handleService\<close>: the run on the stored flow of the conversation, its writes and
  calls carried out. The writes are updates: they change the row of the
  conversation if there is one.
\<close>

definition handleService :: "svc_env \<Rightarrow> string \<Rightarrow> string \<Rightarrow> reply world \<Rightarrow> ServiceResult outcome \<times> reply world" where
  "handleService env c text w =
     (let run = service_run env c text (getServiceFlow c (tbl w))
      in (result run,
          w\<lparr> tbl := fold (setServiceFlow c) (writes run) (tbl w),
             calls := calls w @ effects run \<rparr>))"

section \<open>Smalltalk handler\<close>

text \<open>
  \<^verbatim>\<open>handleSmalltalk\<close>: the calls it issues and the reply it leaves to its caller. A
  greeting goes out as Messenger buttons with a private mirror when the
  conversation has a PSID and the send succeeds (\<open>via_messenger\<close>).
\<close>

definition handleSmalltalk :: "bool \<Rightarrow> string \<Rightarrow> string \<Rightarrow> reply effect list \<times> reply option" where
  "handleSmalltalk via_messenger conversationId text =
     (let t = normalize_str text in
      if rx_test greeting_rx True t then
        (if via_messenger
         then ([MessengerButtons conversationId Chitchat_prompt,
                ReplyPrivate conversationId Chitchat_prompt], None)
         else ([], Some Chitchat_prompt))
      else if rx_test thanks_rx True t then ([], Some Thanks_reply)
      else ([], Some Chitchat_prompt))"

section \<open>Pause gate and intent router\<close>

text \<open>Blocks bot replies if the conversation is paused. This uses only the stored
  flag \<^verbatim>\<open>paused\<close>.\<close>

definition pauseGate :: "string \<Rightarrow> string \<Rightarrow> table \<Rightarrow> bool" where
  "pauseGate propertyId conversationId t =
     (case getState propertyId conversationId t of None \<Rightarrow> False | Some st \<Rightarrow> paused st)"

definition containsEscalateKeyword :: "string \<Rightarrow> string list \<Rightarrow> bool" where
  "containsEscalateKeyword t keywords =
     (let s = toLowerCase t in list_ex (\<lambda>k. js_includes s (toLowerCase k)) keywords)"

datatype command = Cmd_resume | Cmd_pause | Cmd_resolve | Cmd_status

definition parseCommand :: "string \<Rightarrow> command option" where
  "parseCommand t =
     (let s = toLowerCase (trim t) in
      if startsWith s ''@boton'' then Some Cmd_resume
      else if startsWith s ''@botoff'' then Some Cmd_pause
      else if startsWith s ''@resolve'' then Some Cmd_resolve
      else if startsWith s ''@botstatus'' then Some Cmd_status
      else None)"

text \<open>The payloads of the welcome menu of the one vertical there is.\<close>

definition welcome_payloads :: "string list" where
  "welcome_payloads = [''Book a table'', ''WELCOME_CHECKIN_INFO'', ''WELCOME_BREAKFAST_HOURS'']"

definition isWelcomeService :: "string \<Rightarrow> bool" where
  "isWelcomeService text =
     list_ex (\<lambda>payload. toLowerCase payload = toLowerCase text \<and> \<not> startsWith payload ''WELCOME_'')
       welcome_payloads"

text \<open>
  The object the router returns: of its keys \<^verbatim>\<open>ok\<close>, \<^verbatim>\<open>skipped\<close>, \<^verbatim>\<open>escalated\<close>, \<^verbatim>\<open>mode\<close>,
  \<^verbatim>\<open>reason\<close> and \<^verbatim>\<open>intent\<close> are kept (an absent key is \<open>False\<close> or \<open>None\<close>).
\<close>

record router_result =
  r_ok :: bool
  r_skipped :: bool
  r_escalated :: "bool option"
  r_mode :: "string option"
  r_reason :: "string option"
  r_intent :: "Intent option"

definition no_route :: router_result where
  "no_route = \<lparr> r_ok = False, r_skipped = False, r_escalated = None, r_mode = None,
                r_reason = None, r_intent = None \<rparr>"

definition command_result :: "bool \<Rightarrow> string \<Rightarrow> string \<Rightarrow> router_result" where
  "command_result esc m rsn = no_route\<lparr> r_escalated := Some esc, r_mode := Some m, r_reason := Some rsn \<rparr>"

definition skipped :: "string \<Rightarrow> router_result" where
  "skipped rsn = no_route\<lparr> r_skipped := True, r_reason := Some rsn \<rparr>"

definition soft_watch :: "string \<Rightarrow> router_result" where
  "soft_watch rsn = command_result True ''soft_watch'' rsn"

definition ok_result :: "Intent \<Rightarrow> string option \<Rightarrow> router_result" where
  "ok_result i m = no_route\<lparr> r_ok := True, r_intent := Some i, r_mode := m \<rparr>"

text \<open>
  What a call of the router finds around it: the environment of the service
  handler and the configuration of the escalation handler, the settings
  (\<^verbatim>\<open>opts\<close>), the answer of the FAQ handler for the message (the reply, when it
  handled it with one), and whether smalltalk goes out through Messenger. The
  replies of the router are sentences in the language of the event.
\<close>

record router_env =
  service_env :: svc_env
  escalation_config :: config
  faq_conf_threshold :: real
  max_clarify_attempts :: int
  auto_resume_minutes :: int
  escalate_keywords :: "string list"
  chitchat_enabled :: bool
  faq_answer :: "reply option"
  smalltalk_via_messenger :: bool

definition escalation_opts :: "Intent \<Rightarrow> int \<Rightarrow> string \<Rightarrow> bool option \<Rightarrow> SoftEscalationOpts" where
  "escalation_opts i n text is_issue =
     no_opts\<lparr> opt_intent := Some i, negativeCount := Some n, opt_text := Some text, issue := is_issue \<rparr>"

text \<open>\<^verbatim>\<open>svc?.handled && svc.reply\<close>: the reply of a result that handled the message
  with one.\<close>

definition handled_reply :: "ServiceResult \<Rightarrow> reply option" where
  "handled_reply res = (if handled res then reply_text res else None)"

text \<open>Steps 3 to 8 of the router, once no service flow took the message. The state
  is the one read before.\<close>

definition route_by_intent :: "router_env \<Rightarrow> DecideOutput \<Rightarrow> row option \<Rightarrow> string \<Rightarrow> string \<Rightarrow> string
    \<Rightarrow> reply world \<Rightarrow> router_result outcome \<times> reply world" where
  "route_by_intent env decision state propertyId conversationId text w =
     (let cfg = escalation_config env;
          inWatch = (case state of Some st \<Rightarrow> watch_mode st | None \<Rightarrow> False);
          prevClarify = (case state of Some st \<Rightarrow> clarify_attempts st | None \<Rightarrow> 0);
          negative_count_before = (case state of Some st \<Rightarrow> negative_count st | None \<Rightarrow> 0);
          wantsHuman = containsEscalateKeyword text (escalate_keywords env);
          negativeCountNow = negative_count_before + (if negative decision then 1 else 0);
          isConfidentFAQ = (intent decision = FAQ \<and> confidence decision \<ge> faq_conf_threshold env)
      in
      if wantsHuman then
        (Returns (soft_watch ''keyword_request_human''),
         emit (ReplyFromBot conversationId Human_escalation)
           (handleSoftEscalation cfg propertyId conversationId
              (escalation_opts (intent decision) negative_count_before text (Some False)) w))
      else if intent decision = SERVICE \<and> negative decision then
        (Returns (soft_watch ''negative_in_service''),
         emit (ReplyFromBot conversationId Empathy_reply)
           (on_tbl (incrementNegative propertyId conversationId)
              (handleSoftEscalation cfg propertyId conversationId
                 (escalation_opts (intent decision) negativeCountNow text (Some True)) w)))
      else if intent decision = SERVICE then
        (case handleService (service_env env) conversationId text w of
           (Throws, w1) \<Rightarrow> (Throws, w1)
         | (Returns res, w1) \<Rightarrow>
             (case handled_reply res of
                Some r \<Rightarrow>
                  (Returns (ok_result SERVICE (Some ''service_handled'')),
                   emit (ReplyFromBot conversationId r) w1)
              | None \<Rightarrow>
                  (Returns (soft_watch (case nonempty (reason res) of Some rsn \<Rightarrow> rsn
                                        | None \<Rightarrow> ''service_unknown'')),
                   handleSoftEscalation cfg propertyId conversationId
                     (escalation_opts (intent decision) negative_count_before text (Some False)) w1)))
      else if negative decision then
        (Returns (soft_watch ''negative''),
         emit (ReplyFromBot conversationId Empathy_reply)
           (on_tbl (incrementNegative propertyId conversationId)
              (handleSoftEscalation cfg propertyId conversationId
                 (escalation_opts (intent decision) negativeCountNow text (Some True)) w)))
      else if isConfidentFAQ \<and> faq_answer env \<noteq> None then
        (Returns (ok_result FAQ None),
         (case faq_answer env of Some r \<Rightarrow> emit (ReplyFromBot conversationId r) w | None \<Rightarrow> w))
      else if intent decision = UNKNOWN \<or> (intent decision = FAQ \<and> \<not> isConfidentFAQ) \<or> inWatch then
        (let w1 = handleSoftEscalation cfg propertyId conversationId
                    (escalation_opts (intent decision) negative_count_before text None) w
         in if prevClarify \<ge> max_clarify_attempts env
            then (Returns (soft_watch ''clarify_exhausted_soft''), w1)
            else (Returns (soft_watch ''clarify''),
                  emit (ReplyFromBot conversationId
                          (if prevClarify + 1 = 1 then Clarify_generic_1 else Clarify_generic_2))
                    (on_tbl (incrementClarify propertyId conversationId) w1)))
      else if intent decision = CHITCHAT then
        (if \<not> chitchat_enabled env then (Returns (skipped ''chitchat_disabled''), w)
         else
           case handleSmalltalk (smalltalk_via_messenger env) conversationId text of
             (effs, r) \<Rightarrow>
               (Returns (ok_result CHITCHAT None),
                (case r of Some rep \<Rightarrow> emit (ReplyFromBot conversationId rep) (w\<lparr>calls := calls w @ effs\<rparr>)
                 | None \<Rightarrow> w\<lparr>calls := calls w @ effs\<rparr>)))
      else (Returns (ok_result (intent decision) None), w))"

text \<open>Steps 2a to 2b: the welcome menu and the active service flow; then the
  steps by intent. An exception of the service handler is caught in step 2a
  only.\<close>

definition route_message :: "router_env \<Rightarrow> (string \<Rightarrow> DecideOutput) \<Rightarrow> string \<Rightarrow> string \<Rightarrow> string
    \<Rightarrow> reply world \<Rightarrow> router_result outcome \<times> reply world" where
  "route_message env decide_fn propertyId conversationId text w0 =
     (let welcome =
            (if isWelcomeService text
             then (case handleService (service_env env) conversationId text w0 of
                     (Throws, w1) \<Rightarrow> (None, w1)
                   | (Returns res, w1) \<Rightarrow> (handled_reply res, w1))
             else (None, w0))
      in case welcome of
           (Some r, w1) \<Rightarrow>
             (Returns (ok_result SERVICE (Some ''service_from_welcome'')),
              emit (ReplyFromBot conversationId r) w1)
         | (None, w1) \<Rightarrow>
             (let state = getState propertyId conversationId (tbl w1);
                  decision = decide_fn text;
                  activeKey = (case getServiceFlow conversationId (tbl w1) of
                                 Some fl \<Rightarrow> nonempty (service_key fl) | None \<Rightarrow> None)
              in case activeKey of
                   None \<Rightarrow> route_by_intent env decision state propertyId conversationId text w1
                 | Some k \<Rightarrow>
                     (case handleService (service_env env) conversationId text w1 of
                        (Throws, w2) \<Rightarrow> (Throws, w2)
                      | (Returns res, w2) \<Rightarrow>
                          (case handled_reply res of
                             Some r \<Rightarrow>
                               (Returns (ok_result SERVICE (Some ''service_flow_active'')),
                                emit (ReplyFromBot conversationId r) w2)
                           | None \<Rightarrow>
                               route_by_intent env decision state propertyId conversationId text w2))))"

text \<open>\<^verbatim>\<open>intentRouter\<close>: staff commands are always processed; then the pause gate; then
  the message is routed.\<close>

definition intentRouter :: "router_env \<Rightarrow> (string \<Rightarrow> DecideOutput) \<Rightarrow> string \<Rightarrow> string \<Rightarrow> string
    \<Rightarrow> reply world \<Rightarrow> router_result outcome \<times> reply world" where
  "intentRouter env decide_fn propertyId conversationId text w =
     (case parseCommand text of
        Some Cmd_resume \<Rightarrow>
          (Returns (command_result False ''resume'' ''command_resume''),
           resumeBot propertyId conversationId w)
      | Some Cmd_pause \<Rightarrow>
          (case handleHardPause propertyId conversationId (auto_resume_minutes env) w of
             (Throws, w1) \<Rightarrow> (Throws, w1)
           | (Returns finished, w1) \<Rightarrow>
               (Returns (command_result True ''hard_pause'' ''command_pause''), w1))
      | Some Cmd_resolve \<Rightarrow>
          (Returns (command_result False ''resolved'' ''command_resolve''),
           resolveConversation propertyId conversationId w)
      | Some Cmd_status \<Rightarrow> (Returns (skipped ''command_status_noop''), w)
      | None \<Rightarrow>
          if pauseGate propertyId conversationId (tbl w) then (Returns (skipped ''paused''), w)
          else route_message env decide_fn propertyId conversationId text w)"

section \<open>Chatwoot webhook\<close>

text \<open>
  The message as \<^verbatim>\<open>parseMessage\<close> reads it from the request: the event type (lower
  case), whether the body carries a message object, the conversation id, the
  sender type and the message type (lower case; a numeric type is \<^verbatim>\<open>incoming\<close>,
  \<^verbatim>\<open>outgoing\<close> or \<^verbatim>\<open>note\<close>), the private flag, the content, and the attribute by which
  the bot marks its own messages.
\<close>

record webhook_message =
  eventType :: string
  has_message_object :: bool
  wm_conversationId :: string
  senderType :: string
  messageType :: string
  isPrivate :: bool
  content :: string
  loopdup_bot :: bool

text \<open>
  The environment of the webhook: the configuration, the variables it reads
  itself (\<^verbatim>\<open>CW_PREFIX_BOT\<close>: \<open>None\<close> is the default prefix, which starts with a robot
  emoji and so starts no string of the model; \<^verbatim>\<open>ESCALATE_KEYWORDS\<close> is the list
  already split), the setting of the classifier, and what the handlers it
  reaches find around them.
\<close>

record webhook_env =
  wh_config :: config
  wh_service_env :: svc_env
  MAX_CLARIFY_ATTEMPTS :: int
  ESCALATE_KEYWORDS :: "string list"
  CW_PREFIX_BOT :: "string option"
  ai_chitchat_enabled :: bool
  wh_faq_answer :: "reply option"
  wh_smalltalk_via_messenger :: bool

datatype webhook_response =
    Ignored string
  | Ignored_message string string bool
  | Hard_paused_by_command
  | Resumed_by_command
  | Status_sent
  | Skipped_paused
  | Routed_chitchat
  | Routed router_result
  | Failed_500

text \<open>\<^verbatim>\<open>s.toUpperCase()\<close> and \<^verbatim>\<open>s.indexOf(k)\<close>.\<close>

definition toUpperCase :: "string \<Rightarrow> string" where
  "toUpperCase s = concat (map toUpperCase_char s)"

fun index_from :: "nat \<Rightarrow> string \<Rightarrow> string \<Rightarrow> nat option" where
  "index_from i [] k = (if k = [] then Some i else None)"
| "index_from i (c # cs) k = (if startsWith (c # cs) k then Some i else index_from (i + 1) cs k)"

text \<open>Fallback heuristics to identify the bot's public replies by text.\<close>

definition looksLikeBotOutgoingText :: "string option \<Rightarrow> string \<Rightarrow> bool" where
  "looksLikeBotOutgoingText prefix text =
     (if text = [] then False
      else
        let t = trim text in
        if (case prefix of Some p \<Rightarrow> p \<noteq> [] \<and> startsWith t p | None \<Rightarrow> False) then True
        else (case index_from 0 (toUpperCase t) ''BOT:'' of Some idx \<Rightarrow> idx \<le> 10 | None \<Rightarrow> False))"

text \<open>The two texts of the bot's own pause note start with a pause emoji: no string
  of the model is one of them.\<close>

definition looksLikeOurAutoPauseNote :: "string \<Rightarrow> bool" where
  "looksLikeOurAutoPauseNote text = False"

definition safetyAssign :: "config \<Rightarrow> string \<Rightarrow> 'r world \<Rightarrow> 'r world" where
  "safetyAssign cfg conversationId w =
     (case DEFAULT_ASSIGN cfg of
        None \<Rightarrow> w
      | Some a \<Rightarrow>
          if a \<noteq> 0 \<and> \<not> (assignee_id w conversationId > 0)
          then (emit (AssignToUser conversationId a (DEFAULT_TEAM cfg)) w)
                 \<lparr>assignee_id := (assignee_id w)(conversationId := a)\<rparr>
          else w)"

text \<open>Auto-pause on staff/page public replies (ignore bot and system/timeline). The
  update of the row can fail, and the request with it.\<close>

definition auto_pause :: "webhook_env \<Rightarrow> webhook_message \<Rightarrow> reply world \<Rightarrow> unit outcome \<times> reply world" where
  "auto_pause env m w =
     (let cfg = wh_config env;
          c = wm_conversationId m;
          isStaff = (senderType m = ''agent'' \<or> senderType m = ''user'');
          hasText = (trim (content m) \<noteq> []);
          isOurBot = (loopdup_bot m \<or> looksLikeBotOutgoingText (CW_PREFIX_BOT env) (content m))
      in
      if messageType m = ''outgoing'' \<and> \<not> isPrivate m \<and> isStaff \<and> hasText \<and> \<not> isOurBot then
        (let stBefore = getState (PROPERTY_ID cfg) c (tbl w)
         in case manualPauseForMinutes (accepts_minutes w) (now w) (PROPERTY_ID cfg) c
                   (MANUAL_REPLY_PAUSE_MINUTES cfg) (tbl w) of
              Throws \<Rightarrow> (Throws, w)
            | Returns t \<Rightarrow>
                (Returns (),
                 if (case stBefore of Some st \<Rightarrow> paused st | None \<Rightarrow> False) then w\<lparr>tbl := t\<rparr>
                 else emit (PrivateMessage c Note_paused) (w\<lparr>tbl := t\<rparr>)))
      else (Returns (), w))"

text \<open>Staff private commands (\<^verbatim>\<open>@botoff\<close> / \<^verbatim>\<open>@boton\<close> / \<^verbatim>\<open>@botstatus\<close>).\<close>

definition staff_private_note :: "webhook_env \<Rightarrow> webhook_message \<Rightarrow> reply world \<Rightarrow> webhook_response \<times> reply world" where
  "staff_private_note env m w =
     (let cfg = wh_config env;
          c = wm_conversationId m;
          text = content m
      in
      if loopdup_bot m \<or> looksLikeOurAutoPauseNote text then (Ignored ''bot_private_note'', w)
      else if rx_test (Lit ''@botoff'') True text then
        (case handleHardPause (PROPERTY_ID cfg) c (AUTO_RESUME_MINUTES cfg) w of
           (Throws, w1) \<Rightarrow> (Failed_500, w1)
         | (Returns finished, w1) \<Rightarrow> (Hard_paused_by_command, w1))
      else if rx_test (Lit ''@boton'') True text then
        (Resumed_by_command, resumeBot (PROPERTY_ID cfg) c w)
      else if rx_test (Lit ''@botstatus'') True text then
        (let st = getState (PROPERTY_ID cfg) c (tbl w)
         in (Status_sent,
             emit (ReplyFromBot c
                     (Bot_status (case st of Some s \<Rightarrow> paused s | None \<Rightarrow> False)
                                 (case st of Some s \<Rightarrow> watch_mode s | None \<Rightarrow> False)
                                 (case st of Some s \<Rightarrow> clarify_attempts s | None \<Rightarrow> 0)
                                 (case st of Some s \<Rightarrow> negative_count s | None \<Rightarrow> 0))) w))
      else (Ignored ''agent_private_note'', w))"

text \<open>The settings the webhook passes to the router.\<close>

definition router_settings :: "webhook_env \<Rightarrow> router_env" where
  "router_settings env =
     \<lparr> service_env = wh_service_env env, escalation_config = wh_config env,
       faq_conf_threshold = 0.78, max_clarify_attempts = MAX_CLARIFY_ATTEMPTS env,
       auto_resume_minutes = AUTO_RESUME_MINUTES (wh_config env),
       escalate_keywords = ESCALATE_KEYWORDS env, chitchat_enabled = True,
       faq_answer = wh_faq_answer env, smalltalk_via_messenger = wh_smalltalk_via_messenger env \<rparr>"

text \<open>A guest message that passed the guards: smalltalk is answered by its handler
  alone (the reply it returns is not sent), everything else goes to the router;
  an exception there gives the response 500.\<close>

definition guest_message :: "webhook_env \<Rightarrow> webhook_message \<Rightarrow> reply world \<Rightarrow> webhook_response \<times> reply world" where
  "guest_message env m w =
     (let cfg = wh_config env;
          c = wm_conversationId m;
          text = content m;
          pre = decide (ai_chitchat_enabled env) text
      in
      if intent pre = CHITCHAT then
        (Routed_chitchat,
         safetyAssign cfg c
           (w\<lparr>calls := calls w @ fst (handleSmalltalk (wh_smalltalk_via_messenger env) c text)\<rparr>))
      else
        case intentRouter (router_settings env) (decide (ai_chitchat_enabled env)) (PROPERTY_ID cfg) c
               text w of
          (Throws, w1) \<Rightarrow> (Failed_500, w1)
        | (Returns routed, w1) \<Rightarrow>
            (Routed routed,
             (case getState (PROPERTY_ID cfg) c (tbl w1) of
                Some st \<Rightarrow> if watch_mode st \<or> paused st then safetyAssign cfg c w1 else w1
              | None \<Rightarrow> w1)))"

text \<open>The handler of \<^verbatim>\<open>POST /chatwoot\<close>, on the parsed message. An exception anywhere
  in it gives the response 500.\<close>

definition chatwoot_webhook :: "webhook_env \<Rightarrow> webhook_message \<Rightarrow> reply world \<Rightarrow> webhook_response \<times> reply world" where
  "chatwoot_webhook env m w =
     (let cfg = wh_config env;
          c = wm_conversationId m;
          isStaff = (senderType m = ''agent'' \<or> senderType m = ''user'')
      in
      if c = [] then (Ignored ''no_conversation_id'', w)
      else if eventType m \<noteq> [] \<and> eventType m \<noteq> ''message_created'' \<and> \<not> has_message_object m
      then (Ignored (''event:'' @ eventType m), w)
      else
        case auto_pause env m w of
          (Throws, w1) \<Rightarrow> (Failed_500, w1)
        | (Returns finished, w1) \<Rightarrow>
            (if isStaff \<and> (messageType m = ''note'' \<or> isPrivate m) then staff_private_note env m w1
             else
               let inboundLike = (messageType m = ''incoming''
                                  \<or> (messageType m = [] \<and> \<not> isStaff \<and> \<not> isPrivate m));
                   isGuestInbound = (inboundLike \<and> trim (content m) \<noteq> []
                                     \<and> \<not> (case CW_PREFIX_BOT env of
                                              Some p \<Rightarrow> startsWith (content m) p
                                            | None \<Rightarrow> False))
               in
               if \<not> isGuestInbound then (Ignored_message (senderType m) (messageType m) (isPrivate m), w1)
               else if (case getState (PROPERTY_ID cfg) c (tbl w1) of Some st \<Rightarrow> paused st
                        | None \<Rightarrow> False)
               then (Skipped_paused, w1)
               else guest_message env m w1))"

section \<open>Scenarios\<close>

text \<open>A conversation in the middle of a booking, escalated and paused.\<close>

definition ex_flow :: flow where
  "ex_flow =
     \<lparr> pending = None, step = None, service_key = Some ''BOOK_TABLE'',
       required = Some [''guests'', ''time'', ''date'', ''name''],
       collected = Some [(''guests'', Num 2)], next_field = Some ''time'',
       pending_time_raw = None \<rparr>"

definition ex_row :: row where
  "ex_row =
     \<lparr> property_id = ''hotel_demo_1'', conversation_id = ''42'', paused = True,
       resume_at = Some 1800000, paused_until = None, escalated = True, watch_mode = True,
       clarify_attempts = 2, negative_count = 1, service_flow = Some ex_flow \<rparr>"

definition ex_world :: "unit world" where
  "ex_world = \<lparr> tbl = [ex_row], calls = [], assignee_id = (\<lambda>c. 0), now = 0,
       accepts_minutes = (\<lambda>m. 0 \<le> m \<and> m \<le> 2147483647) \<rparr>"

text \<open>The default configuration, and a world without rows.\<close>

definition ex_config :: config where
  "ex_config =
     \<lparr> DEFAULT_ASSIGN = None, DEFAULT_TEAM = None, SOFTWATCH_NOTIFY_ONCE = True,
       AUTO_RESUME_MINUTES = 30, MANUAL_REPLY_PAUSE_MINUTES = 30, PROPERTY_ID = ''hotel_demo_1'' \<rparr>"

definition ex_world0 :: "unit world" where
  "ex_world0 = \<lparr> tbl = [], calls = [], assignee_id = (\<lambda>c. 0), now = 0,
       accepts_minutes = (\<lambda>m. 0 \<le> m \<and> m \<le> 2147483647) \<rparr>"

text \<open>
  The same configuration with the staff note of a soft escalation switched off, the
  options of a call that reports a flooded room, and a world whose row is escalated
  but no longer in watch mode.
\<close>

definition quiet_config :: config where
  "quiet_config = ex_config\<lparr> SOFTWATCH_NOTIFY_ONCE := False \<rparr>"

definition flood_opts :: SoftEscalationOpts where
  "flood_opts =
     no_opts\<lparr> opt_intent := Some SERVICE, negativeCount := Some 0,
               opt_text := Some ''The room is flooded'', issue := Some True \<rparr>"

definition cooled_world :: "unit world" where
  "cooled_world = ex_world\<lparr> tbl := [ex_row\<lparr> watch_mode := False \<rparr>] \<rparr>"

text \<open>
  A guest writes in conversation 42 of the demo property on Tuesday 3 November
  2026. The catalogue knows no service, so the registry decides; the Messenger
  buttons and the enrichment are off, as they are by default.
\<close>

definition guest_env :: svc_env where
  "guest_env =
     \<lparr> env_lang = En, env_clock = \<lparr> today_day = 20760, ahead_of_utc = (\<lambda>d. False) \<rparr>,
       catalogue = Db_no_key, messenger_buttons = False, llm = None \<rparr>"

definition guest_world :: "reply world" where
  "guest_world =
     \<lparr> tbl = [fresh_row ''hotel_demo_1'' ''42''], calls = [], assignee_id = (\<lambda>c. 0), now = 0,
       accepts_minutes = (\<lambda>m. 0 \<le> m \<and> m \<le> 2147483647) \<rparr>"

text \<open>The world after the handler has heard a message of the guest.\<close>

definition hears :: "string \<Rightarrow> reply world \<Rightarrow> reply world" where
  "hears text w = snd (handleService guest_env ''42'' text w)"

definition friday_message :: string where
  "friday_message = ''book a table for friday 8pm for 2 people under koen''"

definition friday_flow :: flow where
  "friday_flow =
     \<lparr> pending = None, step = None, service_key = Some ''BOOK_TABLE'',
       required = Some [''guests'', ''time'', ''date'', ''name''],
       collected = Some [(''guests'', Num 2), (''time'', Str ''8:00 pm''), (''name'', Str ''koen'')],
       next_field = Some ''date'', pending_time_raw = None \<rparr>"

text \<open>A late checkout: the flow after the opening message, after the bare hour 7,
  and after the bare hour 8 that answers "in the morning or in the evening?".\<close>

definition checkout_message :: string where
  "checkout_message = ''late checkout under koen''"

definition checkout_flow :: flow where
  "checkout_flow =
     \<lparr> pending = None, step = None, service_key = Some ''LATE_CHECKOUT'',
       required = Some [''time'', ''name''], collected = Some [(''name'', Str ''koen'')],
       next_field = Some ''time'', pending_time_raw = None \<rparr>"

definition checkout_flow_7 :: flow where
  "checkout_flow_7 = checkout_flow\<lparr> pending_time_raw := Some ''7'' \<rparr>"

definition checkout_flow_8 :: flow where
  "checkout_flow_8 =
     checkout_flow_7\<lparr> collected := Some [(''name'', Str ''koen''), (''time'', Str ''8:00'')],
                       next_field := Some ''confirm'' \<rparr>"

text \<open>A flow of the older shape, in which the guest was asked what to change.\<close>

definition legacy_booking :: flow where
  "legacy_booking =
     \<lparr> pending = Some \<lparr> bd_name = Some ''koen'', bd_guests = Some 2, bd_date = Some ''06 November'',
                        bd_time = Some ''8:00 pm'' \<rparr>,
       step = Some ''ask_change'', service_key = None, required = None, collected = None,
       next_field = None, pending_time_raw = None \<rparr>"

text \<open>The result of a run that answers with a reply.\<close>

definition answered :: "string \<Rightarrow> string \<Rightarrow> reply \<Rightarrow> ServiceResult outcome" where
  "answered key stp r =
     Returns \<lparr> handled = True, reply_text = Some r, escalate = False, reason = None,
               meta_service_key = Some key, meta_step = Some stp, sent_via_messenger = False \<rparr>"

text \<open>A late checkout for two: the opening message and the flow it leaves.\<close>

definition party_message :: string where
  "party_message = ''late checkout for 2 people''"

definition party_flow :: flow where
  "party_flow =
     \<lparr> pending = None, step = None, service_key = Some ''LATE_CHECKOUT'',
       required = Some [''time'', ''name''], collected = Some [(''guests'', Num 2)],
       next_field = Some ''time'', pending_time_raw = None \<rparr>"

text \<open>
  Staff write the private note "@botoff 15" in conversation 42, which has a state
  row; the environment has the defaults (\<^verbatim>\<open>AUTO_RESUME_MINUTES\<close> is 30). The clock of
  the world stands at 1000000 ms.
\<close>

definition staff_env :: webhook_env where
  "staff_env =
     \<lparr> wh_config = ex_config, wh_service_env = guest_env, MAX_CLARIFY_ATTEMPTS = 2,
       ESCALATE_KEYWORDS = [''human'', ''agent'', ''staff'', ''manager'', ''real person''],
       CW_PREFIX_BOT = None, ai_chitchat_enabled = True, wh_faq_answer = None,
       wh_smalltalk_via_messenger = False \<rparr>"

definition botoff_note :: webhook_message where
  "botoff_note =
     \<lparr> eventType = ''message_created'', has_message_object = True, wm_conversationId = ''42'',
       senderType = ''user'', messageType = ''note'', isPrivate = True, content = ''@botoff 15'',
       loopdup_bot = False \<rparr>"

definition staff_world :: "reply world" where
  "staff_world =
     \<lparr> tbl = [fresh_row ''hotel_demo_1'' ''42''], calls = [], assignee_id = (\<lambda>c. 0), now = 1000000,
       accepts_minutes = (\<lambda>m. 0 \<le> m \<and> m \<le> 2147483647) \<rparr>"

text \<open>A conversation that is paused with a deadline that has passed: the row says
  paused until 1800000 ms, the clock stands at 5000000 ms.\<close>

definition overdue_row :: row where
  "overdue_row = (fresh_row ''hotel_demo_1'' ''42'')\<lparr> paused := True, resume_at := Some 1800000 \<rparr>"

definition overdue_world :: "reply world" where
  "overdue_world = \<lparr> tbl = [overdue_row], calls = [], assignee_id = (\<lambda>c. 0), now = 5000000,
       accepts_minutes = (\<lambda>m. 0 \<le> m \<and> m \<le> 2147483647) \<rparr>"

section \<open>States of the dialogue\<close>

text \<open>A key counts as resumed when its row is not paused and both counters are zero.\<close>

definition resumed :: "string \<Rightarrow> string \<Rightarrow> table \<Rightarrow> bool" where
  "resumed p c t =
     (case getState p c t of None \<Rightarrow> False
      | Some r \<Rightarrow> negative_count r = 0 \<and> clarify_attempts r = 0 \<and> \<not> paused r)"

text \<open>Every key of \<^verbatim>\<open>collected\<close> is in the list \<^verbatim>\<open>required\<close> of the flow.\<close>

definition within_required :: "flow \<Rightarrow> bool" where
  "within_required fl =
     (case collected fl of
        None \<Rightarrow> True
      | Some col \<Rightarrow>
          list_all (\<lambda>e. List.member (case required fl of Some r \<Rightarrow> r | None \<Rightarrow> []) (fst e)) col)"

text \<open>Every key of \<^verbatim>\<open>collected\<close> is one of the four slots.\<close>

definition is_slot :: "string \<Rightarrow> bool" where
  "is_slot k = List.member [''guests'', ''time'', ''date'', ''name''] k"

definition slots_only :: "collected_map \<Rightarrow> bool" where
  "slots_only col = list_all (\<lambda>e. is_slot (fst e)) col"

definition slot_keys_only :: "flow option \<Rightarrow> bool" where
  "slot_keys_only f =
     (case f of None \<Rightarrow> True
      | Some fl \<Rightarrow> (case collected fl of None \<Rightarrow> True | Some col \<Rightarrow> slots_only col))"

text \<open>
  The tables the system can reach: it starts without rows; the repository
  inserts the row of a conversation (\<^verbatim>\<open>ensureState\<close>) and updates columns other than
  \<^verbatim>\<open>service_flow\<close> (every other statement of the repository is such an update of
  the rows that match a condition); the service handler hears a message.
\<close>

inductive reachable :: "table \<Rightarrow> bool" where
  no_rows: "reachable []"
| new_row: "reachable t \<Longrightarrow> reachable (ensureState p c t)"
| other_columns:
    "reachable t \<Longrightarrow> (\<And>r. service_flow (f r) = service_flow r) \<Longrightarrow> reachable (update_where P f t)"
| message: "reachable t \<Longrightarrow> tbl w = t \<Longrightarrow> reachable (tbl (snd (handleService env c text w)))"

text \<open>Every flow of the table holds slot keys only.\<close>

definition flows_ok :: "table \<Rightarrow> bool" where
  "flows_ok t = list_all (\<lambda>r. slot_keys_only (service_flow r)) t"


section \<open>Properties of the store and the escalation handler\<close>

lemma filter_update_where:
  assumes "\<And>r. is_key p c r \<Longrightarrow> is_key p c (f r)"
  shows "filter (is_key p c) (update_where (is_key p c) f t) = map f (filter (is_key p c) t)"
  using assms by (induction t) (auto simp: update_where_def)

lemma getState_update_where:
  assumes "\<And>r. is_key p c r \<Longrightarrow> is_key p c (f r)"
  shows "getState p c (update_where (is_key p c) f t) = map_option f (getState p c t)"
  using filter_update_where [OF assms]
  by (simp add: getState_def split: list.splits)

lemma getServiceFlow_update_where:
  assumes "\<And>r. conversation_id (f r) = conversation_id r" "\<And>r. service_flow (f r) = service_flow r"
  shows "getServiceFlow c (update_where cond f t) = getServiceFlow c t"
proof -
  have "filter (\<lambda>r. conversation_id r = c) (update_where cond f t)
        = map (\<lambda>r. if cond r then f r else r) (filter (\<lambda>r. conversation_id r = c) t)"
    using assms(1) by (induction t) (auto simp: update_where_def)
  then show ?thesis
    using assms(2) by (simp add: getServiceFlow_def split: list.splits)
qed

lemma resolve_flow_unchanged:
  "getServiceFlow c (tbl (resolveConversation p c w)) = getServiceFlow c (tbl w)"
  by (simp add: resolveConversation_def on_tbl_def emit_def clearState_def Let_def
      getServiceFlow_update_where)

text \<open>
  C3. After \<^verbatim>\<open>resolveConversation\<close> the pause fields, \<open>escalated\<close>, \<open>watch_mode\<close> and
  both counters of the row are reset, but the \<open>service_flow\<close> payload is not cleared:
  a conversation resolved in the middle of a booking keeps its flow.
\<close>

theorem resolveConversation_keeps_service_flow:
  "getState ''hotel_demo_1'' ''42'' (tbl (resolveConversation ''hotel_demo_1'' ''42'' ex_world))
     = Some (ex_row\<lparr>paused := False, resume_at := None, paused_until := None, escalated := False,
                   watch_mode := False, clarify_attempts := 0, negative_count := 0\<rparr>)
   \<and> getServiceFlow ''42'' (tbl (resolveConversation ''hotel_demo_1'' ''42'' ex_world)) = Some ex_flow"
  by (simp add: resolveConversation_def on_tbl_def emit_def clearState_def Let_def
      update_where_def getState_def getServiceFlow_def is_key_def ex_world_def ex_row_def)

section \<open>Properties of the slot parsers\<close>

lemma first_guest_pattern_range:
  "first_guest_pattern ps s = Some n \<Longrightarrow> 1 \<le> n \<and> n \<le> 50"
  by (induction ps) (auto split: option.splits if_splits)

text \<open>
  C10. For every input string, \<^verbatim>\<open>parseGuests\<close> returns null or an integer from 1 to
  50: the standalone number, the sum of the categories and every qualified phrase
  are each checked against the range before they are returned.
\<close>

theorem parseGuests_range:
  "case parseGuests text of None \<Rightarrow> True | Some n \<Rightarrow> 1 \<le> n \<and> n \<le> 50"
proof (cases "parseGuests text")
  case None
  then show ?thesis by simp
next
  case (Some n)
  then have "1 \<le> n \<and> n \<le> 50"
    unfolding parseGuests_def Let_def
    by (auto split: if_splits option.splits dest: first_guest_pattern_range)
  with Some show ?thesis by simp
qed

lemma parseGuests_adults_kids: "parseGuests ''4 adults and 2 kids'' = Some 6"
  by code_simp

theorem parseGuests_range_witness:
  "parseGuests ''4 adults and 2 kids'' = Some 6 \<and> (1::int) \<le> 6 \<and> (6::int) \<le> 50"
  using parseGuests_range [of "''4 adults and 2 kids''"] parseGuests_adults_kids by simp

section \<open>Properties of resume, resolve and soft escalation\<close>

lemma getState_update_key:
  assumes "\<And>r. property_id (f r) = property_id r" "\<And>r. conversation_id (f r) = conversation_id r"
  shows "getState p c (update_where (is_key p c) f t) = map_option f (getState p c t)"
  by (rule getState_update_where) (simp add: is_key_def assms)

lemma getState_resumeBot:
  "getState p c (tbl (resumeBot p c w)) =
     map_option (\<lambda>r. r\<lparr>paused := False, resume_at := None, paused_until := None,
                        watch_mode := False, negative_count := 0\<rparr>) (getState p c (tbl w))"
  by (simp add: resumeBot_def on_tbl_def emit_def Let_def clearPause_def resetNegativeCount_def
      getState_update_key option.map_comp comp_def)

lemma getState_resolveConversation:
  "getState p c (tbl (resolveConversation p c w)) =
     map_option (\<lambda>r. r\<lparr>paused := False, resume_at := None, paused_until := None,
                        escalated := False, watch_mode := False, clarify_attempts := 0,
                        negative_count := 0\<rparr>) (getState p c (tbl w))"
  by (simp add: resolveConversation_def on_tbl_def emit_def Let_def clearState_def
      getState_update_key)

lemma getState_ensureState:
  "getState p c (ensureState p' c' t) =
     (case getState p c t of Some r \<Rightarrow> Some r
      | None \<Rightarrow> if p = p' \<and> c = c' then Some (fresh_row p c) else None)"
proof -
  have a: "filter (is_key p c) t = [] \<Longrightarrow> p = p' \<Longrightarrow> c = c' \<Longrightarrow> \<not> list_ex (is_key p' c') t"
    by (induction t) (auto split: if_splits)
  show ?thesis
    using a
    by (auto simp: getState_def ensureState_def fresh_row_def is_key_def split: list.splits)
qed

lemma getState_update_other:
  assumes "(p, c) \<noteq> (p', c')" "\<And>r. property_id (f r) = property_id r"
    "\<And>r. conversation_id (f r) = conversation_id r"
  shows "getState p c (update_where (is_key p' c') f t) = getState p c t"
proof -
  have "filter (is_key p c) (update_where (is_key p' c') f t) = filter (is_key p c) t"
    using assms by (induction t) (auto simp: update_where_def is_key_def)
  then show ?thesis by (simp add: getState_def)
qed

lemma resumed_resumeNow_same: "resumed p c (resumeNow p c t)"
  by (auto simp: resumed_def resumeNow_def getState_update_key getState_ensureState
      fresh_row_def split: option.splits)

lemma resumed_resumeNow_other:
  assumes "resumed p c t"
  shows "resumed p c (resumeNow p' c' t)"
proof (cases "(p, c) = (p', c')")
  case True
  then show ?thesis using resumed_resumeNow_same by simp
next
  case False
  then have "getState p c (resumeNow p' c' t) = getState p c (ensureState p' c' t)"
    unfolding resumeNow_def by (intro getState_update_other) auto
  also have "\<dots> = getState p c t"
    using assms False by (auto simp: getState_ensureState resumed_def split: option.splits)
  finally show ?thesis using assms by (simp add: resumed_def)
qed

lemma resumed_fold:
  "resumed p c t \<Longrightarrow>
   resumed p c (fold (\<lambda>r acc. resumeNow (property_id r) (conversation_id r) acc) rows t)"
  by (induction rows arbitrary: t) (auto intro: resumed_resumeNow_other)

lemma sweep_resumes:
  "r \<in> set rows \<Longrightarrow>
   resumed (property_id r) (conversation_id r)
     (fold (\<lambda>r acc. resumeNow (property_id r) (conversation_id r) acc) rows t)"
proof (induction rows arbitrary: t)
  case Nil
  then show ?case by simp
next
  case (Cons x xs)
  show ?case
  proof (cases "r = x")
    case True
    then show ?thesis
      using resumed_fold [OF resumed_resumeNow_same] by simp
  next
    case False
    with Cons show ?thesis by simp
  qed
qed

text \<open>
  C5, as amended. The staff resume (\<^verbatim>\<open>resumeBot\<close>) resets \<open>negative_count\<close> and leaves
  \<open>clarify_attempts\<close> as it was; resolve resets both counters; every row the
  auto-resume sweep selects is afterwards not paused with both counters zero.
\<close>

theorem counters_reset_on_resume_and_resolve:
  "(\<forall>r. getState p c (tbl (resumeBot p c w)) = Some r \<longrightarrow>
      negative_count r = 0 \<and>
      map_option clarify_attempts (getState p c (tbl w)) = Some (clarify_attempts r))
   \<and> (\<forall>r. getState p c (tbl (resolveConversation p c w)) = Some r \<longrightarrow>
      negative_count r = 0 \<and> clarify_attempts r = 0)
   \<and> (\<forall>r \<in> set (fst (autoResumeDueConversations n t)).
        resumed (property_id r) (conversation_id r) (snd (autoResumeDueConversations n t)))"
proof (intro conjI allI impI ballI)
  fix r assume "getState p c (tbl (resumeBot p c w)) = Some r"
  then show "negative_count r = 0"
    and "map_option clarify_attempts (getState p c (tbl w)) = Some (clarify_attempts r)"
    by (auto simp: getState_resumeBot)
next
  fix r assume "getState p c (tbl (resolveConversation p c w)) = Some r"
  then show "negative_count r = 0" and "clarify_attempts r = 0"
    by (auto simp: getState_resolveConversation)
next
  fix r assume "r \<in> set (fst (autoResumeDueConversations n t))"
  then show "resumed (property_id r) (conversation_id r) (snd (autoResumeDueConversations n t))"
    by (simp add: autoResumeDueConversations_def Let_def sweep_resumes)
qed

theorem counters_reset_on_resume_and_resolve_witness:
  "getState ''hotel_demo_1'' ''42'' (tbl (resumeBot ''hotel_demo_1'' ''42'' ex_world))
     = Some (ex_row\<lparr>paused := False, resume_at := None, paused_until := None,
                      watch_mode := False, negative_count := 0\<rparr>)
   \<and> negative_count (ex_row\<lparr>paused := False, resume_at := None, paused_until := None,
                      watch_mode := False, negative_count := 0\<rparr>) = 0
   \<and> getState ''hotel_demo_1'' ''42'' (tbl (resolveConversation ''hotel_demo_1'' ''42'' ex_world))
     = Some (ex_row\<lparr>paused := False, resume_at := None, paused_until := None, escalated := False,
                      watch_mode := False, clarify_attempts := 0, negative_count := 0\<rparr>)
   \<and> ex_row \<in> set (fst (autoResumeDueConversations 1800000 [ex_row]))
   \<and> resumed ''hotel_demo_1'' ''42'' (snd (autoResumeDueConversations 1800000 [ex_row]))"
proof -
  have g: "getState ''hotel_demo_1'' ''42'' (tbl ex_world) = Some ex_row"
    by (simp add: getState_def ex_world_def ex_row_def is_key_def)
  have d: "ex_row \<in> set (fst (autoResumeDueConversations 1800000 [ex_row]))"
    by (simp add: autoResumeDueConversations_def Let_def is_due_def ex_row_def)
  have k: "property_id ex_row = ''hotel_demo_1''" "conversation_id ex_row = ''42''"
    by (simp_all add: ex_row_def)
  from counters_reset_on_resume_and_resolve
         [of "''hotel_demo_1''" "''42''" ex_world 1800000 "[ex_row]"] d k
  have "resumed ''hotel_demo_1'' ''42'' (snd (autoResumeDueConversations 1800000 [ex_row]))"
    by fastforce
  with d g show ?thesis
    by (simp add: getState_resumeBot getState_resolveConversation)
qed

text \<open>C5 as stated fails: after the staff resume the row still has its two clarify
  attempts.\<close>

theorem resumeBot_keeps_clarify_attempts:
  "map_option clarify_attempts
     (getState ''hotel_demo_1'' ''42'' (tbl (resumeBot ''hotel_demo_1'' ''42'' ex_world))) = Some 2"
  by (simp add: getState_resumeBot)
     (simp add: getState_def ex_world_def ex_row_def is_key_def)


lemma tbl_handleSoftEscalation:
  "tbl (handleSoftEscalation cfg p c opts w) = enterSoftWatch p c (snd (markEscalatedOnce p c (tbl w)))"
  by (simp add: handleSoftEscalation_def Let_def emit_def on_tbl_def split: prod.splits option.splits)

lemma calls_handleSoftEscalation:
  "calls (handleSoftEscalation cfg p c opts w) =
     calls w @ [AddLabels c (labelsToAdd opts), UpdatePriority c (soft_priority opts), UpdateStatus c Open]
     @ (if \<not> fst (markEscalatedOnce p c (tbl w)) \<and> shouldNotify cfg opts
        then [PrivateMessage c Bot_escalated] else [])
     @ assign_calls cfg c opts w"
  by (simp add: handleSoftEscalation_def Let_def emit_def on_tbl_def assign_calls_def
      split: prod.splits option.splits)

lemma escalation_notes_append [simp]:
  "escalation_notes c (xs @ ys) = escalation_notes c xs + escalation_notes c ys"
  by (simp add: escalation_notes_def)

lemma escalation_notes_assign [simp]: "escalation_notes c (assign_calls cfg c opts w) = 0"
  by (simp add: escalation_notes_def assign_calls_def split: option.splits)

lemma markEscalatedOnce_first:
  assumes "list_all (\<lambda>r. \<not> (is_key p c r \<and> escalated r)) t"
  shows "fst (markEscalatedOnce p c t) = False"
proof (cases "list_ex (is_key p c) t")
  case True
  then obtain r where r: "r \<in> set t" "is_key p c r" by (auto simp: list_ex_iff)
  with assms have "\<not> escalated r" by (auto simp: list_all_iff)
  with r have "filter (\<lambda>r. is_key p c r \<and> escalated r = False) t \<noteq> []"
    by (auto simp: filter_empty_conv)
  with True show ?thesis
    by (simp add: markEscalatedOnce_def Let_def rowCount_def ensureState_def)
next
  case False
  then show ?thesis
    by (simp add: markEscalatedOnce_def Let_def rowCount_def ensureState_def fresh_row_def is_key_def)
qed

lemma ensureState_has_key: "list_ex (is_key p c) (ensureState p c t)"
  by (simp add: ensureState_def fresh_row_def is_key_def list_ex_iff)

lemma ensureState_idem: "list_ex (is_key p c) t \<Longrightarrow> ensureState p c t = t"
  by (simp add: ensureState_def)

lemma update_where_has_key:
  "list_ex (is_key p c) t \<Longrightarrow> (\<And>r. is_key p c (f r) = is_key p c r) \<Longrightarrow>
   list_ex (is_key p c) (update_where cond f t)"
  by (induction t) (auto simp: update_where_def)

lemma markEscalatedOnce_all_escalated:
  "list_all (\<lambda>r. is_key p c r \<longrightarrow> escalated r)
     (update_where (\<lambda>r. is_key p c r \<and> escalated r = False) (\<lambda>r. r\<lparr>escalated := True\<rparr>) t)"
  by (induction t) (simp_all add: update_where_def is_key_def)

lemma enterSoftWatch_all:
  "list_all (\<lambda>r. is_key p c r \<longrightarrow> escalated r) t \<Longrightarrow>
   list_all (\<lambda>r. is_key p c r \<longrightarrow> escalated r \<and> watch_mode r)
     (update_where (is_key p c) (\<lambda>r. r\<lparr>watch_mode := True\<rparr>) t)"
  by (induction t) (auto simp: update_where_def is_key_def)

lemma after_first_call:
  shows "list_ex (is_key p c) (enterSoftWatch p c (snd (markEscalatedOnce p c t)))"
    and "list_all (\<lambda>r. is_key p c r \<longrightarrow> escalated r \<and> watch_mode r)
           (enterSoftWatch p c (snd (markEscalatedOnce p c t)))"
proof -
  let ?m = "snd (markEscalatedOnce p c t)"
  have k: "list_ex (is_key p c) ?m"
    unfolding markEscalatedOnce_def Let_def snd_conv
    by (rule update_where_has_key [OF ensureState_has_key]) (simp add: is_key_def)
  have e: "list_all (\<lambda>r. is_key p c r \<longrightarrow> escalated r) ?m"
    unfolding markEscalatedOnce_def Let_def snd_conv by (rule markEscalatedOnce_all_escalated)
  show "list_ex (is_key p c) (enterSoftWatch p c ?m)"
    unfolding enterSoftWatch_def ensureState_idem [OF k]
    by (rule update_where_has_key [OF k]) (simp add: is_key_def)
  show "list_all (\<lambda>r. is_key p c r \<longrightarrow> escalated r \<and> watch_mode r) (enterSoftWatch p c ?m)"
    unfolding enterSoftWatch_def ensureState_idem [OF k]
    using e by (rule enterSoftWatch_all)
qed

lemma notes_one_call:
  "escalation_notes c (calls (handleSoftEscalation cfg p c opts w)) =
     escalation_notes c (calls w)
     + (if \<not> fst (markEscalatedOnce p c (tbl w)) \<and> shouldNotify cfg opts then 1 else 0)"
proof -
  have a: "escalation_notes c [AddLabels c (labelsToAdd opts), UpdatePriority c (soft_priority opts),
             UpdateStatus c Open] = 0"
    by (simp add: escalation_notes_def)
  have b: "escalation_notes c [PrivateMessage c Bot_escalated] = 1"
    by (simp add: escalation_notes_def)
  have z: "escalation_notes c [] = 0"
    by (simp add: escalation_notes_def)
  show ?thesis
    by (simp add: calls_handleSoftEscalation a b z del: append_Cons)
qed

lemma markEscalatedOnce_second:
  assumes "list_ex (is_key p c) t" "list_all (\<lambda>r. is_key p c r \<longrightarrow> escalated r) t"
  shows "fst (markEscalatedOnce p c t) = True" "snd (markEscalatedOnce p c t) = t"
proof -
  have f: "filter (\<lambda>r. is_key p c r \<and> escalated r = False) t = []"
    using assms(2) by (auto simp: list_all_iff filter_empty_conv)
  show "fst (markEscalatedOnce p c t) = True"
    using assms(1) f by (simp add: markEscalatedOnce_def Let_def rowCount_def ensureState_def)
  have "update_where (\<lambda>r. is_key p c r \<and> escalated r = False) (\<lambda>r. r\<lparr>escalated := True\<rparr>) t = t"
    using assms(2) by (auto simp: update_where_def list_all_iff intro: map_idI)
  then show "snd (markEscalatedOnce p c t) = t"
    using assms(1) by (simp add: markEscalatedOnce_def Let_def ensureState_def)
qed

lemma getState_all:
  "list_ex (is_key p c) t \<Longrightarrow> list_all (\<lambda>r. is_key p c r \<longrightarrow> P r) t \<Longrightarrow>
   \<exists>r. getState p c t = Some r \<and> P r"
  by (induction t) (auto simp: getState_def)

text \<open>
  The labels and the priority of a call, written out: the label \<^verbatim>\<open>needs_staff\<close>, then
  the label of the options when it is not empty and not \<^verbatim>\<open>needs_staff\<close> itself, then
  \<^verbatim>\<open>issue_report\<close> when the call reports an issue; the priority is urgent when the
  text holds an emergency word, high for an issue or from the second negative message,
  medium for a service request and low otherwise.
\<close>

lemma labelsToAdd_explicit:
  "labelsToAdd opts =
     ''needs_staff''
     # (case label opts of None \<Rightarrow> [] | Some l \<Rightarrow> if l \<noteq> [] \<and> l \<noteq> ''needs_staff'' then [l] else [])
     @ (if issue opts = Some True then [''issue_report''] else [])"
  by (simp add: labelsToAdd_def NEEDS_STAFF_LABEL_def ISSUE_LABEL_def split: option.splits)

lemma soft_priority_explicit:
  "soft_priority opts =
     (if list_ex (js_includes (toLowerCase (case opt_text opts of None \<Rightarrow> [] | Some t \<Rightarrow> t)))
           [''fire'', ''medical'', ''ambulance'', ''flood'', ''theft'', ''police'', ''help now'']
      then Urgent
      else if issue opts = Some True then High
      else if (case negativeCount opts of None \<Rightarrow> False | Some n \<Rightarrow> n \<ge> 2) then High
      else if opt_intent opts = Some SERVICE then Medium
      else Low)"
  by (simp add: soft_priority_def priorityFromSignal_def EMERGENCY_WORDS_def Let_def
      split: option.splits)

lemma flood_is_urgent:
  "js_includes (toLowerCase ''The room is flooded'') ''flood''"
  by code_simp

text \<open>
  C8 (amended). From a key with no escalated row (the start of an episode),
  \<^verbatim>\<open>markEscalatedOnce\<close> reports "not escalated before" in the first soft escalation
  and "escalated before" in the second. The first call adds one "Bot escalated" note
  when the note is enabled for it (its option \<^verbatim>\<open>notifyOnce\<close> when given, the setting
  \<^verbatim>\<open>SOFTWATCH_NOTIFY_ONCE\<close> otherwise) and none when it is not; the second call adds
  none, so the two calls add exactly one note when the note is enabled and none
  otherwise. Every call for a key that is already escalated, the second of the episode
  or a later one that finds the watch flag off, still adds the labels of its own
  options, sets the priority computed from its own options and the status open, adds
  no note, and leaves the row escalated and in watch mode.
\<close>

theorem soft_escalation_notifies_once:
  fixes cfg :: config and p c :: string and w u :: "'r world" and o1 o2 :: SoftEscalationOpts
  assumes fresh: "list_all (\<lambda>r. \<not> (is_key p c r \<and> escalated r)) (tbl w)"
    and again: "list_ex (is_key p c) (tbl u)" "list_all (\<lambda>r. is_key p c r \<longrightarrow> escalated r) (tbl u)"
  defines "w1 \<equiv> handleSoftEscalation cfg p c o1 w"
    and "w2 \<equiv> handleSoftEscalation cfg p c o2 (handleSoftEscalation cfg p c o1 w)"
    and "u2 \<equiv> handleSoftEscalation cfg p c o2 u"
    and "enabled \<equiv> (case notifyOnce o1 of Some b \<Rightarrow> b | None \<Rightarrow> SOFTWATCH_NOTIFY_ONCE cfg)"
    and "labels \<equiv>
           ''needs_staff''
           # (case label o2 of None \<Rightarrow> []
              | Some l \<Rightarrow> if l \<noteq> [] \<and> l \<noteq> ''needs_staff'' then [l] else [])
           @ (if issue o2 = Some True then [''issue_report''] else [])"
    and "prio \<equiv>
           (if list_ex (js_includes (toLowerCase (case opt_text o2 of None \<Rightarrow> [] | Some t \<Rightarrow> t)))
                 [''fire'', ''medical'', ''ambulance'', ''flood'', ''theft'', ''police'', ''help now'']
            then Urgent
            else if issue o2 = Some True then High
            else if (case negativeCount o2 of None \<Rightarrow> False | Some n \<Rightarrow> n \<ge> 2) then High
            else if opt_intent o2 = Some SERVICE then Medium
            else Low)"
  shows "fst (markEscalatedOnce p c (tbl w)) = False
       \<and> fst (markEscalatedOnce p c (tbl w1)) = True
       \<and> escalation_notes c (calls w1) = escalation_notes c (calls w) + (if enabled then 1 else 0)
       \<and> escalation_notes c (calls w2) = escalation_notes c (calls w) + (if enabled then 1 else 0)
       \<and> (\<exists>more. calls w2 = calls w1 @ [AddLabels c labels, UpdatePriority c prio, UpdateStatus c Open]
                                @ more
                 \<and> escalation_notes c more = 0)
       \<and> (\<exists>r. getState p c (tbl w2) = Some r \<and> escalated r \<and> watch_mode r)
       \<and> (\<exists>more. calls u2 = calls u @ [AddLabels c labels, UpdatePriority c prio, UpdateStatus c Open]
                                @ more
                 \<and> escalation_notes c more = 0)
       \<and> (\<exists>r. getState p c (tbl u2) = Some r \<and> escalated r \<and> watch_mode r)"
proof -
  have enabled: "shouldNotify cfg o1 = enabled"
    by (simp add: shouldNotify_def enabled_def)
  have labels: "labelsToAdd o2 = labels"
    by (simp add: labelsToAdd_explicit labels_def)
  have prio: "soft_priority o2 = prio"
    by (simp only: soft_priority_explicit prio_def)
  have w2: "w2 = handleSoftEscalation cfg p c o2 w1"
    by (simp add: w2_def w1_def)
  have m1: "fst (markEscalatedOnce p c (tbl w)) = False"
    using fresh by (rule markEscalatedOnce_first)
  have t1: "tbl w1 = enterSoftWatch p c (snd (markEscalatedOnce p c (tbl w)))"
    by (simp add: w1_def tbl_handleSoftEscalation)
  have k1: "list_ex (is_key p c) (tbl w1)"
    unfolding t1 by (rule after_first_call(1))
  have e1: "list_all (\<lambda>r. is_key p c r \<longrightarrow> escalated r) (tbl w1)"
    using after_first_call(2) [of p c "tbl w"] unfolding t1 by (simp add: list_all_iff)
  have m2: "fst (markEscalatedOnce p c (tbl w1)) = True"
    using k1 e1 by (rule markEscalatedOnce_second)
  have mu: "fst (markEscalatedOnce p c (tbl u)) = True"
    using again by (rule markEscalatedOnce_second)
  have c1: "escalation_notes c (calls w1) = escalation_notes c (calls w) + (if enabled then 1 else 0)"
    unfolding w1_def notes_one_call using m1 by (simp add: enabled)
  have n2: "escalation_notes c (calls w2) = escalation_notes c (calls w) + (if enabled then 1 else 0)"
    unfolding w2 notes_one_call using m2 c1 by simp
  have c2: "calls w2 = calls w1 @ [AddLabels c labels, UpdatePriority c prio, UpdateStatus c Open]
              @ assign_calls cfg c o2 w1"
    unfolding w2 calls_handleSoftEscalation using m2 by (simp add: labels prio)
  have cu: "calls u2 = calls u @ [AddLabels c labels, UpdatePriority c prio, UpdateStatus c Open]
              @ assign_calls cfg c o2 u"
    unfolding u2_def calls_handleSoftEscalation using mu by (simp add: labels prio)
  have x2: "\<exists>more. calls w2 = calls w1 @ [AddLabels c labels, UpdatePriority c prio, UpdateStatus c Open]
                                @ more
                 \<and> escalation_notes c more = 0"
    by (rule exI [of _ "assign_calls cfg c o2 w1"]) (simp only: c2 escalation_notes_assign simp_thms)
  have xu: "\<exists>more. calls u2 = calls u @ [AddLabels c labels, UpdatePriority c prio, UpdateStatus c Open]
                                @ more
                 \<and> escalation_notes c more = 0"
    by (rule exI [of _ "assign_calls cfg c o2 u"]) (simp only: cu escalation_notes_assign simp_thms)
  have g2: "\<exists>r. getState p c (tbl w2) = Some r \<and> escalated r \<and> watch_mode r"
    unfolding w2 tbl_handleSoftEscalation by (rule getState_all [OF after_first_call])
  have gu: "\<exists>r. getState p c (tbl u2) = Some r \<and> escalated r \<and> watch_mode r"
    unfolding u2_def tbl_handleSoftEscalation by (rule getState_all [OF after_first_call])
  from m1 m2 c1 n2 x2 g2 xu gu show ?thesis by (intro conjI)
qed

theorem soft_escalation_notifies_once_witness:
  "list_all (\<lambda>r. \<not> (is_key ''hotel_demo_1'' ''42'' r \<and> escalated r)) (tbl ex_world0)
   \<and> list_ex (is_key ''hotel_demo_1'' ''42'') (tbl cooled_world)
   \<and> list_all (\<lambda>r. is_key ''hotel_demo_1'' ''42'' r \<longrightarrow> escalated r) (tbl cooled_world)
   \<and> map_option watch_mode (getState ''hotel_demo_1'' ''42'' (tbl cooled_world)) = Some False
   \<and> escalation_notes ''42'' (calls (handleSoftEscalation ex_config ''hotel_demo_1'' ''42'' no_opts ex_world0))
       = 1
   \<and> escalation_notes ''42''
       (calls (handleSoftEscalation ex_config ''hotel_demo_1'' ''42'' flood_opts
                (handleSoftEscalation ex_config ''hotel_demo_1'' ''42'' no_opts ex_world0))) = 1
   \<and> (\<exists>more. calls (handleSoftEscalation ex_config ''hotel_demo_1'' ''42'' flood_opts cooled_world)
              = calls cooled_world
                @ [AddLabels ''42'' [''needs_staff'', ''issue_report''], UpdatePriority ''42'' Urgent,
                   UpdateStatus ''42'' Open] @ more
            \<and> escalation_notes ''42'' more = 0)
   \<and> (\<exists>r. getState ''hotel_demo_1'' ''42''
              (tbl (handleSoftEscalation ex_config ''hotel_demo_1'' ''42'' flood_opts cooled_world)) = Some r
           \<and> escalated r \<and> watch_mode r)"
proof -
  have fresh: "list_all (\<lambda>r. \<not> (is_key ''hotel_demo_1'' ''42'' r \<and> escalated r)) (tbl ex_world0)"
    by (simp add: ex_world0_def)
  have again: "list_ex (is_key ''hotel_demo_1'' ''42'') (tbl cooled_world)"
    "list_all (\<lambda>r. is_key ''hotel_demo_1'' ''42'' r \<longrightarrow> escalated r) (tbl cooled_world)"
    by (simp_all add: cooled_world_def ex_row_def is_key_def)
  have cooled: "map_option watch_mode (getState ''hotel_demo_1'' ''42'' (tbl cooled_world)) = Some False"
    by (simp add: cooled_world_def ex_row_def getState_def is_key_def)
  have none: "escalation_notes ''42'' (calls ex_world0) = 0"
    by (simp add: escalation_notes_def ex_world0_def)
  have opts: "notifyOnce no_opts = None" "SOFTWATCH_NOTIFY_ONCE ex_config"
    "label flood_opts = None" "issue flood_opts = Some True"
    "opt_text flood_opts = Some ''The room is flooded''"
    by (simp_all add: no_opts_def ex_config_def flood_opts_def)
  show ?thesis
    using soft_escalation_notifies_once
        [where cfg = ex_config and ?o1.0 = no_opts and ?o2.0 = flood_opts, OF fresh again]
      fresh again cooled
    by (simp add: none opts flood_is_urgent)
qed

text \<open>
  C8 as stated fails: with the setting \<^verbatim>\<open>SOFTWATCH_NOTIFY_ONCE\<close> off, or with the
  option \<^verbatim>\<open>notifyOnce\<close> false, two soft escalations from a fresh key flip the
  escalated flag once and add no staff note at all.
\<close>

theorem soft_escalation_without_notification:
  "fst (markEscalatedOnce ''hotel_demo_1'' ''42'' (tbl ex_world0)) = False
   \<and> fst (markEscalatedOnce ''hotel_demo_1'' ''42''
            (tbl (handleSoftEscalation quiet_config ''hotel_demo_1'' ''42'' no_opts ex_world0))) = True
   \<and> escalation_notes ''42''
        (calls (handleSoftEscalation quiet_config ''hotel_demo_1'' ''42'' no_opts
                 (handleSoftEscalation quiet_config ''hotel_demo_1'' ''42'' no_opts ex_world0))) = 0
   \<and> escalation_notes ''42''
        (calls (handleSoftEscalation ex_config ''hotel_demo_1'' ''42'' (no_opts\<lparr>notifyOnce := Some False\<rparr>)
                 (handleSoftEscalation ex_config ''hotel_demo_1'' ''42''
                    (no_opts\<lparr>notifyOnce := Some False\<rparr>) ex_world0))) = 0"
proof -
  have quiet: "\<not> shouldNotify quiet_config no_opts"
    "\<not> shouldNotify ex_config (no_opts\<lparr>notifyOnce := Some False\<rparr>)"
    by (simp_all add: shouldNotify_def quiet_config_def ex_config_def no_opts_def)
  have none: "escalation_notes ''42'' (calls ex_world0) = 0"
    by (simp add: escalation_notes_def ex_world0_def)
  have first: "fst (markEscalatedOnce ''hotel_demo_1'' ''42'' (tbl ex_world0)) = False"
    by (rule markEscalatedOnce_first) (simp add: ex_world0_def)
  have second: "fst (markEscalatedOnce ''hotel_demo_1'' ''42''
            (tbl (handleSoftEscalation quiet_config ''hotel_demo_1'' ''42'' no_opts ex_world0))) = True"
    unfolding tbl_handleSoftEscalation
    by (rule markEscalatedOnce_second(1) [OF after_first_call(1)])
      (use after_first_call(2) [of "''hotel_demo_1''" "''42''" "tbl ex_world0"] in
        \<open>simp add: list_all_iff\<close>)
  show ?thesis
    by (simp add: first second notes_one_call quiet none)
qed

section \<open>Properties of the decision engine\<close>

lemma code_unit_char_of: "n < 256 \<Longrightarrow> code_unit (char_of n) = n"
  by (simp add: code_unit_def)

lemma code_unit_less: "code_unit c < 256"
  unfolding code_unit_def by (cases c) (simp add: of_char_def)

lemma lower_char_idem: "lower_char (lower_char c) = lower_char c"
proof -
  have "code_unit c < 256" by (rule code_unit_less)
  then show ?thesis
    by (auto simp: lower_char_def Let_def code_unit_char_of)
qed

lemma is_ws_lower_char: "is_ws (lower_char c) = is_ws c"
proof -
  have "code_unit c < 256" by (rule code_unit_less)
  then show ?thesis
    by (auto simp: lower_char_def is_ws_def Let_def code_unit_char_of)
qed

lemma toLowerCase_idem: "toLowerCase (toLowerCase s) = toLowerCase s"
  by (simp add: toLowerCase_def lower_char_idem)

lemma dropWhile_ws_lower: "dropWhile is_ws (map lower_char s) = map lower_char (dropWhile is_ws s)"
  by (simp add: dropWhile_map comp_def is_ws_lower_char)

lemma trim_toLowerCase: "trim (toLowerCase s) = toLowerCase (trim s)"
  by (simp add: trim_def toLowerCase_def dropWhile_ws_lower rev_map)

lemma dropWhile_fix: "(s = [] \<or> \<not> P (hd s)) \<Longrightarrow> dropWhile P s = s"
  by (cases s) auto

lemma hd_dropWhile_not: "dropWhile P s = [] \<or> \<not> P (hd (dropWhile P s))"
  using hd_dropWhile by blast

lemma trim_hd: "trim s = [] \<or> \<not> is_ws (hd (trim s))"
proof (cases "trim s = []")
  case True
  then show ?thesis by simp
next
  case False
  let ?a = "dropWhile is_ws s"
  let ?b = "dropWhile is_ws (rev ?a)"
  have t: "trim s = rev ?b" by (simp add: trim_def)
  from False t have bne: "?b \<noteq> []" by simp
  have ane: "?a \<noteq> []"
  proof
    assume "?a = []"
    then have "rev ?a = []" by (simp only: rev.simps)
    then have "?b = []" by (simp only: dropWhile.simps)
    with bne show False by (simp only: not_True_eq_False simp_thms)
  qed
  have "rev ?a = takeWhile is_ws (rev ?a) @ ?b" by simp
  then have "?a = rev ?b @ rev (takeWhile is_ws (rev ?a))"
    by (metis rev_append rev_rev_ident)
  with bne have "hd ?a = hd (rev ?b)" by (metis hd_append2 rev_is_Nil_conv)
  moreover from ane have "\<not> is_ws (hd ?a)" by (rule hd_dropWhile)
  ultimately show ?thesis by (simp add: t)
qed

lemma trim_last: "trim s = [] \<or> \<not> is_ws (last (trim s))"
proof (cases "trim s = []")
  case True
  then show ?thesis by simp
next
  case False
  let ?b = "dropWhile is_ws (rev (dropWhile is_ws s))"
  have t: "trim s = rev ?b" by (simp add: trim_def)
  from False t have bne: "?b \<noteq> []" by simp
  then have "\<not> is_ws (hd ?b)" by (rule hd_dropWhile)
  with bne show ?thesis by (simp add: t last_rev)
qed

lemma trim_idem: "trim (trim s) = trim s"
proof -
  have a1: "dropWhile is_ws (trim s) = trim s"
    using trim_hd [of s] by (auto intro: dropWhile_fix)
  have a2: "dropWhile is_ws (rev (trim s)) = rev (trim s)"
    using trim_last [of s] by (intro dropWhile_fix) (auto simp: hd_rev)
  have "trim (trim s) = rev (dropWhile is_ws (rev (dropWhile is_ws (trim s))))"
    by (simp add: trim_def)
  also have "\<dots> = trim s" by (simp add: a1 a2)
  finally show ?thesis .
qed

lemma normalize_str_idem: "normalize_str (normalize_str t) = normalize_str t"
  by (simp add: normalize_str_def trim_toLowerCase toLowerCase_idem trim_idem)

lemma normalize_str_trim: "normalize_str (trim t) = normalize_str t"
  by (simp add: normalize_str_def trim_toLowerCase trim_idem)

lemma detect_keyword:
  "(detectService (normalize_str t) \<or> detectNegative (normalize_str t)) = keyword_match (normalize_str t)"
  by (auto simp: detectService_def detectNegative_def keyword_match_def normalize_str_idem list_ex_iff Let_def)

lemma isQuestion_shaped: "isQuestion (normalize_str t) = question_shaped (normalize_str t)"
  by (auto simp: isQuestion_def question_shaped_def normalize_str_idem list_ex_iff Let_def)

lemma isSmalltalk_match: "isSmalltalk (trim t) = smalltalk_match (normalize_str t)"
  by (simp add: isSmalltalk_def smalltalk_match_def normalize_str_trim Let_def)

text \<open>
  C9. For every input text, \<^verbatim>\<open>decide\<close> classifies the normalized text in the priority
  order of the specification: a negative or service keyword gives SERVICE with
  confidence 0.9; else, with chit-chat enabled, a greeting or thanks gives CHITCHAT
  with 0.99; else a question-shaped text gives FAQ with 0.85; else UNKNOWN with 0.5.
  The flag \<open>negative\<close> is the negative-keyword match alone.
\<close>

theorem decide_follows_spec:
  "(intent (decide chitchat msg), confidence (decide chitchat msg))
     = spec_decide chitchat (normalize_str msg)
   \<and> negative (decide chitchat msg) = (\<exists>k \<in> set negatives. js_includes (normalize_str msg) k)"
proof -
  have n: "detectNegative (normalize_str msg) = (\<exists>k \<in> set negatives. js_includes (normalize_str msg) k)"
    by (simp add: detectNegative_def normalize_str_idem list_ex_iff Let_def)
  show ?thesis
    using detect_keyword [of msg] isQuestion_shaped [of msg] isSmalltalk_match [of msg] n
    by (auto simp: decide_def spec_decide_def Let_def normalize_str_trim)
qed


lemma decide_examples:
  "keyword_match (normalize_str ''the AC is broken and I am furious'')"
  "\<not> keyword_match (normalize_str ''Hello!'')"
  "smalltalk_match (normalize_str ''Hello!'')"
  "\<not> keyword_match (normalize_str ''what is the wifi password'')"
  "\<not> smalltalk_match (normalize_str ''what is the wifi password'')"
  "question_shaped (normalize_str ''what is the wifi password'')"
  "\<not> keyword_match (normalize_str ''hmm'')"
  "\<not> smalltalk_match (normalize_str ''hmm'')"
  "\<not> question_shaped (normalize_str ''hmm'')"
  "\<not> question_shaped (normalize_str ''Hello!'')"
  by code_simp+

theorem decide_follows_spec_witness:
  "(intent (decide True ''the AC is broken and I am furious''),
    confidence (decide True ''the AC is broken and I am furious'')) = (SERVICE, 0.9)
   \<and> (intent (decide True ''Hello!''), confidence (decide True ''Hello!'')) = (CHITCHAT, 0.99)
   \<and> (intent (decide False ''Hello!''), confidence (decide False ''Hello!'')) = (UNKNOWN, 0.5)
   \<and> (intent (decide True ''what is the wifi password''),
       confidence (decide True ''what is the wifi password'')) = (FAQ, 0.85)
   \<and> (intent (decide True ''hmm''), confidence (decide True ''hmm'')) = (UNKNOWN, 0.5)"
  using decide_follows_spec [of True "''the AC is broken and I am furious''"]
    decide_follows_spec [of True "''Hello!''"] decide_follows_spec [of False "''Hello!''"]
    decide_follows_spec [of True "''what is the wifi password''"]
    decide_follows_spec [of True "''hmm''"] decide_examples
  by (simp add: spec_decide_def)


section \<open>Scenarios of the service handler\<close>

lemma guest_env_simps:
  "env_lang guest_env = En"
  "env_clock guest_env = \<lparr> today_day = 20760, ahead_of_utc = (\<lambda>d. False) \<rparr>"
  "catalogue guest_env = Db_no_key"
  "messenger_buttons guest_env = False"
  "llm guest_env = None"
  by (simp_all add: guest_env_def)

text \<open>The handler on a table that holds the row of the conversation first: it runs
  on the flow of that row and stores the last flow it writes.\<close>

lemma handleService_on_row:
  assumes "tbl w = [r]" and "conversation_id r = c"
    and "service_run env c text (service_flow r) = run"
  shows "fst (handleService env c text w) = result run"
    and "tbl (snd (handleService env c text w)) =
           [fold (\<lambda>f r. r\<lparr>service_flow := f\<rparr>) (writes run) r]"
proof -
  have flow: "getServiceFlow c [r] = service_flow r"
    using assms(2) by (simp add: getServiceFlow_def)
  show "fst (handleService env c text w) = result run"
    using assms(3) by (simp add: handleService_def Let_def assms(1) flow)
  have step: "conversation_id r' = c \<Longrightarrow>
      fold (setServiceFlow c) ws [r'] = [fold (\<lambda>f r. r\<lparr>service_flow := f\<rparr>) ws r']" for ws r'
    by (induction ws arbitrary: r') (simp_all add: setServiceFlow_def update_where_def)
  show "tbl (snd (handleService env c text w)) =
          [fold (\<lambda>f r. r\<lparr>service_flow := f\<rparr>) (writes run) r]"
    using assms(2,3) by (simp add: handleService_def Let_def assms(1) flow step)
qed

lemma friday_trim: "trim friday_message = friday_message"
  by code_simp

lemma friday_service: "matchService friday_message = Some ''BOOK_TABLE''"
  by code_simp

lemma friday_guests: "parseGuests friday_message = Some 2"
  by code_simp

lemma friday_time: "parseTime friday_message = Some ''8pm''"
  by code_simp

lemma friday_needs: "timeNeedsAmPm friday_message ''8pm'' = False"
  by code_simp

lemma friday_pretty: "prettyTime ''8pm'' = ''8:00 pm''"
  by code_simp

lemma friday_iso:
  "normalizeDateToISO \<lparr> today_day = 20760, ahead_of_utc = (\<lambda>d. False) \<rparr> friday_message 20760 = Returns None"
  by code_simp

lemma friday_date: "parseDate \<lparr> today_day = 20760, ahead_of_utc = (\<lambda>d. False) \<rparr> friday_message = None"
  by code_simp

lemma friday_first: "parseDate \<lparr> today_day = 20760, ahead_of_utc = (\<lambda>d. False) \<rparr> ''friday 8pm'' = Some ''06 November''"
  by code_simp

lemma friday_name: "parseName friday_message = Some ''koen''"
  by code_simp

lemma friday_prefill:
  "prefillFromMessage guest_env friday_message =
     Returns \<lparr> pre_guests = Some 2, pre_time = Some ''8:00 pm'', pre_date = None,
               pre_name = Some ''koen'', pre_pending_time_raw = None \<rparr>"
  by (simp add: prefillFromMessage_def message_date_def guest_env_simps today_def Let_def
      friday_guests friday_time friday_needs friday_pretty friday_iso friday_date friday_name)

lemma announce_book_table:
  "announce_service ''42'' ''BOOK_TABLE'' =
     [AddLabels ''42'' [''service_request'', ''svc_book_table''], UpdatePriority ''42'' Medium,
      PrivateMessage ''42'' (Service_request ''book table'')]"
  by code_simp

lemma friday_run:
  "service_run guest_env ''42'' friday_message None =
     \<lparr> writes = [Some friday_flow],
       effects = [AddLabels ''42'' [''service_request'', ''svc_book_table''], UpdatePriority ''42'' Medium,
                  PrivateMessage ''42'' (Service_request ''book table''), TypingOn ''42'', TypingOff ''42''],
       result = answered ''BOOK_TABLE'' ''start_flow_regex_prefill'' (Kickoff Ask_date) \<rparr>"
proof -
  have nonempty: "friday_message \<noteq> []"
    by (simp add: friday_message_def)
  have db: "db_lookup guest_env ''42'' friday_message = ([], [], None)"
    by (simp add: db_lookup_def guest_env_simps)
  have start: "start_flow guest_env ''42'' friday_message ''BOOK_TABLE''
      (Fields [''guests'', ''time'', ''date'', ''name'']) ''start_flow_regex_prefill'' =
     \<lparr> writes = [Some friday_flow], effects = [TypingOn ''42'', TypingOff ''42''],
       result = answered ''BOOK_TABLE'' ''start_flow_regex_prefill'' (Kickoff Ask_date) \<rparr>"
    by (simp add: start_flow_def friday_prefill nonempty_def missing_fields_def not_collected_def
        first_or_null_def buildPrompt_def deliver_def maybeSendMessengerQR_def guest_env_simps
        no_result_def Let_def inherited_names_def friday_flow_def answered_def)
  show ?thesis
    by (simp add: service_run_def friday_trim nonempty new_request_def db regex_fallback_def
        friday_service REQUIRED_FIELDS_def start announce_book_table Let_def)
qed

text \<open>
  C6. On the message "book a table for friday 8pm for 2 people under koen" the
  handler opens the BOOK\_TABLE flow with guests 2, time "8:00 pm" and name
  "koen", finds no date, and asks for it: the flow stands at the field date, not
  at the confirmation. The date parser looks for a weekday in the first word of
  three letters or more only, which is "book"; the same words with the weekday
  first give Friday 6 November.
\<close>

theorem friday_booking_asks_for_the_date:
  "fst (handleService guest_env ''42'' friday_message guest_world)
     = answered ''BOOK_TABLE'' ''start_flow_regex_prefill'' (Kickoff Ask_date)
   \<and> getServiceFlow ''42'' (tbl (hears friday_message guest_world)) = Some friday_flow
   \<and> collected friday_flow
       = Some [(''guests'', Num 2), (''time'', Str ''8:00 pm''), (''name'', Str ''koen'')]
   \<and> next_field friday_flow = Some ''date''
   \<and> parseDate (env_clock guest_env) friday_message = None
   \<and> normalizeDateToISO (env_clock guest_env) friday_message (today (env_clock guest_env)) = Returns None
   \<and> parseDate (env_clock guest_env) ''friday 8pm'' = Some ''06 November''"
proof -
  have world: "tbl guest_world = [fresh_row ''hotel_demo_1'' ''42'']"
    by (simp add: guest_world_def)
  have row: "conversation_id (fresh_row ''hotel_demo_1'' ''42'') = ''42''"
    "service_flow (fresh_row ''hotel_demo_1'' ''42'') = None"
    by (simp_all add: fresh_row_def)
  have run: "service_run guest_env ''42'' friday_message (service_flow (fresh_row ''hotel_demo_1'' ''42''))
      = \<lparr> writes = [Some friday_flow],
       effects = [AddLabels ''42'' [''service_request'', ''svc_book_table''], UpdatePriority ''42'' Medium,
                  PrivateMessage ''42'' (Service_request ''book table''), TypingOn ''42'', TypingOff ''42''],
       result = answered ''BOOK_TABLE'' ''start_flow_regex_prefill'' (Kickoff Ask_date) \<rparr>"
    by (simp add: row friday_run)
  have "fst (handleService guest_env ''42'' friday_message guest_world)
     = answered ''BOOK_TABLE'' ''start_flow_regex_prefill'' (Kickoff Ask_date)"
    using handleService_on_row(1) [OF world row(1) run] by simp
  moreover have "getServiceFlow ''42'' (tbl (hears friday_message guest_world)) = Some friday_flow"
    using handleService_on_row(2) [OF world row(1) run]
    by (simp add: hears_def getServiceFlow_def row)
  moreover have "collected friday_flow
       = Some [(''guests'', Num 2), (''time'', Str ''8:00 pm''), (''name'', Str ''koen'')]"
    "next_field friday_flow = Some ''date''"
    by (simp_all add: friday_flow_def)
  ultimately show ?thesis
    by (simp add: guest_env_simps today_def friday_date friday_iso friday_first)
qed


lemma checkout_trim: "trim checkout_message = checkout_message"
  by code_simp

lemma checkout_service: "matchService checkout_message = Some ''LATE_CHECKOUT''"
  by code_simp

lemma checkout_guests: "parseGuests checkout_message = None"
  by code_simp

lemma checkout_time: "parseTime checkout_message = None"
  by code_simp

lemma checkout_iso:
  "normalizeDateToISO \<lparr> today_day = 20760, ahead_of_utc = (\<lambda>d. False) \<rparr> checkout_message 20760 = Returns None"
  by code_simp

lemma checkout_date: "parseDate \<lparr> today_day = 20760, ahead_of_utc = (\<lambda>d. False) \<rparr> checkout_message = None"
  by code_simp

lemma checkout_name: "parseName checkout_message = Some ''koen''"
  by code_simp

lemma announce_late_checkout:
  "announce_service ''42'' ''LATE_CHECKOUT'' =
     [AddLabels ''42'' [''service_request'', ''svc_late_checkout''], UpdatePriority ''42'' Medium,
      PrivateMessage ''42'' (Service_request ''late checkout'')]"
  by code_simp

lemma checkout_prefill:
  "prefillFromMessage guest_env checkout_message =
     Returns \<lparr> pre_guests = None, pre_time = None, pre_date = None,
               pre_name = Some ''koen'', pre_pending_time_raw = None \<rparr>"
  by (simp add: prefillFromMessage_def message_date_def guest_env_simps today_def Let_def
      checkout_guests checkout_time checkout_iso checkout_date checkout_name)

lemma checkout_run:
  "writes (service_run guest_env ''42'' checkout_message None) = [Some checkout_flow]"
  "result (service_run guest_env ''42'' checkout_message None)
     = answered ''LATE_CHECKOUT'' ''start_flow_regex_prefill'' (Kickoff Ask_time)"
proof -
  have nonempty: "checkout_message \<noteq> []"
    by (simp add: checkout_message_def)
  have db: "db_lookup guest_env ''42'' checkout_message = ([], [], None)"
    by (simp add: db_lookup_def guest_env_simps)
  have start: "start_flow guest_env ''42'' checkout_message ''LATE_CHECKOUT''
      (Fields [''time'', ''name'']) ''start_flow_regex_prefill'' =
     \<lparr> writes = [Some checkout_flow], effects = [TypingOn ''42'', TypingOff ''42''],
       result = answered ''LATE_CHECKOUT'' ''start_flow_regex_prefill'' (Kickoff Ask_time) \<rparr>"
    by (simp add: start_flow_def checkout_prefill nonempty_def missing_fields_def not_collected_def
        first_or_null_def buildPrompt_def deliver_def maybeSendMessengerQR_def guest_env_simps
        no_result_def Let_def inherited_names_def checkout_flow_def answered_def)
  show "writes (service_run guest_env ''42'' checkout_message None) = [Some checkout_flow]"
    by (simp add: service_run_def checkout_trim nonempty new_request_def db regex_fallback_def
        checkout_service REQUIRED_FIELDS_def start Let_def)
  show "result (service_run guest_env ''42'' checkout_message None)
     = answered ''LATE_CHECKOUT'' ''start_flow_regex_prefill'' (Kickoff Ask_time)"
    by (simp add: service_run_def checkout_trim nonempty new_request_def db regex_fallback_def
        checkout_service REQUIRED_FIELDS_def start Let_def)
qed

lemma seven_trim: "trim ''7'' = ''7''" "trim ''8'' = ''8''"
  by code_simp+

lemma seven_time: "parseTime ''7'' = Some ''7''"
  by code_simp

lemma seven_normal: "normalizeTime ''7'' = None"
  by code_simp

lemma seven_needs: "timeNeedsAmPm ''7'' ''7'' = True"
  by code_simp

lemma checkout_flow_simps:
  "pending checkout_flow = None"
  "service_key checkout_flow = Some ''LATE_CHECKOUT''"
  "required checkout_flow = Some [''time'', ''name'']"
  "collected checkout_flow = Some [(''name'', Str ''koen'')]"
  "next_field checkout_flow = Some ''time''"
  "pending_time_raw checkout_flow = None"
  by (simp_all add: checkout_flow_def)

lemma seven_run:
  "service_run guest_env ''42'' ''7'' (Some checkout_flow) =
     \<lparr> writes = [Some checkout_flow_7], effects = [],
       result = answered ''LATE_CHECKOUT'' ''time_clarify'' (Clarify_time_period ''7'') \<rparr>"
proof -
  have same: "checkout_flow\<lparr>collected := Some [(''name'', Str ''koen'')], required := Some [''time'', ''name''],
      pending_time_raw := Some ''7''\<rparr> = checkout_flow_7"
    by (simp add: checkout_flow_7_def checkout_flow_def)
  have fill: "fill_field guest_env ''42'' ''7'' ''LATE_CHECKOUT'' checkout_flow [''time'', ''name'']
       [(''name'', Str ''koen'')] ''time'' =
     \<lparr> writes = [Some checkout_flow_7], effects = [],
       result = answered ''LATE_CHECKOUT'' ''time_clarify'' (Clarify_time_period ''7'') \<rparr>"
    by (simp add: fill_field_def parseForField_def seven_time seven_normal seven_needs nonempty_def
        deliver_def maybeSendMessengerQR_def guest_env_simps no_result_def Let_def
        same answered_def)
  show ?thesis
    by (simp add: service_run_def seven_trim active_flow_def required_of_def nonempty_def
        checkout_flow_simps fill Let_def)
qed

lemma eight_combined: "clarifier_combined En ''7'' ''8'' = Some ''8''"
  by code_simp

lemma eight_pretty: "prettyTime ''8'' = ''8:00''"
  by code_simp

lemma eight_summary:
  "buildDetailsSummary [(''name'', Str ''koen''), (''time'', Str ''8:00'')]
     = ''Name: Koen'' @ backslash_n @ ''Time: 8:00 AM''"
  by code_simp


lemma checkout_flow_7_simps:
  "pending checkout_flow_7 = None"
  "service_key checkout_flow_7 = Some ''LATE_CHECKOUT''"
  "required checkout_flow_7 = Some [''time'', ''name'']"
  "collected checkout_flow_7 = Some [(''name'', Str ''koen'')]"
  "next_field checkout_flow_7 = Some ''time''"
  "pending_time_raw checkout_flow_7 = Some ''7''"
  by (simp_all add: checkout_flow_7_def checkout_flow_def)

lemma eight_run:
  "service_run guest_env ''42'' ''8'' (Some checkout_flow_7) =
     \<lparr> writes = [Some (checkout_flow_8\<lparr>next_field := None, pending_time_raw := None\<rparr>),
                 Some checkout_flow_8],
       effects = [],
       result = answered ''LATE_CHECKOUT'' ''time_clarified_confirm''
                  (Please_confirm (''Name: Koen'' @ backslash_n @ ''Time: 8:00 AM'')) \<rparr>"
proof -
  have saved: "checkout_flow_7\<lparr>collected := Some [(''name'', Str ''koen''), (''time'', Str ''8:00'')],
      required := Some [''time'', ''name''], next_field := None, pending_time_raw := None\<rparr>
      = checkout_flow_8\<lparr>next_field := None, pending_time_raw := None\<rparr>"
    and confirm: "checkout_flow_7\<lparr>collected := Some [(''name'', Str ''koen''), (''time'', Str ''8:00'')],
      required := Some [''time'', ''name''], next_field := Some ''confirm''\<rparr> = checkout_flow_8"
    by (simp_all add: checkout_flow_8_def checkout_flow_7_def checkout_flow_def)
  have clarified: "time_clarified guest_env ''42'' ''LATE_CHECKOUT'' checkout_flow_7 [''time'', ''name'']
       [(''name'', Str ''koen'')] ''8'' =
     \<lparr> writes = [Some (checkout_flow_8\<lparr>next_field := None, pending_time_raw := None\<rparr>),
                 Some checkout_flow_8],
       effects = [],
       result = answered ''LATE_CHECKOUT'' ''time_clarified_confirm''
                  (Please_confirm (''Name: Koen'' @ backslash_n @ ''Time: 8:00 AM'')) \<rparr>"
    by (simp add: time_clarified_def eight_pretty missing_fields_def not_collected_def
        first_or_null_def ask_confirm_def eight_summary deliver_def maybeSendMessengerQR_def
        guest_env_simps no_result_def Let_def saved confirm answered_def)
  show ?thesis
    by (simp add: service_run_def seven_trim active_flow_def required_of_def nonempty_def
        checkout_flow_7_simps guest_env_simps eight_combined clarified Let_def)
qed

lemma seven_others:
  "parseGuests ''7'' = Some 7"
  "normalizeDateToISO \<lparr> today_day = 20760, ahead_of_utc = (\<lambda>d. False) \<rparr> ''7'' 20760 = Returns None"
  "parseDate \<lparr> today_day = 20760, ahead_of_utc = (\<lambda>d. False) \<rparr> ''7'' = None"
  "parseName ''7'' = None"
  "prettyTime ''7'' = ''7:00''"
  by code_simp+

lemma legacy_confirm_message:
  "buildConfirmMessage \<lparr> bd_name = Some ''koen'', bd_guests = Some 7, bd_date = Some ''06 November'',
      bd_time = Some ''7:00'' \<rparr> = Legacy_confirm ''Koen'' ''7'' ''06 November'' ''7:00 AM''"
  by code_simp

lemma legacy_run:
  "result (service_run guest_env ''42'' ''7'' (Some legacy_booking)) =
     Returns (no_result\<lparr> handled := True,
                reply_text := Some (Legacy_confirm ''Koen'' ''7'' ''06 November'' ''7:00 AM''),
                meta_step := Some ''confirm_after_edit'' \<rparr>)"
proof -
  have edited: "tryFieldUpdate (env_clock guest_env) ''7''
      \<lparr> bd_name = Some ''koen'', bd_guests = Some 2, bd_date = Some ''06 November'',
        bd_time = Some ''8:00 pm'' \<rparr> =
      Returns (Some \<lparr> bd_name = Some ''koen'', bd_guests = Some 7, bd_date = Some ''06 November'',
        bd_time = Some ''7:00'' \<rparr>)"
    by (simp add: tryFieldUpdate_def message_date_def guest_env_simps today_def Let_def
        seven_time seven_others)
  show ?thesis
    by (simp add: service_run_def seven_trim legacy_booking_def legacy_flow_def edited
        legacy_confirm_message)
qed

text \<open>
  C1. A late checkout: the guest answers the question for the time with the bare
  hour 7, and the handler stores it as the pending hour and asks "in the morning
  or in the evening?". The guest answers with another bare hour, 8. The
  clarifier takes any answer the time parser reads as a time retyped in full: it
  stores "8:00", does not ask again, and goes to the confirmation, whose summary
  shows "Time: 8:00 AM". The older flow does the same on an edit: the bare
  hour 7 becomes the time "7:00 AM" of the confirmation message.
\<close>

theorem retyped_bare_hour_is_not_clarified:
  "getServiceFlow ''42'' (tbl (hears ''7'' (hears checkout_message guest_world))) = Some checkout_flow_7
   \<and> pending_time_raw checkout_flow_7 = Some ''7''
   \<and> fst (handleService guest_env ''42'' ''8'' (hears ''7'' (hears checkout_message guest_world)))
       = answered ''LATE_CHECKOUT'' ''time_clarified_confirm''
           (Please_confirm (''Name: Koen'' @ backslash_n @ ''Time: 8:00 AM''))
   \<and> getServiceFlow ''42'' (tbl (hears ''8'' (hears ''7'' (hears checkout_message guest_world))))
       = Some checkout_flow_8
   \<and> collected checkout_flow_8 = Some [(''name'', Str ''koen''), (''time'', Str ''8:00'')]
   \<and> next_field checkout_flow_8 = Some ''confirm''
   \<and> pending_time_raw checkout_flow_8 = Some ''7''
   \<and> result (service_run guest_env ''42'' ''7'' (Some legacy_booking))
       = Returns (no_result\<lparr> handled := True,
                    reply_text := Some (Legacy_confirm ''Koen'' ''7'' ''06 November'' ''7:00 AM''),
                    meta_step := Some ''confirm_after_edit'' \<rparr>)"
proof -
  let ?row = "fresh_row ''hotel_demo_1'' ''42''"
  have key: "conversation_id ?row = ''42''" and none: "service_flow ?row = None"
    by (simp_all add: fresh_row_def)
  have w0: "tbl guest_world = [?row]"
    by (simp add: guest_world_def)
  have w1: "tbl (hears checkout_message guest_world) = [?row\<lparr>service_flow := Some checkout_flow\<rparr>]"
    using handleService_on_row(2) [OF w0 key refl, of guest_env checkout_message]
    by (simp add: hears_def none checkout_run)
  have w2: "tbl (hears ''7'' (hears checkout_message guest_world))
      = [?row\<lparr>service_flow := Some checkout_flow_7\<rparr>]"
    using handleService_on_row(2) [OF w1 _ refl, of "''42''" guest_env "''7''"]
    by (simp add: hears_def key seven_run)
  have r3: "fst (handleService guest_env ''42'' ''8'' (hears ''7'' (hears checkout_message guest_world)))
       = answered ''LATE_CHECKOUT'' ''time_clarified_confirm''
           (Please_confirm (''Name: Koen'' @ backslash_n @ ''Time: 8:00 AM''))"
    using handleService_on_row(1) [OF w2 _ refl, of "''42''" guest_env "''8''"]
    by (simp add: key eight_run)
  have w3: "tbl (hears ''8'' (hears ''7'' (hears checkout_message guest_world)))
      = [?row\<lparr>service_flow := Some checkout_flow_8\<rparr>]"
    using handleService_on_row(2) [OF w2 _ refl, of "''42''" guest_env "''8''"]
    by (simp add: hears_def key eight_run)
  have flows: "getServiceFlow ''42'' [?row\<lparr>service_flow := f\<rparr>] = f" for f
    by (simp add: getServiceFlow_def key)
  have fields: "pending_time_raw checkout_flow_7 = Some ''7''"
    "collected checkout_flow_8 = Some [(''name'', Str ''koen''), (''time'', Str ''8:00'')]"
    "next_field checkout_flow_8 = Some ''confirm''"
    "pending_time_raw checkout_flow_8 = Some ''7''"
    by (simp_all add: checkout_flow_8_def checkout_flow_7_def checkout_flow_def)
  show ?thesis
    by (simp add: w2 w3 r3 flows fields legacy_run)
qed


section \<open>The keys of the collected slots\<close>

lemma party_trim: "trim party_message = party_message"
  by code_simp

lemma party_service: "matchService party_message = Some ''LATE_CHECKOUT''"
  by code_simp

lemma party_guests: "parseGuests party_message = Some 2"
  by code_simp

lemma party_time: "parseTime party_message = None"
  by code_simp

lemma party_iso:
  "normalizeDateToISO \<lparr> today_day = 20760, ahead_of_utc = (\<lambda>d. False) \<rparr> party_message 20760 = Returns None"
  by code_simp

lemma party_date: "parseDate \<lparr> today_day = 20760, ahead_of_utc = (\<lambda>d. False) \<rparr> party_message = None"
  by code_simp

lemma party_name: "parseName party_message = None"
  by code_simp

lemma party_prefill:
  "prefillFromMessage guest_env party_message =
     Returns \<lparr> pre_guests = Some 2, pre_time = None, pre_date = None,
               pre_name = None, pre_pending_time_raw = None \<rparr>"
  by (simp add: prefillFromMessage_def message_date_def guest_env_simps today_def Let_def
      party_guests party_time party_iso party_date party_name)

lemma party_run:
  "writes (service_run guest_env ''42'' party_message None) = [Some party_flow]"
proof -
  have nonempty: "party_message \<noteq> []"
    by (simp add: party_message_def)
  have db: "db_lookup guest_env ''42'' party_message = ([], [], None)"
    by (simp add: db_lookup_def guest_env_simps)
  have start: "writes (start_flow guest_env ''42'' party_message ''LATE_CHECKOUT''
      (Fields [''time'', ''name'']) ''start_flow_regex_prefill'') = [Some party_flow]"
    by (simp add: start_flow_def party_prefill nonempty_def missing_fields_def not_collected_def
        first_or_null_def buildPrompt_def deliver_def maybeSendMessengerQR_def guest_env_simps
        no_result_def Let_def inherited_names_def party_flow_def)
  show ?thesis
    by (simp add: service_run_def party_trim nonempty new_request_def db regex_fallback_def
        party_service REQUIRED_FIELDS_def start Let_def)
qed

lemma party_table:
  "tbl (hears party_message guest_world)
     = [fresh_row ''hotel_demo_1'' ''42''\<lparr>service_flow := Some party_flow\<rparr>]"
proof -
  have key: "conversation_id (fresh_row ''hotel_demo_1'' ''42'') = ''42''"
    and none: "service_flow (fresh_row ''hotel_demo_1'' ''42'') = None"
    by (simp_all add: fresh_row_def)
  have w0: "tbl guest_world = [fresh_row ''hotel_demo_1'' ''42'']"
    by (simp add: guest_world_def)
  show ?thesis
    using handleService_on_row(2) [OF w0 key refl, of guest_env party_message]
    by (simp add: hears_def none party_run)
qed

lemma party_stored:
  "getServiceFlow ''42'' (tbl (hears party_message guest_world)) = Some party_flow"
  by (simp add: party_table getServiceFlow_def fresh_row_def)

text \<open>
  The opening message "late checkout for 2 people" starts the LATE\_CHECKOUT flow,
  whose required fields are time and name, and the prefill stores the two guests
  it read in \<^verbatim>\<open>collected\<close>: a key that is not in \<^verbatim>\<open>required\<close>.
\<close>

theorem late_checkout_stores_guests:
  "getServiceFlow ''42'' (tbl (hears party_message guest_world)) = Some party_flow
   \<and> required party_flow = Some [''time'', ''name'']
   \<and> collected party_flow = Some [(''guests'', Num 2)]
   \<and> \<not> within_required party_flow"
  by (simp add: party_stored) (simp add: party_flow_def within_required_def)

lemma slots_only_set_key:
  "slots_only col \<Longrightarrow> is_slot k \<Longrightarrow> slots_only (set_key k v col)"
  by (induction col) (simp_all add: slots_only_def)

lemma parseForField_slot:
  "parseForField clk f m = Some v \<Longrightarrow> is_slot f"
  by (simp add: parseForField_def is_slot_def split: if_splits)

lemma writes_ask_confirm:
  "writes (ask_confirm env c key stp ws effs col) = ws"
  by (simp add: ask_confirm_def Let_def)

lemma slot_keys_only_update:
  "slot_keys_only (Some (fl\<lparr>collected := Some col\<rparr>)) = slots_only col"
  "slot_keys_only (Some (required_update g fl)) = slot_keys_only (Some fl)"
  "slot_keys_only (Some (next_field_update h fl)) = slot_keys_only (Some fl)"
  "slot_keys_only (Some (pending_time_raw_update k fl)) = slot_keys_only (Some fl)"
  "slot_keys_only None"
  by (simp_all add: slot_keys_only_def)

lemma good_continue_flow:
  "slots_only col \<Longrightarrow> list_all slot_keys_only (writes (continue_flow env c key fl r col))"
  by (simp add: continue_flow_def writes_ask_confirm Let_def slot_keys_only_update
      split: list.splits)

lemma good_time_clarified:
  "slots_only col \<Longrightarrow> list_all slot_keys_only (writes (time_clarified env c key fl r col t))"
  by (simp add: time_clarified_def writes_ask_confirm Let_def slot_keys_only_update
      slots_only_set_key is_slot_def split: option.splits)

lemma good_fill_field:
  "slots_only col \<Longrightarrow> list_all slot_keys_only (writes (fill_field env c message key fl r col f))"
  by (auto simp add: fill_field_def good_continue_flow Let_def slot_keys_only_update
      slots_only_set_key is_slot_def dest: parseForField_slot
      split: option.splits outcome.splits if_splits)

lemma good_confirm_stage:
  "list_all slot_keys_only (writes (confirm_stage env c message key fl rq col))"
  by (simp add: confirm_stage_def writes_ask_confirm Let_def slot_keys_only_update
      slots_only_def)

lemma good_active_flow:
  assumes "slot_keys_only (Some fl)"
  shows "list_all slot_keys_only (writes (active_flow env c message key fl))"
proof -
  have col: "slots_only (case collected fl of Some x \<Rightarrow> x | None \<Rightarrow> [])"
    using assms by (simp add: slot_keys_only_def slots_only_def split: option.splits)
  show ?thesis
    unfolding active_flow_def Let_def
    using col
    by (simp add: good_confirm_stage good_time_clarified good_fill_field
        good_continue_flow split: req.splits option.splits)
qed

lemma good_legacy_flow:
  "legacy_flow env c message fl pend = Some run \<Longrightarrow> list_all slot_keys_only (writes run)"
  by (auto simp add: legacy_flow_def slot_keys_only_def
      split: if_splits option.splits outcome.splits bool.splits)

lemma slot_keys_only_record:
  "slot_keys_only (Some \<lparr> pending = a, step = b, service_key = k, required = r,
      collected = Some col, next_field = n, pending_time_raw = p \<rparr>) = slots_only col"
  "slot_keys_only (Some \<lparr> pending = a, step = b, service_key = k, required = r,
      collected = None, next_field = n, pending_time_raw = p \<rparr>)"
  by (simp_all add: slot_keys_only_def)

lemma good_start_flow:
  "list_all slot_keys_only (writes (start_flow env c message key rq stp))"
  by (simp add: start_flow_def writes_ask_confirm Let_def slot_keys_only_record
      slot_keys_only_update slots_only_def is_slot_def
      split: outcome.splits req.splits option.splits list.splits)

lemma good_db_lookup:
  "list_all slot_keys_only (fst (db_lookup env c message))"
  by (simp add: db_lookup_def Let_def good_start_flow split: catalogue.splits found.splits)

lemma good_regex_fallback:
  "list_all slot_keys_only (writes (regex_fallback env c message))"
  by (simp add: regex_fallback_def Let_def good_start_flow split: option.splits)

lemma good_new_request:
  "list_all slot_keys_only (writes (new_request env c message))"
proof (cases "db_lookup env c message")
  case (fields ws effs res)
  then show ?thesis
    using good_db_lookup [of env c message]
    by (cases res) (simp_all add: new_request_def Let_def good_regex_fallback)
qed

lemma good_service_run:
  assumes "slot_keys_only existing"
  shows "list_all slot_keys_only (writes (service_run env c text existing))"
proof (cases existing)
  case None
  then show ?thesis
    by (simp add: service_run_def Let_def good_new_request)
next
  case (Some fl)
  then have "slot_keys_only (Some fl)"
    using assms by simp
  then show ?thesis
    using Some
    by (auto simp add: service_run_def Let_def good_new_request good_active_flow
        dest: good_legacy_flow split: option.splits)
qed

lemma flows_ok_getServiceFlow:
  "flows_ok t \<Longrightarrow> slot_keys_only (getServiceFlow c t)"
proof -
  assume ok: "flows_ok t"
  have "list_all (\<lambda>r. slot_keys_only (service_flow r)) (filter (\<lambda>r. conversation_id r = c) t)"
    using ok by (simp add: flows_ok_def list_all_iff)
  then show ?thesis
    by (cases "filter (\<lambda>r. conversation_id r = c) t")
      (simp_all add: getServiceFlow_def slot_keys_only_def)
qed

lemma flows_ok_update_where:
  "flows_ok t \<Longrightarrow> (\<And>r. slot_keys_only (service_flow r) \<Longrightarrow> slot_keys_only (service_flow (f r)))
    \<Longrightarrow> flows_ok (update_where P f t)"
  by (induction t) (simp_all add: flows_ok_def update_where_def)

lemma flows_ok_setServiceFlow:
  "flows_ok t \<Longrightarrow> slot_keys_only f \<Longrightarrow> flows_ok (setServiceFlow c f t)"
  by (simp add: setServiceFlow_def flows_ok_update_where)

lemma flows_ok_fold:
  "flows_ok t \<Longrightarrow> list_all slot_keys_only ws \<Longrightarrow> flows_ok (fold (setServiceFlow c) ws t)"
  by (induction ws arbitrary: t) (simp_all add: flows_ok_setServiceFlow)

lemma flows_ok_handleService:
  "flows_ok (tbl w) \<Longrightarrow> flows_ok (tbl (snd (handleService env c text w)))"
  by (simp add: handleService_def Let_def flows_ok_fold good_service_run flows_ok_getServiceFlow)

lemma flows_ok_ensureState:
  "flows_ok t \<Longrightarrow> flows_ok (ensureState p c t)"
  by (simp add: ensureState_def flows_ok_def fresh_row_def slot_keys_only_def)

lemma reachable_flows_ok:
  "reachable t \<Longrightarrow> flows_ok t"
proof (induction rule: reachable.induct)
  case no_rows
  show ?case by (simp add: flows_ok_def)
next
  case (new_row t p c)
  then show ?case by (simp add: flows_ok_ensureState)
next
  case (other_columns t f P)
  then show ?case by (simp add: flows_ok_update_where)
next
  case (message t w env c msg)
  then show ?case by (simp add: flows_ok_handleService)
qed

text \<open>
  C4 (amended). In every table the system can reach, the \<^verbatim>\<open>collected\<close> map of a stored
  flow holds only keys among the four slots guests, time, date and name: the
  prefill stores every slot it reads in the opening message, required or not,
  and a later answer fills the current field, which is a slot.
\<close>

theorem collected_holds_slot_keys_only:
  assumes "reachable t" and "getServiceFlow c t = Some fl" and "collected fl = Some col"
  shows "set (map fst col) \<subseteq> {''guests'', ''time'', ''date'', ''name''}"
proof -
  have "slot_keys_only (Some fl)"
    using reachable_flows_ok [OF assms(1)] flows_ok_getServiceFlow [of t c] assms(2) by simp
  then have "slots_only col"
    using assms(3) by (simp add: slot_keys_only_def)
  then show ?thesis
    by (auto simp add: slots_only_def is_slot_def list_all_iff)
qed


theorem collected_holds_slot_keys_only_witness:
  "reachable (tbl (hears party_message guest_world))
   \<and> getServiceFlow ''42'' (tbl (hears party_message guest_world)) = Some party_flow
   \<and> collected party_flow = Some [(''guests'', Num 2)]
   \<and> set (map fst [(''guests'', Num 2)]) \<subseteq> {''guests'', ''time'', ''date'', ''name''}"
proof -
  have "reachable (ensureState ''hotel_demo_1'' ''42'' [])"
    by (rule reachable.new_row) (rule reachable.no_rows)
  then have "reachable (tbl guest_world)"
    by (simp add: ensureState_def guest_world_def)
  then have reach: "reachable (tbl (hears party_message guest_world))"
    unfolding hears_def by (rule reachable.message) simp
  have col: "collected party_flow = Some [(''guests'', Num 2)]"
    by (simp add: party_flow_def)
  show ?thesis
    using collected_holds_slot_keys_only [OF reach party_stored col] reach party_stored col
    by simp
qed


section \<open>The pause gate and the pause command\<close>

text \<open>
  C7. When the stored state of the conversation says paused, a message that is no
  staff command is stopped at the pause gate: the router returns skipped with the
  reason paused and leaves the world as it was, so it issues no platform call
  and sends no reply. Neither the deadlines of the row nor the clock are asked.
\<close>

theorem pause_gate_blocks_guest_messages:
  assumes "getState propertyId conversationId (tbl w) = Some st" and "paused st"
    and "parseCommand text = None"
  shows "intentRouter env decide_fn propertyId conversationId text w = (Returns (skipped ''paused''), w)
    \<and> r_skipped (skipped ''paused'') \<and> r_reason (skipped ''paused'') = Some ''paused''
    \<and> calls (snd (intentRouter env decide_fn propertyId conversationId text w)) = calls w"
  using assms by (simp add: intentRouter_def pauseGate_def skipped_def no_route_def)

theorem pause_gate_blocks_guest_messages_witness:
  "getState ''hotel_demo_1'' ''42'' (tbl overdue_world) = Some overdue_row
   \<and> paused overdue_row \<and> resume_at overdue_row = Some 1800000 \<and> now overdue_world = 5000000
   \<and> parseCommand ''hello'' = None
   \<and> intentRouter (router_settings staff_env) (decide True) ''hotel_demo_1'' ''42'' ''hello'' overdue_world
       = (Returns (skipped ''paused''), overdue_world)
   \<and> calls (snd (intentRouter (router_settings staff_env) (decide True) ''hotel_demo_1'' ''42'' ''hello''
        overdue_world)) = []"
proof -
  have state: "getState ''hotel_demo_1'' ''42'' (tbl overdue_world) = Some overdue_row"
    by (simp add: overdue_world_def overdue_row_def getState_def is_key_def fresh_row_def)
  have row: "paused overdue_row" "resume_at overdue_row = Some 1800000"
    by (simp_all add: overdue_row_def)
  have no_command: "parseCommand ''hello'' = None"
    by code_simp
  have world: "now overdue_world = 5000000" "calls overdue_world = []"
    by (simp_all add: overdue_world_def)
  show ?thesis
    using pause_gate_blocks_guest_messages [OF state row(1) no_command,
        of "router_settings staff_env" "decide True"]
    by (simp add: state row no_command world)
qed

lemma getState_has_key:
  assumes "getState p c t = Some st"
  shows "list_ex (is_key p c) t"
proof -
  have "filter (is_key p c) t \<noteq> []"
    using assms by (auto simp add: getState_def)
  then show ?thesis
    by (auto simp add: filter_empty_conv list_ex_iff)
qed

text \<open>A call that may throw, followed by the two ways on.\<close>

lemma on_returns:
  "fst x = Returns v \<Longrightarrow>
   (case x of (Throws, w1) \<Rightarrow> f w1 | (Returns y, w1) \<Rightarrow> g y w1) = g v (snd x)"
  by (cases x) simp

lemma on_throws:
  "fst x = Throws \<Longrightarrow>
   (case x of (Throws, w1) \<Rightarrow> f w1 | (Returns y, w1) \<Rightarrow> g y w1) = f (snd x)"
  by (cases x) simp

lemma handleHardPause_accepted:
  assumes "getState p c (tbl w) = Some st" and "accepts_minutes w minutes"
  shows "fst (handleHardPause p c minutes w) = Returns ()"
    and "getState p c (tbl (snd (handleHardPause p c minutes w))) =
           Some (st\<lparr>paused := True, resume_at := Some (now w + minutes * 60 * 1000),
                     paused_until := None, watch_mode := False\<rparr>)"
  using assms
  by (simp_all add: handleHardPause_def emit_def Let_def manualPauseForMinutes_def
      getState_update_key)

lemma handleHardPause_refused:
  assumes "getState p c (tbl w) = Some st" and "\<not> accepts_minutes w minutes"
  shows "fst (handleHardPause p c minutes w) = Throws"
    and "tbl (snd (handleHardPause p c minutes w)) = tbl w"
  using assms getState_has_key [OF assms(1)]
  by (simp_all add: handleHardPause_def emit_def Let_def manualPauseForMinutes_def)

lemma auto_pause_private:
  "messageType m = ''note'' \<or> isPrivate m \<Longrightarrow> auto_pause env m w = (Returns (), w)"
  by (auto simp add: auto_pause_def Let_def)

lemma botoff_in_webhook:
  assumes "wm_conversationId m \<noteq> []" and "eventType m = ''message_created''"
    and "senderType m = ''agent'' \<or> senderType m = ''user''"
    and "messageType m = ''note'' \<or> isPrivate m" and "\<not> loopdup_bot m"
    and "rx_test (Lit ''@botoff'') True (content m)"
  shows "chatwoot_webhook env m w =
     (case handleHardPause (PROPERTY_ID (wh_config env)) (wm_conversationId m)
             (AUTO_RESUME_MINUTES (wh_config env)) w of
        (Throws, w1) \<Rightarrow> (Failed_500, w1)
      | (Returns finished, w1) \<Rightarrow> (Hard_paused_by_command, w1))"
  using assms
  by (auto simp add: chatwoot_webhook_def Let_def auto_pause_private staff_private_note_def
      looksLikeOurAutoPauseNote_def)

lemma botoff_in_router:
  assumes "parseCommand text = Some Cmd_pause"
  shows "intentRouter renv decide_fn p c text w =
     (case handleHardPause p c (auto_resume_minutes renv) w of
        (Throws, w1) \<Rightarrow> (Throws, w1)
      | (Returns finished, w1) \<Rightarrow>
          (Returns (command_result True ''hard_pause'' ''command_pause''), w1))"
  using assms by (simp add: intentRouter_def)

text \<open>
  When the database refuses the configured number of minutes, the command fails:
  the webhook answers 500, the router throws, and the row is as it was.
\<close>

lemma botoff_refused:
  assumes row: "getState (PROPERTY_ID (wh_config env)) (wm_conversationId m) (tbl w) = Some st0"
    and conversation: "wm_conversationId m \<noteq> []" "eventType m = ''message_created''"
    and staff: "senderType m = ''agent'' \<or> senderType m = ''user''"
    and private_note: "messageType m = ''note'' \<or> isPrivate m" "\<not> loopdup_bot m"
    and botoff: "rx_test (Lit ''@botoff'') True (content m)"
    and command: "parseCommand text = Some Cmd_pause"
    and refused: "\<not> accepts_minutes w (AUTO_RESUME_MINUTES (wh_config env))"
      "\<not> accepts_minutes w (auto_resume_minutes renv)"
  shows "fst (chatwoot_webhook env m w) = Failed_500"
    and "tbl (snd (chatwoot_webhook env m w)) = tbl w"
    and "fst (intentRouter renv decide_fn (PROPERTY_ID (wh_config env)) (wm_conversationId m) text w)
           = Throws"
    and "tbl (snd (intentRouter renv decide_fn (PROPERTY_ID (wh_config env)) (wm_conversationId m)
                     text w)) = tbl w"
  by (simp_all add: botoff_in_webhook [OF conversation staff private_note botoff]
      botoff_in_router [OF command]
      on_throws [OF handleHardPause_refused(1) [OF row refused(1)]]
      on_throws [OF handleHardPause_refused(1) [OF row refused(2)]]
      handleHardPause_refused(2) [OF row refused(1)] handleHardPause_refused(2) [OF row refused(2)])

text \<open>
  C2 (amended). When staff send "@botoff 15", or "@botoff" with anything or nothing
  after it, as a private note to the webhook or as a message to the router, a
  conversation that has a state row is paused afterwards, and its resume
  deadline is the clock plus the configured \<^verbatim>\<open>AUTO_RESUME_MINUTES\<close> (the setting
  \<^verbatim>\<open>auto_resume_minutes\<close> of the router), a whole number of minutes that the database
  takes as an interval; the command's own number is not read.
\<close>

theorem botoff_pauses_for_the_configured_minutes:
  assumes row: "getState (PROPERTY_ID (wh_config env)) (wm_conversationId m) (tbl w) = Some st0"
    and conversation: "wm_conversationId m \<noteq> []" "eventType m = ''message_created''"
    and staff: "senderType m = ''agent'' \<or> senderType m = ''user''"
    and private_note: "messageType m = ''note'' \<or> isPrivate m" "\<not> loopdup_bot m"
    and botoff: "rx_test (Lit ''@botoff'') True (content m)"
    and command: "parseCommand text = Some Cmd_pause"
    and accepted: "accepts_minutes w (AUTO_RESUME_MINUTES (wh_config env))"
      "accepts_minutes w (auto_resume_minutes renv)"
  shows "(\<exists>st. getState (PROPERTY_ID (wh_config env)) (wm_conversationId m)
                 (tbl (snd (chatwoot_webhook env m w))) = Some st
              \<and> paused st
              \<and> resume_at st = Some (now w + AUTO_RESUME_MINUTES (wh_config env) * 60 * 1000))
       \<and> (\<exists>st. getState (PROPERTY_ID (wh_config env)) (wm_conversationId m)
                 (tbl (snd (intentRouter renv decide_fn (PROPERTY_ID (wh_config env))
                              (wm_conversationId m) text w))) = Some st
              \<and> paused st
              \<and> resume_at st = Some (now w + auto_resume_minutes renv * 60 * 1000))
       \<and> fst (chatwoot_webhook env m w) = Hard_paused_by_command
       \<and> fst (intentRouter renv decide_fn (PROPERTY_ID (wh_config env)) (wm_conversationId m) text w)
           = Returns (command_result True ''hard_pause'' ''command_pause'')"
proof -
  let ?p = "PROPERTY_ID (wh_config env)" and ?c = "wm_conversationId m"
  have webhook: "chatwoot_webhook env m w =
      (Hard_paused_by_command, snd (handleHardPause ?p ?c (AUTO_RESUME_MINUTES (wh_config env)) w))"
    by (simp add: botoff_in_webhook [OF conversation staff private_note botoff]
        on_returns [OF handleHardPause_accepted(1) [OF row accepted(1)]])
  have router: "intentRouter renv decide_fn ?p ?c text w =
      (Returns (command_result True ''hard_pause'' ''command_pause''),
       snd (handleHardPause ?p ?c (auto_resume_minutes renv) w))"
    by (simp add: botoff_in_router [OF command]
        on_returns [OF handleHardPause_accepted(1) [OF row accepted(2)]])
  show ?thesis
    by (simp add: webhook router handleHardPause_accepted(2) [OF row accepted(1)]
        handleHardPause_accepted(2) [OF row accepted(2)])
qed

lemma botoff_15_matches: "rx_test (Lit ''@botoff'') True ''@botoff 15''"
  by code_simp

lemma botoff_15_command: "parseCommand ''@botoff 15'' = Some Cmd_pause"
  by code_simp

lemma staff_scene:
  "PROPERTY_ID (wh_config staff_env) = ''hotel_demo_1''"
  "AUTO_RESUME_MINUTES (wh_config staff_env) = 30"
  "auto_resume_minutes (router_settings staff_env) = 30"
  "wm_conversationId botoff_note = ''42''"
  "eventType botoff_note = ''message_created''"
  "senderType botoff_note = ''user''"
  "messageType botoff_note = ''note''"
  "\<not> loopdup_bot botoff_note"
  "content botoff_note = ''@botoff 15''"
  "now staff_world = 1000000"
  "accepts_minutes staff_world 30"
  "getState ''hotel_demo_1'' ''42'' (tbl staff_world) = Some (fresh_row ''hotel_demo_1'' ''42'')"
  by (simp_all add: staff_env_def ex_config_def router_settings_def botoff_note_def staff_world_def
      getState_def is_key_def fresh_row_def)

text \<open>
  With the default of 30 minutes, "@botoff 15" at 1000000 ms sets the deadline to
  2800000 ms, which is 30 minutes later; 15 minutes later is 1900000 ms.
\<close>

theorem botoff_15_pauses_for_30_minutes:
  "map_option (\<lambda>st. (paused st, resume_at st))
      (getState ''hotel_demo_1'' ''42'' (tbl (snd (chatwoot_webhook staff_env botoff_note staff_world))))
     = Some (True, Some 2800000)
   \<and> map_option (\<lambda>st. (paused st, resume_at st))
      (getState ''hotel_demo_1'' ''42''
         (tbl (snd (intentRouter (router_settings staff_env) (decide True) ''hotel_demo_1'' ''42''
                      ''@botoff 15'' staff_world))))
     = Some (True, Some 2800000)
   \<and> now staff_world + 15 * 60 * 1000 = 1900000"
proof -
  have paused: "fst (handleHardPause ''hotel_demo_1'' ''42'' 30 staff_world) = Returns ()"
    "getState ''hotel_demo_1'' ''42'' (tbl (snd (handleHardPause ''hotel_demo_1'' ''42'' 30 staff_world)))
       = Some ((fresh_row ''hotel_demo_1'' ''42'')\<lparr>paused := True,
            resume_at := Some (now staff_world + 30 * 60 * 1000), paused_until := None,
            watch_mode := False\<rparr>)"
    using handleHardPause_accepted [OF staff_scene(12) staff_scene(11)] by simp_all
  have webhook: "snd (chatwoot_webhook staff_env botoff_note staff_world) =
      snd (handleHardPause ''hotel_demo_1'' ''42'' 30 staff_world)"
    by (simp add: botoff_in_webhook staff_scene botoff_15_matches on_returns [OF paused(1)])
  have router: "snd (intentRouter (router_settings staff_env) (decide True) ''hotel_demo_1'' ''42''
      ''@botoff 15'' staff_world) = snd (handleHardPause ''hotel_demo_1'' ''42'' 30 staff_world)"
    by (simp add: botoff_in_router botoff_15_command staff_scene on_returns [OF paused(1)])
  show ?thesis
    by (simp add: webhook router paused(2) staff_scene)
qed

theorem botoff_pauses_for_the_configured_minutes_witness:
  "getState (PROPERTY_ID (wh_config staff_env)) (wm_conversationId botoff_note) (tbl staff_world)
      = Some (fresh_row ''hotel_demo_1'' ''42'')
   \<and> rx_test (Lit ''@botoff'') True (content botoff_note)
   \<and> parseCommand ''@botoff 15'' = Some Cmd_pause
   \<and> accepts_minutes staff_world (AUTO_RESUME_MINUTES (wh_config staff_env))
   \<and> (\<exists>st. getState ''hotel_demo_1'' ''42'' (tbl (snd (chatwoot_webhook staff_env botoff_note staff_world)))
               = Some st
            \<and> paused st \<and> resume_at st = Some (1000000 + 30 * 60 * 1000))
   \<and> (\<exists>st. getState ''hotel_demo_1'' ''42''
               (tbl (snd (intentRouter (router_settings staff_env) (decide True) ''hotel_demo_1'' ''42''
                            ''@botoff 15'' staff_world))) = Some st
            \<and> paused st \<and> resume_at st = Some (1000000 + 30 * 60 * 1000))
   \<and> fst (chatwoot_webhook staff_env botoff_note staff_world) = Hard_paused_by_command"
proof -
  have row: "getState (PROPERTY_ID (wh_config staff_env)) (wm_conversationId botoff_note) (tbl staff_world)
      = Some (fresh_row ''hotel_demo_1'' ''42'')"
    by (simp add: staff_scene)
  have matches: "rx_test (Lit ''@botoff'') True (content botoff_note)"
    by (simp add: staff_scene botoff_15_matches)
  have accepted: "accepts_minutes staff_world (AUTO_RESUME_MINUTES (wh_config staff_env))"
    "accepts_minutes staff_world (auto_resume_minutes (router_settings staff_env))"
    by (simp_all add: staff_scene)
  show ?thesis
    using botoff_pauses_for_the_configured_minutes [OF row _ _ _ _ _ matches botoff_15_command accepted,
        of "decide True"] row matches accepted
    by (simp add: staff_scene botoff_15_command)
qed

end
